theory Spec2Isabelle
  imports Main "HOL-Library.Word" "HOL-Library.Monad_Syntax"
begin

unbundle bit_operations_syntax

section \<open>The SPI bus and the card behind it\<close>

text \<open>
  The block layer talks to the card through byte exchanges on the SPI bus. Every exchange
  is full duplex: the host shifts one byte out and the card shifts one byte back. The card
  is modelled by the byte it answers at each exchange (\<open>miso\<close>, indexed by the number of
  exchanges since power-up), so that a theorem quantified over the bus holds for every
  behaviour of the card. \<open>cs\<close> is the level of the chip-select line: \<open>True\<close> is high
  (deasserted), \<open>False\<close> is low (asserted).
\<close>

type_synonym u8 = "8 word"
type_synonym u16 = "16 word"
type_synonym u32 = "32 word"

record spi_bus =
  cs :: bool
  miso :: "nat \<Rightarrow> u8"
  clk :: nat
  mosi :: "u8 list"

text \<open>
  The constants of the headers sd_spi_base.h, sd_spi_data_access.h and sd_spi_rwe.h, which
  the block layer uses by name only. They are parameters of the model. OUT_OF_IDLE and
  TIMEOUT_LIMIT are used by the later revision of the block layer only.
\<close>

record sd_defs =
  crc_of :: "u8 \<Rightarrow> u32 \<Rightarrow> u8"
  R1_POLL_LIMIT :: nat
  R1_TIMEOUT :: u8
  R1_ERROR :: u16
  READ_SUCCESS :: u16
  START_TOKEN_TIMEOUT :: u16
  ERASE_SUCCESSFUL :: u16
  SET_ERASE_START_ADDR_ERROR :: u16
  SET_ERASE_END_ADDR_ERROR :: u16
  ERASE_ERROR :: u16
  ERASE_BUSY_TIMEOUT :: u16
  OUT_OF_IDLE :: u8
  TIMEOUT_LIMIT :: nat

text \<open>The command indices, as the comments of the source number them.\<close>

definition READ_SINGLE_BLOCK :: u8 where "READ_SINGLE_BLOCK = 17"
definition ERASE_WR_BLK_START_ADDR :: u8 where "ERASE_WR_BLK_START_ADDR = 32"
definition ERASE_WR_BLK_END_ADDR :: u8 where "ERASE_WR_BLK_END_ADDR = 33"
definition ERASE :: u8 where "ERASE = 38"

text \<open>Modelled from the spec: BLOCK_LEN of sd_spi_base.h, the 512 bytes of a block.\<close>

definition BLOCK_LEN :: nat where "BLOCK_LEN = 512"

text \<open>Modelled from the spec: the macros CS_LOW and CS_HIGH of sd_spi_base.h, which
  assert and deassert chip-select.\<close>

definition CS_LOW :: "spi_bus \<Rightarrow> spi_bus" where
  "CS_LOW bus = bus\<lparr>cs := False\<rparr>"

definition CS_HIGH :: "spi_bus \<Rightarrow> spi_bus" where
  "CS_HIGH bus = bus\<lparr>cs := True\<rparr>"

text \<open>Modelled from the spec: SD_SendByteSPI and SD_ReceiveByteSPI of sd_spi_base.c.
  Receiving transmits a dummy 0xFF and reads what the card shifted back.\<close>

definition SD_SendByteSPI :: "u8 \<Rightarrow> spi_bus \<Rightarrow> spi_bus" where
  "SD_SendByteSPI b bus = bus\<lparr>clk := Suc (clk bus), mosi := mosi bus @ [b]\<rparr>"

definition SD_ReceiveByteSPI :: "spi_bus \<Rightarrow> u8 \<times> spi_bus" where
  "SD_ReceiveByteSPI bus = (miso bus (clk bus), SD_SendByteSPI 0xFF bus)"

text \<open>Modelled from the spec: SD_SendCommand of sd_spi_base.c sends the six-byte frame
  [0x40 | cmd, arg[31:24], arg[23:16], arg[15:8], arg[7:0], crc].\<close>

definition SD_SendCommand :: "sd_defs \<Rightarrow> u8 \<Rightarrow> u32 \<Rightarrow> spi_bus \<Rightarrow> spi_bus" where
  "SD_SendCommand D cmd arg bus =
     fold SD_SendByteSPI
       [0x40 OR cmd, ucast (drop_bit 24 arg), ucast (drop_bit 16 arg),
        ucast (drop_bit 8 arg), ucast arg, crc_of D cmd arg] bus"

text \<open>Modelled from the spec: SD_GetR1 of sd_spi_base.c polls for a byte whose most
  significant bit is 0, for a bounded number of dummy reads, and answers the timeout
  value when none came.\<close>

fun SD_GetR1_poll :: "sd_defs \<Rightarrow> nat \<Rightarrow> spi_bus \<Rightarrow> u8 \<times> spi_bus" where
  "SD_GetR1_poll D 0 bus = (R1_TIMEOUT D, bus)"
| "SD_GetR1_poll D (Suc n) bus =
     (let (r, bus') = SD_ReceiveByteSPI bus
      in if r AND 0x80 = 0 then (r, bus') else SD_GetR1_poll D n bus')"

definition SD_GetR1 :: "sd_defs \<Rightarrow> spi_bus \<Rightarrow> u8 \<times> spi_bus" where
  "SD_GetR1 D bus = SD_GetR1_poll D (R1_POLL_LIMIT D) bus"

section \<open>SD_ReadSingleBlock (sd_spi_data_access.c)\<close>

text \<open>
  The caller's array is the memory the pointer \<open>block\<close> addresses, by index. The function
  returns the 16-bit code, the array and the bus.

  The loop that waits for the Start Block Token: \<open>sbt\<close> is the byte read last and
  \<open>timeout\<close> the 8-bit counter. The result says whether the wait timed out.
\<close>

function wait_start_token :: "u8 \<Rightarrow> u8 \<Rightarrow> spi_bus \<Rightarrow> bool \<times> spi_bus" where
  "wait_start_token sbt timeout bus =
     (if sbt \<noteq> 0xFE then
        (let (sbt', bus') = SD_ReceiveByteSPI bus;
             timeout' = timeout + 1
         in if timeout' > 0xFE then (True, bus')
            else wait_start_token sbt' timeout' bus')
      else (False, bus))"
  by pat_completeness auto
termination
proof (relation "measure (\<lambda>(sbt, timeout, bus). unat (0xFE - timeout))", goal_cases)
  case 1
  show ?case by simp
next
  case (2 sbt timeout bus x sbt' bus' timeout')
  then have le: "\<not> 0xFE < timeout + 1" by simp
  have ne: "0xFE - timeout \<noteq> 0"
  proof
    assume "0xFE - timeout = 0"
    then have "timeout = 0xFE" by simp
    with le show False by simp
  qed
  have pred: "unat (y - 1) < unat y" if "y \<noteq> 0" for y :: u8
    using that by (simp add: unat_minus_one unat_gt_0)
  have eq: "0xFE - (timeout + 1) = (0xFE - timeout) - 1" by simp
  have "unat (0xFE - (timeout + 1)) < unat (0xFE - timeout)"
    unfolding eq by (rule pred [OF ne])
  with 2 show ?case by simp
qed

text \<open>The loop \<open>for (i = 0; i < BLOCK_LEN; i++) block[i] = SD_ReceiveByteSPI();\<close>\<close>

function load_block :: "nat \<Rightarrow> (nat \<Rightarrow> u8) \<Rightarrow> spi_bus \<Rightarrow> (nat \<Rightarrow> u8) \<times> spi_bus" where
  "load_block i block bus =
     (if i < BLOCK_LEN then
        (let (b, bus') = SD_ReceiveByteSPI bus
         in load_block (Suc i) (block(i := b)) bus')
      else (block, bus))"
  by pat_completeness auto
termination
  by (relation "measure (\<lambda>(i, block, bus). BLOCK_LEN - i)") auto

definition SD_ReadSingleBlock ::
  "sd_defs \<Rightarrow> u32 \<Rightarrow> (nat \<Rightarrow> u8) \<Rightarrow> spi_bus \<Rightarrow> u16 \<times> (nat \<Rightarrow> u8) \<times> spi_bus" where
  "SD_ReadSingleBlock D blockAddress block bus =
     (let bus = CS_LOW bus;
          bus = SD_SendCommand D READ_SINGLE_BLOCK blockAddress bus;
          (r1, bus) = SD_GetR1 D bus
      in if r1 > 0 then (R1_ERROR D OR ucast r1, block, CS_HIGH bus)
         else
           (let (sbt, bus) = SD_ReceiveByteSPI bus;
                (timed_out, bus) = wait_start_token sbt 0 bus
            in if timed_out then (START_TOKEN_TIMEOUT D OR ucast r1, block, CS_HIGH bus)
               else
                 (let (block, bus) = load_block 0 block bus;
                      (crc1, bus) = SD_ReceiveByteSPI bus;
                      (crc2, bus) = SD_ReceiveByteSPI bus;
                      (spdr, bus) = SD_ReceiveByteSPI bus
                  in (READ_SUCCESS D OR ucast r1, block, CS_HIGH bus))))"

section \<open>SD_EraseBlocks (sd_spi_data_access.c)\<close>

text \<open>The loop \<open>while (SD_ReceiveByteSPI() == 0) { if (timeout++ > 0xFFFE) return ...; }\<close>
  with its 16-bit counter. The result says whether the wait timed out.\<close>

function erase_busy_wait :: "u16 \<Rightarrow> spi_bus \<Rightarrow> bool \<times> spi_bus" where
  "erase_busy_wait timeout bus =
     (let (b, bus') = SD_ReceiveByteSPI bus
      in if b = 0 then
           (if timeout > 0xFFFE then (True, bus')
            else erase_busy_wait (timeout + 1) bus')
         else (False, bus'))"
  by pat_completeness auto
termination
proof (relation "measure (\<lambda>(timeout, bus). unat (0xFFFF - timeout))", goal_cases)
  case 1
  show ?case by simp
next
  case (2 timeout bus x b bus')
  then have "\<not> 0xFFFE < timeout" by simp
  then have "unat (0xFFFF - (timeout + 1)) < unat (0xFFFF - timeout)"
    by (simp add: unat_sub word_le_nat_alt not_less unat_word_ariths)
  then show ?case by simp
qed

definition SD_EraseBlocks :: "sd_defs \<Rightarrow> u32 \<Rightarrow> u32 \<Rightarrow> spi_bus \<Rightarrow> u16 \<times> spi_bus" where
  "SD_EraseBlocks D startBlockAddress endBlockAddress bus =
     (let bus = CS_LOW bus;
          bus = SD_SendCommand D ERASE_WR_BLK_START_ADDR startBlockAddress bus;
          (r1, bus) = SD_GetR1 D bus;
          bus = CS_HIGH bus
      in if r1 > 0 then (SET_ERASE_START_ADDR_ERROR D OR R1_ERROR D OR ucast r1, bus)
         else
           (let bus = CS_LOW bus;
                bus = SD_SendCommand D ERASE_WR_BLK_END_ADDR endBlockAddress bus;
                (r1, bus) = SD_GetR1 D bus;
                bus = CS_HIGH bus
            in if r1 > 0 then (SET_ERASE_END_ADDR_ERROR D OR R1_ERROR D OR ucast r1, bus)
               else
                 (let bus = CS_LOW bus;
                      bus = SD_SendCommand D ERASE 0 bus;
                      (r1, bus) = SD_GetR1 D bus
                  in if r1 > 0 then (ERASE_ERROR D OR R1_ERROR D OR ucast r1, CS_HIGH bus)
                     else
                       (let (timed_out, bus) = erase_busy_wait 0 bus
                        in if timed_out then (ERASE_BUSY_TIMEOUT D OR ucast r1, bus)
                           else (ERASE_SUCCESSFUL D, CS_HIGH bus)))))"

section \<open>sd_ReadSingleBlock and sd_EraseBlocks (sd_spi_rwe.c)\<close>

text \<open>
  The later revision of the block layer calls the same functions of the base layer under
  the names CS_SD_LOW, CS_SD_HIGH, sd_SendCommand, sd_GetR1 and sd_ReceiveByteSPI, compares
  R1 with the constant OUT_OF_IDLE and bounds its waits with the constant TIMEOUT_LIMIT.
  The counters wrap, so a wait whose bound the counter cannot pass runs for as long as the
  card keeps it going: the two loops are partial functions, and \<open>None\<close> is a call that
  does not return.

  The loop \<open>while (sd_ReceiveByteSPI() != 0xFE) { timeout++; if (timeout > TIMEOUT_LIMIT)
  ... }\<close> with its 8-bit counter. The result says whether the wait timed out.
\<close>

partial_function (option) sd_wait_start_token ::
  "sd_defs \<Rightarrow> u8 \<Rightarrow> spi_bus \<Rightarrow> (bool \<times> spi_bus) option" where
  "sd_wait_start_token D timeout bus =
     (if fst (SD_ReceiveByteSPI bus) \<noteq> 0xFE then
        (if unat (timeout + 1) > TIMEOUT_LIMIT D
         then Some (True, snd (SD_ReceiveByteSPI bus))
         else sd_wait_start_token D (timeout + 1) (snd (SD_ReceiveByteSPI bus)))
      else Some (False, snd (SD_ReceiveByteSPI bus)))"

declare sd_wait_start_token.simps [code]

definition sd_ReadSingleBlock ::
  "sd_defs \<Rightarrow> u32 \<Rightarrow> (nat \<Rightarrow> u8) \<Rightarrow> spi_bus \<Rightarrow> (u16 \<times> (nat \<Rightarrow> u8) \<times> spi_bus) option" where
  "sd_ReadSingleBlock D blckAddr blckArr bus =
     (let bus = CS_LOW bus;
          bus = SD_SendCommand D READ_SINGLE_BLOCK blckAddr bus;
          (r1, bus) = SD_GetR1 D bus
      in if r1 \<noteq> OUT_OF_IDLE D then Some (R1_ERROR D OR ucast r1, blckArr, CS_HIGH bus)
         else
           (case sd_wait_start_token D 0 bus of
              None \<Rightarrow> None
            | Some (timed_out, bus) \<Rightarrow>
                if timed_out
                then Some (START_TOKEN_TIMEOUT D OR ucast r1, blckArr, CS_HIGH bus)
                else
                  (let (blckArr, bus) = load_block 0 blckArr bus;
                       (crc1, bus) = SD_ReceiveByteSPI bus;
                       (crc2, bus) = SD_ReceiveByteSPI bus;
                       (spdr, bus) = SD_ReceiveByteSPI bus
                   in Some (READ_SUCCESS D OR ucast r1, blckArr, CS_HIGH bus))))"

text \<open>The loop \<open>while (sd_ReceiveByteSPI() == 0) { if (timeout++ > 4 * TIMEOUT_LIMIT)
  return ...; }\<close> with its 16-bit counter. The product is one of the 16-bit \<open>int\<close>s of the
  target and overflows above 32767, which the caller excludes.\<close>

partial_function (option) sd_erase_busy_wait ::
  "sd_defs \<Rightarrow> u16 \<Rightarrow> spi_bus \<Rightarrow> (bool \<times> spi_bus) option" where
  "sd_erase_busy_wait D timeout bus =
     (if fst (SD_ReceiveByteSPI bus) = 0 then
        (if unat timeout > 4 * TIMEOUT_LIMIT D
         then Some (True, snd (SD_ReceiveByteSPI bus))
         else sd_erase_busy_wait D (timeout + 1) (snd (SD_ReceiveByteSPI bus)))
      else Some (False, snd (SD_ReceiveByteSPI bus)))"

declare sd_erase_busy_wait.simps [code]

definition sd_EraseBlocks :: "sd_defs \<Rightarrow> u32 \<Rightarrow> u32 \<Rightarrow> spi_bus \<Rightarrow> (u16 \<times> spi_bus) option" where
  "sd_EraseBlocks D startBlckAddr endBlckAddr bus =
     (let bus = CS_LOW bus;
          bus = SD_SendCommand D ERASE_WR_BLK_START_ADDR startBlckAddr bus;
          (r1, bus) = SD_GetR1 D bus;
          bus = CS_HIGH bus
      in if r1 \<noteq> OUT_OF_IDLE D
         then Some (SET_ERASE_START_ADDR_ERROR D OR R1_ERROR D OR ucast r1, bus)
         else
           (let bus = CS_LOW bus;
                bus = SD_SendCommand D ERASE_WR_BLK_END_ADDR endBlckAddr bus;
                (r1, bus) = SD_GetR1 D bus;
                bus = CS_HIGH bus
            in if r1 \<noteq> OUT_OF_IDLE D
               then Some (SET_ERASE_END_ADDR_ERROR D OR R1_ERROR D OR ucast r1, bus)
               else
                 (let bus = CS_LOW bus;
                      bus = SD_SendCommand D ERASE 0 bus;
                      (r1, bus) = SD_GetR1 D bus
                  in if r1 \<noteq> OUT_OF_IDLE D
                     then Some (ERASE_ERROR D OR R1_ERROR D OR ucast r1, CS_HIGH bus)
                     else if 32767 < 4 * TIMEOUT_LIMIT D then None
                     else
                       (case sd_erase_busy_wait D 0 bus of
                          None \<Rightarrow> None
                        | Some (timed_out, bus) \<Rightarrow>
                            if timed_out then Some (ERASE_BUSY_TIMEOUT D OR ucast r1, bus)
                            else Some (ERASE_SUCCESSFUL D, CS_HIGH bus)))))"

declare wait_start_token.simps [simp del]
declare load_block.simps [simp del]
declare erase_busy_wait.simps [simp del]

subsection \<open>Notions used to state the contracts of the block layer\<close>

text \<open>\<open>after_reads n bus\<close> is the bus after \<open>n\<close> dummy reads: \<open>n\<close> more exchanges, each
  of which shifted 0xFF out.\<close>

definition after_reads :: "nat \<Rightarrow> spi_bus \<Rightarrow> spi_bus" where
  "after_reads n bus = bus\<lparr>clk := clk bus + n, mosi := mosi bus @ replicate n 0xFF\<rparr>"

text \<open>\<open>first_token m p n\<close> is the position, counted from exchange \<open>p\<close>, of the first
  Start Block Token 0xFE among the \<open>n\<close> bytes the card answers from exchange \<open>p\<close> on.\<close>

fun first_token :: "(nat \<Rightarrow> u8) \<Rightarrow> nat \<Rightarrow> nat \<Rightarrow> nat option" where
  "first_token m p 0 = None"
| "first_token m p (Suc n) =
     (if m p = 0xFE then Some 0 else map_option Suc (first_token m (Suc p) n))"

text \<open>SD_PrintReadError dispatches on \<open>err & 0xFF00\<close> with the case labels R1_ERROR,
  READ_SUCCESS and START_TOKEN_TIMEOUT: the three flags are values of the upper byte and
  differ from each other.\<close>

definition read_flags_ok :: "sd_defs \<Rightarrow> bool" where
  "read_flags_ok D \<longleftrightarrow>
     READ_SUCCESS D AND 0xFF00 = READ_SUCCESS D \<and>
     R1_ERROR D AND 0xFF00 = R1_ERROR D \<and>
     START_TOKEN_TIMEOUT D AND 0xFF00 = START_TOKEN_TIMEOUT D \<and>
     R1_ERROR D \<noteq> READ_SUCCESS D \<and>
     START_TOKEN_TIMEOUT D \<noteq> READ_SUCCESS D \<and>
     R1_ERROR D \<noteq> START_TOKEN_TIMEOUT D"

text \<open>A set of values for the constants of the absent headers, and a card, used where a
  statement is evaluated on a concrete run.\<close>

definition example_defs :: sd_defs where
  "example_defs =
     \<lparr>crc_of = (\<lambda>cmd arg. 0xFF), R1_POLL_LIMIT = 8, R1_TIMEOUT = 0x80,
      R1_ERROR = 0x8000, READ_SUCCESS = 0x0100, START_TOKEN_TIMEOUT = 0x0200,
      ERASE_SUCCESSFUL = 0x0000, SET_ERASE_START_ADDR_ERROR = 0x0100,
      SET_ERASE_END_ADDR_ERROR = 0x0200, ERASE_ERROR = 0x0400,
      ERASE_BUSY_TIMEOUT = 0x0800, OUT_OF_IDLE = 0, TIMEOUT_LIMIT = 0xFE\<rparr>"

definition idle_bus :: "(nat \<Rightarrow> u8) \<Rightarrow> spi_bus" where
  "idle_bus m = \<lparr>cs = True, miso = m, clk = 0, mosi = []\<rparr>"

section \<open>The FAT volume (FAT.c)\<close>

text \<open>
  FAT.c reads the volume through fat_ReadSingleSector and fat_FindBootSector of fattosd,
  which are external to it. The volume is the map from sector addresses to the bytes of
  each sector.

  Modelled from the spec: fat_ReadSingleSector(lba, buf[512]) fills the 512-byte array with
  the sector at the address. The functions of FAT.c declare their sector arrays with
  \<open>bpb->bytesPerSector\<close> elements; with 512 bytes per sector, the only value with which
  FAT_GetBiosParameterBlock returns BOOT_SECTOR_VALID, these are the 512 elements that the
  model gives every sector array.
\<close>

type_synonym disk = "u32 \<Rightarrow> u8 list"

definition fat_ReadSingleSector :: "disk \<Rightarrow> u32 \<Rightarrow> u8 list" where
  "fat_ReadSingleSector d a = take 512 (d a @ replicate 512 0)"

text \<open>
  A read of an array element. An index outside the array has no defined result in C, and
  the functions below that read at computed indices return \<open>None\<close> in that case, as they
  do for every other run without a defined result (a write outside an array, a division
  by zero, a loop that does not end).
\<close>

definition rd :: "u8 list \<Rightarrow> nat \<Rightarrow> u8 option" where
  "rd sector i = (if i < length sector then Some (sector ! i) else None)"

text \<open>The 32-bit value the source builds from four bytes by three shifts by 8,
  most significant byte first.\<close>

definition word32_of :: "u8 \<Rightarrow> u8 \<Rightarrow> u8 \<Rightarrow> u8 \<Rightarrow> u32" where
  "word32_of b3 b2 b1 b0 =
     push_bit 8 (push_bit 8 (push_bit 8 (ucast b3) OR ucast b2) OR ucast b1) OR ucast b0"

text \<open>
  The codes of fat.h. FAT_PrintError switches on the eight codes of the directory
  functions, so they differ from each other; the model keeps them as names. The codes of
  the boot sector are kept as names too.
\<close>

datatype fat_error =
  SUCCESS | END_OF_DIRECTORY | INVALID_FILE_NAME | FILE_NOT_FOUND | INVALID_DIR_NAME
  | DIR_NOT_FOUND | CORRUPT_FAT_ENTRY | END_OF_FILE

datatype boot_sector_error =
  BOOT_SECTOR_VALID | BOOT_SECTOR_NOT_FOUND | NOT_BOOT_SECTOR | INVALID_BYTES_PER_SECTOR
  | INVALID_SECTORS_PER_CLUSTER

text \<open>Modelled from the spec: the layout constants of fat.h. A sector has 512 bytes and
  a directory entry 32; the attribute value 0x0F marks a long-name entry, the attribute
  bit 0x10 a directory; in the first byte of a long-name entry bit 6 marks the last entry
  and the low six bits are the ordinal.\<close>

definition SECTOR_LEN :: u16 where "SECTOR_LEN = 512"
definition ENTRY_LEN :: u16 where "ENTRY_LEN = 32"
definition LONG_NAME_ATTR_MASK :: u8 where "LONG_NAME_ATTR_MASK = 0x0F"
definition DIRECTORY_ENTRY_ATTR_FLAG :: u8 where "DIRECTORY_ENTRY_ATTR_FLAG = 0x10"
definition LONG_NAME_LAST_ENTRY_FLAG :: u8 where "LONG_NAME_LAST_ENTRY_FLAG = 0x40"
definition LONG_NAME_ORDINAL_MASK :: u8 where "LONG_NAME_ORDINAL_MASK = 0x3F"

text \<open>The two constants of fat.h whose values the source and the spec leave open are
  parameters: the end-of-chain value the callers of pvt_GetNextCluster compare with, and
  the length of the long-name array.\<close>

record fat_defs =
  END_OF_CLUSTER :: u32
  LONG_NAME_LEN_MAX :: nat

text \<open>Modelled from the spec: the geometry record of fat.h, each field as wide as the
  boot-sector field it holds.\<close>

record BiosParameterBlock =
  bytesPerSector :: u16
  sectorsPerCluster :: u8
  reservedSectorCount :: u16
  numberOfFats :: u8
  fatSize32 :: u32
  rootCluster :: u32
  bootSectorAddress :: u32
  dataRegionFirstSector :: u32

text \<open>
  The current-directory cursor of fat.h. A C string is the list of its bytes before the
  terminating NUL. The arrays that hold the four strings are declared in fat.h; their
  capacities are not part of the model, which keeps each string whole.
\<close>

type_synonym cstring = "u8 list"

record FatCurrentDirectory =
  longName :: cstring
  longParentPath :: cstring
  shortName :: cstring
  shortParentPath :: cstring
  FATFirstCluster :: u32

subsection \<open>C strings\<close>

text \<open>The bytes of a string literal.\<close>

definition cstr :: "string \<Rightarrow> cstring" where
  "cstr s = map (\<lambda>c. of_nat (of_char c)) s"

text \<open>\<open>strcmp(s, buf) == 0\<close> for a C string \<open>s\<close> and a character array \<open>buf\<close> that may
  lack the terminating NUL: the comparison reads \<open>buf\<close> up to the first difference or
  NUL, and reads past the array when there is neither.\<close>

fun c_strcmp :: "cstring \<Rightarrow> u8 list \<Rightarrow> bool option" where
  "c_strcmp [] [] = None"
| "c_strcmp [] (b # bs) = Some (b = 0)"
| "c_strcmp (c # s) [] = None"
| "c_strcmp (c # s) (b # bs) = (if b = c then c_strcmp s bs else Some False)"

text \<open>\<open>strrchr(s, c)\<close>: the index of the last \<open>c\<close> in \<open>s\<close>, \<open>None\<close> for the null pointer.\<close>

fun c_strrchr :: "cstring \<Rightarrow> u8 \<Rightarrow> nat option" where
  "c_strrchr [] c = None"
| "c_strrchr (x # xs) c =
     (case c_strrchr xs c of
        Some i \<Rightarrow> Some (Suc i)
      | None \<Rightarrow> if x = c then Some 0 else None)"

text \<open>\<open>strlcpy(tmp, src, strlen(src))\<close> into a local array of 64 characters that was not
  initialised: with size 0 nothing is written and the array stays indeterminate; otherwise
  \<open>strlen(src) - 1\<close> characters and a NUL are written, which needs \<open>strlen(src) \<le> 64\<close>.\<close>

definition strlcpy_tmp64 :: "cstring \<Rightarrow> cstring option" where
  "strlcpy_tmp64 src =
     (if length src = 0 \<or> 64 < length src then None else Some (take (length src - 1) src))"

subsection \<open>pvt_GetNextCluster\<close>

definition pvt_GetNextCluster :: "disk \<Rightarrow> u32 \<Rightarrow> BiosParameterBlock \<Rightarrow> u32 option" where
  "pvt_GetNextCluster d currentCluster bpb =
     (let bytesPerClusterIndex = 4 :: u16;
          numberOfIndexedClustersPerSectorOfFat = bytesPerSector bpb div bytesPerClusterIndex
      in if numberOfIndexedClustersPerSectorOfFat = 0 then None
         else
           (let clusterIndex = currentCluster div ucast numberOfIndexedClustersPerSectorOfFat;
                clusterIndexStartByte =
                  4 * (currentCluster mod ucast numberOfIndexedClustersPerSectorOfFat);
                fatSectorToRead = clusterIndex + ucast (reservedSectorCount bpb);
                SectorContents = fat_ReadSingleSector d fatSectorToRead
            in do {
                 b3 \<leftarrow> rd SectorContents (unat (clusterIndexStartByte + 3));
                 b2 \<leftarrow> rd SectorContents (unat (clusterIndexStartByte + 2));
                 b1 \<leftarrow> rd SectorContents (unat (clusterIndexStartByte + 1));
                 b0 \<leftarrow> rd SectorContents (unat clusterIndexStartByte);
                 Some (word32_of b3 b2 b1 b0)
               }))"

subsection \<open>pvt_CheckIllegalName\<close>

definition illegalCharacters :: "u8 list" where
  "illegalCharacters = cstr [CHR 0x5C, CHR ''/'', CHR '':'', CHR ''*'', CHR ''?'', CHR 0x22,
                             CHR ''<'', CHR ''>'', CHR ''|'']"

text \<open>The loops of pvt_CheckIllegalName count with an 8-bit \<open>k\<close> up to \<open>strlen(nameStr)\<close>:
  on a name of more than 255 characters \<open>k\<close> wraps around and the loop only ends by a
  \<open>return\<close> from within the first 256 characters.\<close>

definition pvt_CheckIllegalName :: "cstring \<Rightarrow> u8 option" where
  "pvt_CheckIllegalName nameStr =
     (if nameStr = [] \<or> hd nameStr = 0x20 then Some 1
      else if list_ex (\<lambda>c. c \<in> set illegalCharacters) (take 256 nameStr) then Some 1
      else if 255 < length nameStr then None
      else if list_ex (\<lambda>c. c \<noteq> 0x20) nameStr then Some 0
      else Some 1)"

subsection \<open>pvt_SetCurrentDirectoryToParent and pvt_SetCurrentDirectoryToChild\<close>

definition pvt_SetCurrentDirectoryToParent ::
  "disk \<Rightarrow> FatCurrentDirectory \<Rightarrow> BiosParameterBlock \<Rightarrow> FatCurrentDirectory option" where
  "pvt_SetCurrentDirectoryToParent d currentDirectory bpb =
     (let absoluteCurrentSectorNumber =
            dataRegionFirstSector bpb
              + (FATFirstCluster currentDirectory - 2) * ucast (sectorsPerCluster bpb);
          currentSectorContents = fat_ReadSingleSector d absoluteCurrentSectorNumber;
          parentDirectoryFirstCluster =
            word32_of (currentSectorContents ! 53) (currentSectorContents ! 52)
                      (currentSectorContents ! 59) (currentSectorContents ! 58)
      in if FATFirstCluster currentDirectory = rootCluster bpb then Some currentDirectory
         else if parentDirectoryFirstCluster = 0 then
           Some (currentDirectory
                   \<lparr>shortName := cstr ''/'', shortParentPath := cstr '''',
                    longName := cstr ''/'', longParentPath := cstr '''',
                    FATFirstCluster := rootCluster bpb\<rparr>)
         else do {
           tmpShortNamePath \<leftarrow> strlcpy_tmp64 (shortParentPath currentDirectory);
           tmpLongNamePath \<leftarrow> strlcpy_tmp64 (longParentPath currentDirectory);
           shortNameLastDirectoryInPath \<leftarrow> c_strrchr tmpShortNamePath 0x2F;
           longNameLastDirectoryInPath \<leftarrow> c_strrchr tmpLongNamePath 0x2F;
           Some (currentDirectory
                   \<lparr>shortName := drop (shortNameLastDirectoryInPath + 1) tmpShortNamePath,
                    longName := drop (longNameLastDirectoryInPath + 1) tmpLongNamePath,
                    shortParentPath := take (shortNameLastDirectoryInPath + 1) tmpShortNamePath,
                    longParentPath := take (longNameLastDirectoryInPath + 1) tmpLongNamePath,
                    FATFirstCluster := parentDirectoryFirstCluster\<rparr>)
         })"

text \<open>\<open>s[0] != '/'\<close> for a C string: the first character of the empty string is NUL.\<close>

definition not_slash_first :: "cstring \<Rightarrow> bool" where
  "not_slash_first s = (case s of [] \<Rightarrow> True | c # _ \<Rightarrow> c \<noteq> 0x2F)"

definition pvt_SetCurrentDirectoryToChild ::
  "FatCurrentDirectory \<Rightarrow> u8 list \<Rightarrow> u16 \<Rightarrow> cstring \<Rightarrow> FatCurrentDirectory option" where
  "pvt_SetCurrentDirectoryToChild currentDirectory sector shortNamePosition nameStr =
     do {
       b21 \<leftarrow> rd sector (unat (shortNamePosition + 21));
       b20 \<leftarrow> rd sector (unat (shortNamePosition + 20));
       b27 \<leftarrow> rd sector (unat (shortNamePosition + 27));
       b26 \<leftarrow> rd sector (unat (shortNamePosition + 26));
       let dirFirstCluster = word32_of b21 b20 b27 b26;
       let snLen = (if length nameStr < 8 then length nameStr else 8);
       sn \<leftarrow> those (map (\<lambda>k. rd sector (unat (shortNamePosition + of_nat k))) [0..<snLen]);
       let longParentPath1 = longParentPath currentDirectory @ longName currentDirectory;
       let shortParentPath1 = shortParentPath currentDirectory @ shortName currentDirectory;
       let longParentPath2 =
             (if not_slash_first (longName currentDirectory) then longParentPath1 @ cstr ''/''
              else longParentPath1);
       let shortParentPath2 =
             (if not_slash_first (shortName currentDirectory) then shortParentPath1 @ cstr ''/''
              else shortParentPath1);
       Some (currentDirectory
               \<lparr>FATFirstCluster := dirFirstCluster,
                longParentPath := longParentPath2,
                longName := nameStr,
                shortParentPath := shortParentPath2,
                shortName := takeWhile (\<lambda>b. b \<noteq> 0) sn\<rparr>)
     }"

subsection \<open>Long names\<close>

text \<open>The long-name array with its 8-bit index. The array is cleared by a loop with an
  8-bit counter, which does not end when LONG_NAME_LEN_MAX exceeds 255.\<close>

type_synonym lname = "u8 list \<times> u8"

definition clear_longNameStr :: "fat_defs \<Rightarrow> lname option" where
  "clear_longNameStr F =
     (if 255 < LONG_NAME_LEN_MAX F then None
      else Some (replicate (LONG_NAME_LEN_MAX F) 0, 0))"

definition put_char :: "lname \<Rightarrow> u8 \<Rightarrow> lname option" where
  "put_char ln c =
     (if c = 0 \<or> 126 < c then Some ln
      else if unat (snd ln) < length (fst ln)
           then Some ((fst ln)[unat (snd ln) := c], snd ln + 1)
           else None)"

text \<open>One of the three inner loops \<open>for (uint16_t n = a; n < b; n++)\<close>.\<close>

function collect_chars :: "u8 list \<Rightarrow> u16 \<Rightarrow> u16 \<Rightarrow> lname \<Rightarrow> lname option" where
  "collect_chars sector n bound ln =
     (if n < bound then
        (case rd sector (unat n) of
           None \<Rightarrow> None
         | Some c \<Rightarrow>
             (case put_char ln c of
                None \<Rightarrow> None
              | Some ln' \<Rightarrow> collect_chars sector (n + 1) bound ln'))
      else Some ln)"
  by pat_completeness auto
termination
proof (relation "measure (\<lambda>(sector, n, bound, ln). unat bound - unat n)", goal_cases)
  case 1
  show ?case by simp
next
  case (2 sector n bound ln c ln')
  then have lt: "unat n < unat bound" by (simp add: word_less_nat_alt)
  have "unat bound < 2 ^ 16" using unsigned_less [of bound, where 'a = nat] by simp
  with lt have "unat (n + 1) = Suc (unat n)"
    by (simp add: unat_word_ariths)
  with lt show ?case by simp
qed

text \<open>
  The loop over the entries of a long name, \<open>for (int i = first; i >= last; i = i - ENTRY_LEN)\<close>.
  \<open>int\<close> has 16 bits on the target (ATmega1280). pvt_GetLongNameEntry compares two
  \<open>int\<close>s; the copies of the loop inside FAT_PrintFile compare \<open>i\<close> with the unsigned
  \<open>entry\<close>, which is an unsigned comparison. \<open>ge\<close> is the comparison.
\<close>

function long_name_loop ::
  "(u16 \<Rightarrow> u16 \<Rightarrow> bool) \<Rightarrow> u16 \<Rightarrow> u16 \<Rightarrow> u8 list \<Rightarrow> lname \<Rightarrow> lname option" where
  "long_name_loop ge i longNameLastEntry sector ln =
     (if ge i longNameLastEntry then
        (case collect_chars sector (i + 1) (i + 11) ln of
           None \<Rightarrow> None
         | Some ln1 \<Rightarrow>
        (case collect_chars sector (i + 14) (i + 26) ln1 of
           None \<Rightarrow> None
         | Some ln2 \<Rightarrow>
        (case collect_chars sector (i + 28) (i + 32) ln2 of
           None \<Rightarrow> None
         | Some ln3 \<Rightarrow>
             if sint i - 32 < - (2 ^ 15) then None
             else long_name_loop ge (i - ENTRY_LEN) longNameLastEntry sector ln3)))
      else Some ln)"
  by pat_completeness auto
termination
proof (relation "measure (\<lambda>(ge, i, l, sector, ln). nat (sint i + 2 ^ 15))", goal_cases)
  case 1
  show ?case by simp
next
  case (2 ge i l sector ln ln1 ln2 ln3)
  then have lo: "- (2 ^ 15) \<le> sint i - 32" by simp
  have hi: "sint i < 2 ^ 15" using sint_lt [of i] by simp
  have "sint (i - 32) = signed_take_bit 15 (sint i - 32)"
    by (simp add: sint_word_ariths)
  also have "\<dots> = sint i - 32"
    using lo hi by (intro signed_take_bit_int_eq_self) simp_all
  finally show ?case using lo by (simp add: ENTRY_LEN_def)
qed

definition signed_ge :: "u16 \<Rightarrow> u16 \<Rightarrow> bool" where
  "signed_ge i l \<longleftrightarrow> sint l \<le> sint i"

definition unsigned_ge :: "u16 \<Rightarrow> u16 \<Rightarrow> bool" where
  "unsigned_ge i l \<longleftrightarrow> l \<le> i"

definition pvt_GetLongNameEntry :: "u16 \<Rightarrow> u16 \<Rightarrow> u8 list \<Rightarrow> lname \<Rightarrow> lname option" where
  "pvt_GetLongNameEntry longNameFirstEntry longNameLastEntry sector ln =
     long_name_loop signed_ge longNameFirstEntry longNameLastEntry sector ln"

declare collect_chars.simps [simp del]
declare long_name_loop.simps [simp del]

subsection \<open>The directory walk\<close>

text \<open>
  The variables that FAT_SetCurrentDirectory, FAT_PrintCurrentDirectory and FAT_PrintFile
  carry from one directory entry to the next. The other locals are assigned before each
  use. The three flags only hold 0 or 1.
\<close>

record walk_state =
  entry :: u16
  shortNamePositionInCurrentSector :: u16
  shortNamePositionInNextSector :: u16
  longNameExistsFlag :: bool
  longNameCrossSectorBoundaryFlag :: bool
  longNameLastSectorEntryFlag :: bool

definition initial_walk_state :: walk_state where
  "initial_walk_state =
     \<lparr>entry = 0, shortNamePositionInCurrentSector = 0, shortNamePositionInNextSector = 0,
      longNameExistsFlag = False, longNameCrossSectorBoundaryFlag = False,
      longNameLastSectorEntryFlag = False\<rparr>"

text \<open>What one pass through the body of the loop over the entries does: it returns from
  the function, it leaves the loop by \<open>break\<close>, or it reaches the end of the body.\<close>

datatype 'r step = Returned 'r | Broke walk_state | Stepped walk_state

text \<open>The block at the head of the loop body, the same in the three functions, that makes
  \<open>entry\<close> point behind the short name of the long name handled last.\<close>

definition adjust_entry :: "walk_state \<Rightarrow> 'r step" where
  "adjust_entry st =
     (if longNameExistsFlag st then
        (if SECTOR_LEN - ENTRY_LEN \<le> shortNamePositionInCurrentSector st \<and> entry st \<noteq> 0
         then Broke st
         else
           (let st = (if SECTOR_LEN - ENTRY_LEN \<le> shortNamePositionInCurrentSector st
                      then st\<lparr>shortNamePositionInCurrentSector := - ENTRY_LEN\<rparr> else st);
                st = (if longNameCrossSectorBoundaryFlag st \<or> longNameLastSectorEntryFlag st
                      then st\<lparr>entry := shortNamePositionInNextSector st + ENTRY_LEN,
                              shortNamePositionInNextSector := 0,
                              longNameCrossSectorBoundaryFlag := False,
                              longNameLastSectorEntryFlag := False\<rparr>
                      else st\<lparr>entry := shortNamePositionInCurrentSector st + ENTRY_LEN,
                              shortNamePositionInCurrentSector := 0\<rparr>)
            in Stepped (st\<lparr>longNameExistsFlag := False\<rparr>)))
      else Stepped st)"

text \<open>The address of the sector after the current one, as each of the three functions
  computes it when the short name of a long name lies in the next sector
  (FAT_SetCurrentDirectory lines 187-190, FAT_PrintCurrentDirectory lines 413-415,
  FAT_PrintFile lines 745-746).\<close>

definition FAT_SetCurrentDirectory_nextSector ::
  "disk \<Rightarrow> BiosParameterBlock \<Rightarrow> u32 \<Rightarrow> u32 \<Rightarrow> u32 \<Rightarrow> u32 option" where
  "FAT_SetCurrentDirectory_nextSector d bpb clusterNumber currentSectorNumberInCluster
       absoluteCurrentSectorNumber =
     (if ucast (bytesPerSector bpb - 1) \<le> currentSectorNumberInCluster then
        do {
          c \<leftarrow> pvt_GetNextCluster d clusterNumber bpb;
          Some (dataRegionFirstSector bpb + (c - 2) * ucast (bytesPerSector bpb))
        }
      else Some (1 + absoluteCurrentSectorNumber))"

definition FAT_PrintCurrentDirectory_nextSector ::
  "disk \<Rightarrow> BiosParameterBlock \<Rightarrow> u32 \<Rightarrow> u32 \<Rightarrow> u32 \<Rightarrow> u32 option" where
  "FAT_PrintCurrentDirectory_nextSector d bpb cluster currentSectorNumberInCluster
       absoluteCurrentSectorNumber =
     (if ucast (sectorsPerCluster bpb) - 1 \<le> currentSectorNumberInCluster then
        do {
          c \<leftarrow> pvt_GetNextCluster d cluster bpb;
          Some (dataRegionFirstSector bpb + (c - 2) * ucast (sectorsPerCluster bpb))
        }
      else Some (1 + absoluteCurrentSectorNumber))"

definition FAT_PrintFile_nextSector ::
  "disk \<Rightarrow> BiosParameterBlock \<Rightarrow> u32 \<Rightarrow> u32 \<Rightarrow> u32 \<Rightarrow> u32 option" where
  "FAT_PrintFile_nextSector d bpb cluster currentSectorNumberInCluster
       absoluteCurrentSectorNumber =
     (if ucast (sectorsPerCluster bpb) - 1 \<le> currentSectorNumberInCluster then
        do {
          c \<leftarrow> pvt_GetNextCluster d cluster bpb;
          Some (dataRegionFirstSector bpb + (c - 2) * ucast (sectorsPerCluster bpb))
        }
      else Some (1 + absoluteCurrentSectorNumber))"

text \<open>The address of the sector with the given index in a cluster, as the loops over the
  sectors of a cluster compute it.\<close>

definition sector_of_cluster :: "BiosParameterBlock \<Rightarrow> u32 \<Rightarrow> u32 \<Rightarrow> u32" where
  "sector_of_cluster bpb cluster currentSectorNumberInCluster =
     currentSectorNumberInCluster + dataRegionFirstSector bpb
       + (cluster - 2) * ucast (sectorsPerCluster bpb)"

subsection \<open>FAT_SetCurrentDirectory\<close>

text \<open>The branch of the loop body for a long-name entry (lines 154-262). \<open>b0\<close> is the
  first byte of the entry.\<close>

definition cd_long_name ::
  "fat_defs \<Rightarrow> disk \<Rightarrow> BiosParameterBlock \<Rightarrow> FatCurrentDirectory \<Rightarrow> cstring \<Rightarrow> u32 \<Rightarrow> u32
     \<Rightarrow> u32 \<Rightarrow> u8 list \<Rightarrow> walk_state \<Rightarrow> u8 \<Rightarrow> (fat_error \<times> FatCurrentDirectory) step option" where
  "cd_long_name F d bpb currentDirectory newDirectoryStr clusterNumber
       currentSectorNumberInCluster absoluteCurrentSectorNumber currentSectorContents st b0 =
     (let st = st\<lparr>longNameExistsFlag := True\<rparr>
      in if b0 AND LONG_NAME_LAST_ENTRY_FLAG = 0
         then Some (Returned (CORRUPT_FAT_ENTRY, currentDirectory))
         else do {
           ln0 \<leftarrow> clear_longNameStr F;
           let longNameOrder = LONG_NAME_ORDINAL_MASK AND b0;
           let st = st\<lparr>shortNamePositionInCurrentSector :=
                           entry st + ENTRY_LEN * ucast longNameOrder\<rparr>;
           if bytesPerSector bpb \<le> shortNamePositionInCurrentSector st then
             (if \<not> bytesPerSector bpb < shortNamePositionInCurrentSector st
                 \<and> shortNamePositionInCurrentSector st \<noteq> bytesPerSector bpb
              then Some (Returned (CORRUPT_FAT_ENTRY, currentDirectory))
              else do {
                let st = (if bytesPerSector bpb < shortNamePositionInCurrentSector st
                          then st\<lparr>longNameCrossSectorBoundaryFlag := True,
                                  longNameLastSectorEntryFlag := False\<rparr>
                          else st\<lparr>longNameCrossSectorBoundaryFlag := False,
                                  longNameLastSectorEntryFlag := True\<rparr>);
                absoluteNextSectorNumber \<leftarrow>
                  FAT_SetCurrentDirectory_nextSector d bpb clusterNumber
                    currentSectorNumberInCluster absoluteCurrentSectorNumber;
                let nextSectorContents = fat_ReadSingleSector d absoluteNextSectorNumber;
                let st = st\<lparr>shortNamePositionInNextSector :=
                                shortNamePositionInCurrentSector st - bytesPerSector bpb\<rparr>;
                attributeByte \<leftarrow>
                  rd nextSectorContents (unat (shortNamePositionInNextSector st + 11));
                if attributeByte AND LONG_NAME_ATTR_MASK = LONG_NAME_ATTR_MASK
                then Some (Returned (CORRUPT_FAT_ENTRY, currentDirectory))
                else if attributeByte AND DIRECTORY_ENTRY_ATTR_FLAG \<noteq> 0 then
                  (if longNameCrossSectorBoundaryFlag st \<and> \<not> longNameLastSectorEntryFlag st
                   then do {
                     b \<leftarrow> rd nextSectorContents
                            (unat (shortNamePositionInNextSector st - ENTRY_LEN));
                     if b AND LONG_NAME_ORDINAL_MASK \<noteq> 1
                     then Some (Returned (CORRUPT_FAT_ENTRY, currentDirectory))
                     else do {
                       ln1 \<leftarrow> pvt_GetLongNameEntry (shortNamePositionInNextSector st - ENTRY_LEN)
                                0 nextSectorContents ln0;
                       ln2 \<leftarrow> pvt_GetLongNameEntry (SECTOR_LEN - ENTRY_LEN) (entry st)
                                nextSectorContents ln1;
                       same \<leftarrow> c_strcmp newDirectoryStr (fst ln2);
                       if same then do {
                         child \<leftarrow> pvt_SetCurrentDirectoryToChild currentDirectory
                                    nextSectorContents (shortNamePositionInNextSector st)
                                    newDirectoryStr;
                         Some (Returned (SUCCESS, child))
                       } else Some (Stepped st)
                     }
                   }
                   else if \<not> longNameCrossSectorBoundaryFlag st \<and> longNameLastSectorEntryFlag st
                   then do {
                     b \<leftarrow> rd currentSectorContents (unat (SECTOR_LEN - ENTRY_LEN));
                     if b AND LONG_NAME_ORDINAL_MASK \<noteq> 1
                     then Some (Returned (CORRUPT_FAT_ENTRY, currentDirectory))
                     else do {
                       ln1 \<leftarrow> pvt_GetLongNameEntry (SECTOR_LEN - ENTRY_LEN) (entry st)
                                currentSectorContents ln0;
                       same \<leftarrow> c_strcmp newDirectoryStr (fst ln1);
                       if same then do {
                         child \<leftarrow> pvt_SetCurrentDirectoryToChild currentDirectory
                                    nextSectorContents (shortNamePositionInNextSector st)
                                    newDirectoryStr;
                         Some (Returned (SUCCESS, child))
                       } else Some (Stepped st)
                     }
                   }
                   else Some (Returned (CORRUPT_FAT_ENTRY, currentDirectory)))
                else Some (Stepped st)
              })
           else do {
             b \<leftarrow> rd currentSectorContents
                    (unat (shortNamePositionInCurrentSector st - ENTRY_LEN));
             if b AND LONG_NAME_ORDINAL_MASK \<noteq> 1
             then Some (Returned (CORRUPT_FAT_ENTRY, currentDirectory))
             else do {
               attributeByte \<leftarrow>
                 rd currentSectorContents (unat (shortNamePositionInCurrentSector st + 11));
               if attributeByte AND DIRECTORY_ENTRY_ATTR_FLAG \<noteq> 0 then do {
                 ln1 \<leftarrow> pvt_GetLongNameEntry (shortNamePositionInCurrentSector st - ENTRY_LEN)
                          (entry st) currentSectorContents ln0;
                 same \<leftarrow> c_strcmp newDirectoryStr (fst ln1);
                 if same then do {
                   child \<leftarrow> pvt_SetCurrentDirectoryToChild currentDirectory
                              currentSectorContents (shortNamePositionInCurrentSector st)
                              newDirectoryStr;
                   Some (Returned (SUCCESS, child))
                 } else Some (Stepped st)
               } else Some (Stepped st)
             }
           }
         })"

text \<open>The branch for an entry that is not a long-name entry (lines 265-286). The name is
  copied into an array of 9 characters, and \<open>newDirStrLen\<close> bytes of the entry are
  compared with it. \<open>cd_short_name_match\<close> is the decision whether the entry is the
  directory looked for.\<close>

definition cd_short_name_match :: "cstring \<Rightarrow> u8 list \<Rightarrow> walk_state \<Rightarrow> bool option" where
  "cd_short_name_match newDirectoryStr currentSectorContents st =
     do {
       attributeByte \<leftarrow> rd currentSectorContents (unat (entry st + 11));
       let newDirStrLen = (of_nat (length newDirectoryStr) :: u8);
       if newDirStrLen < 9 \<and> attributeByte AND DIRECTORY_ENTRY_ATTR_FLAG \<noteq> 0 then
         (if 9 \<le> length newDirectoryStr then None
          else do {
            sn \<leftarrow> those (map (\<lambda>k. rd currentSectorContents (unat (of_nat k + entry st)))
                          [0..<unat newDirStrLen]);
            c_strcmp newDirectoryStr (sn @ [0])
          })
       else Some False
     }"

definition cd_short_name ::
  "FatCurrentDirectory \<Rightarrow> cstring \<Rightarrow> u8 list \<Rightarrow> walk_state
     \<Rightarrow> (fat_error \<times> FatCurrentDirectory) step option" where
  "cd_short_name currentDirectory newDirectoryStr currentSectorContents st =
     do {
       same \<leftarrow> cd_short_name_match newDirectoryStr currentSectorContents st;
       if same then do {
         child \<leftarrow> pvt_SetCurrentDirectoryToChild currentDirectory currentSectorContents
                    (entry st) newDirectoryStr;
         Some (Returned (SUCCESS, child))
       } else Some (Stepped st)
     }"

text \<open>The body of the loop over the entries of a sector (lines 121-286).\<close>

definition cd_entry ::
  "fat_defs \<Rightarrow> disk \<Rightarrow> BiosParameterBlock \<Rightarrow> FatCurrentDirectory \<Rightarrow> cstring \<Rightarrow> u32 \<Rightarrow> u32
     \<Rightarrow> u32 \<Rightarrow> u8 list \<Rightarrow> walk_state \<Rightarrow> (fat_error \<times> FatCurrentDirectory) step option" where
  "cd_entry F d bpb currentDirectory newDirectoryStr clusterNumber
       currentSectorNumberInCluster absoluteCurrentSectorNumber currentSectorContents st0 =
     (case adjust_entry st0 of
        Returned r \<Rightarrow> Some (Returned r)
      | Broke st \<Rightarrow> Some (Broke st)
      | Stepped st \<Rightarrow>
          do {
            b0 \<leftarrow> rd currentSectorContents (unat (entry st));
            if b0 = 0 then Some (Returned (END_OF_DIRECTORY, currentDirectory))
            else do {
              attributeByte \<leftarrow> rd currentSectorContents (unat (entry st + 11));
              if attributeByte AND LONG_NAME_ATTR_MASK = LONG_NAME_ATTR_MASK \<and> b0 \<noteq> 0xE5
              then cd_long_name F d bpb currentDirectory newDirectoryStr clusterNumber
                     currentSectorNumberInCluster absoluteCurrentSectorNumber
                     currentSectorContents st b0
              else cd_short_name currentDirectory newDirectoryStr currentSectorContents st
            }
          })"

text \<open>The loop over the entries of a sector, \<open>for (entry = 0; entry < SECTOR_LEN;
  entry = entry + ENTRY_LEN)\<close>, from the state in which \<open>entry\<close> has its current value.
  The body assigns to \<open>entry\<close>.\<close>

partial_function (option) cd_entries ::
  "fat_defs \<Rightarrow> disk \<Rightarrow> BiosParameterBlock \<Rightarrow> FatCurrentDirectory \<Rightarrow> cstring \<Rightarrow> u32 \<Rightarrow> u32
     \<Rightarrow> u32 \<Rightarrow> u8 list \<Rightarrow> walk_state \<Rightarrow> (fat_error \<times> FatCurrentDirectory) step option" where
  "cd_entries F d bpb currentDirectory newDirectoryStr clusterNumber
       currentSectorNumberInCluster absoluteCurrentSectorNumber currentSectorContents st =
     (if entry st < SECTOR_LEN then
        (case cd_entry F d bpb currentDirectory newDirectoryStr clusterNumber
                currentSectorNumberInCluster absoluteCurrentSectorNumber
                currentSectorContents st of
           None \<Rightarrow> None
         | Some (Returned r) \<Rightarrow> Some (Returned r)
         | Some (Broke st') \<Rightarrow> Some (Broke st')
         | Some (Stepped st') \<Rightarrow>
             cd_entries F d bpb currentDirectory newDirectoryStr clusterNumber
               currentSectorNumberInCluster absoluteCurrentSectorNumber currentSectorContents
               (st'\<lparr>entry := entry st' + ENTRY_LEN\<rparr>))
      else Some (Broke st))"

declare cd_entries.simps [code]

text \<open>The loop over the sectors of a cluster (lines 112-288).\<close>

function cd_sectors ::
  "fat_defs \<Rightarrow> disk \<Rightarrow> BiosParameterBlock \<Rightarrow> FatCurrentDirectory \<Rightarrow> cstring \<Rightarrow> u32 \<Rightarrow> u32
     \<Rightarrow> walk_state \<Rightarrow> (fat_error \<times> FatCurrentDirectory) step option" where
  "cd_sectors F d bpb currentDirectory newDirectoryStr clusterNumber
       currentSectorNumberInCluster st =
     (if currentSectorNumberInCluster < ucast (sectorsPerCluster bpb) then
        (let absoluteCurrentSectorNumber =
               sector_of_cluster bpb clusterNumber currentSectorNumberInCluster;
             currentSectorContents = fat_ReadSingleSector d absoluteCurrentSectorNumber
         in case cd_entries F d bpb currentDirectory newDirectoryStr clusterNumber
                   currentSectorNumberInCluster absoluteCurrentSectorNumber
                   currentSectorContents (st\<lparr>entry := 0\<rparr>) of
              None \<Rightarrow> None
            | Some (Returned r) \<Rightarrow> Some (Returned r)
            | Some (Broke st') \<Rightarrow>
                cd_sectors F d bpb currentDirectory newDirectoryStr clusterNumber
                  (currentSectorNumberInCluster + 1) st'
            | Some (Stepped st') \<Rightarrow>
                cd_sectors F d bpb currentDirectory newDirectoryStr clusterNumber
                  (currentSectorNumberInCluster + 1) st')
      else Some (Broke st))"
  by pat_completeness auto
termination
proof (relation "measure (\<lambda>(F, d, bpb, c, n, cl, s, st).
                   unat (ucast (sectorsPerCluster bpb) :: u32) - unat s)", goal_cases)
  case 1
  show ?case by simp
next
  case (2 F d bpb c n cl s st)
  then have lt: "unat s < unat (ucast (sectorsPerCluster bpb) :: u32)"
    by (simp add: word_less_nat_alt)
  have "unat (ucast (sectorsPerCluster bpb) :: u32) < 2 ^ 32"
    using unsigned_less [of "ucast (sectorsPerCluster bpb) :: u32", where 'a = nat] by simp
  with lt have "unat (s + 1) = Suc (unat s)"
    by (simp add: unat_word_ariths)
  with lt show ?case by simp
next
  case (3 F d bpb c n cl s st)
  then have lt: "unat s < unat (ucast (sectorsPerCluster bpb) :: u32)"
    by (simp add: word_less_nat_alt)
  have "unat (ucast (sectorsPerCluster bpb) :: u32) < 2 ^ 32"
    using unsigned_less [of "ucast (sectorsPerCluster bpb) :: u32", where 'a = nat] by simp
  with lt have "unat (s + 1) = Suc (unat s)"
    by (simp add: unat_word_ariths)
  with lt show ?case by simp
qed

declare cd_sectors.simps [simp del]

text \<open>The loop over the clusters of the directory (lines 109-290), which follows the
  chain until pvt_GetNextCluster answers END_OF_CLUSTER.\<close>

partial_function (option) cd_clusters ::
  "fat_defs \<Rightarrow> disk \<Rightarrow> BiosParameterBlock \<Rightarrow> FatCurrentDirectory \<Rightarrow> cstring \<Rightarrow> u32
     \<Rightarrow> walk_state \<Rightarrow> (fat_error \<times> FatCurrentDirectory) option" where
  "cd_clusters F d bpb currentDirectory newDirectoryStr clusterNumber st =
     (case cd_sectors F d bpb currentDirectory newDirectoryStr clusterNumber 0 st of
        None \<Rightarrow> None
      | Some (Returned r) \<Rightarrow> Some r
      | Some (Stepped st') \<Rightarrow>
          (case pvt_GetNextCluster d clusterNumber bpb of
             None \<Rightarrow> None
           | Some c \<Rightarrow>
               if c \<noteq> END_OF_CLUSTER F
               then cd_clusters F d bpb currentDirectory newDirectoryStr c st'
               else Some (END_OF_DIRECTORY, currentDirectory))
      | Some (Broke st') \<Rightarrow>
          (case pvt_GetNextCluster d clusterNumber bpb of
             None \<Rightarrow> None
           | Some c \<Rightarrow>
               if c \<noteq> END_OF_CLUSTER F
               then cd_clusters F d bpb currentDirectory newDirectoryStr c st'
               else Some (END_OF_DIRECTORY, currentDirectory)))"

declare cd_clusters.simps [code]

definition FAT_SetCurrentDirectory ::
  "fat_defs \<Rightarrow> disk \<Rightarrow> FatCurrentDirectory \<Rightarrow> cstring \<Rightarrow> BiosParameterBlock
     \<Rightarrow> (fat_error \<times> FatCurrentDirectory) option" where
  "FAT_SetCurrentDirectory F d currentDirectory newDirectoryStr bpb =
     (case pvt_CheckIllegalName newDirectoryStr of
        None \<Rightarrow> None
      | Some illegal \<Rightarrow>
          if illegal \<noteq> 0 then Some (INVALID_DIR_NAME, currentDirectory)
          else if newDirectoryStr = cstr ''.'' then Some (SUCCESS, currentDirectory)
          else if newDirectoryStr = cstr ''..'' then
            (case pvt_SetCurrentDirectoryToParent d currentDirectory bpb of
               None \<Rightarrow> None
             | Some parent \<Rightarrow> Some (SUCCESS, parent))
          else cd_clusters F d bpb currentDirectory newDirectoryStr
                 (FATFirstCluster currentDirectory) initial_walk_state)"

subsection \<open>pvt_PrintFatFile\<close>

text \<open>What the functions print goes to the USART; the output is the list of the bytes
  transmitted. \<open>print_str\<close> transmits the bytes of its string.\<close>

definition print_str :: "string \<Rightarrow> u8 list \<Rightarrow> u8 list" where
  "print_str s out = out @ cstr s"

definition USART_Transmit :: "u8 \<Rightarrow> u8 list \<Rightarrow> u8 list" where
  "USART_Transmit b out = out @ [b]"

text \<open>The loop over the bytes of a sector of the file (lines 1619-1630).\<close>

function print_sector_bytes :: "u16 \<Rightarrow> u16 \<Rightarrow> u8 list \<Rightarrow> u8 list \<Rightarrow> u8 list option" where
  "print_sector_bytes k bps fileSector out =
     (if k < bps then
        (case rd fileSector (unat k) of
           None \<Rightarrow> None
         | Some b \<Rightarrow>
             print_sector_bytes (k + 1) bps fileSector
               (if b = 0x0A then print_str [CHR 0x0A, CHR 0x0D] out
                else if b = 0 then out
                else USART_Transmit b out))
      else Some out)"
  by pat_completeness auto
termination
proof (relation "measure (\<lambda>(k, bps, fileSector, out). unat bps - unat k)", goal_cases)
  case 1
  show ?case by simp
next
  case (2 k bps fileSector out b)
  then have lt: "unat k < unat bps" by (simp add: word_less_nat_alt)
  have "unat bps < 2 ^ 16" using unsigned_less [of bps, where 'a = nat] by simp
  with lt have "unat (k + 1) = Suc (unat k)"
    by (simp add: unat_word_ariths)
  with lt show ?case by simp
qed

declare print_sector_bytes.simps [simp del]

text \<open>The loop over the sectors of a cluster of the file (lines 1614-1631).
  fat_ReadSingleSector stores its 512 bytes into \<open>fileSector\<close>, which is an array of
  \<open>bpb->bytesPerSector\<close> elements of FAT_PrintFile (lines 645-646): with fewer than 512
  bytes per sector the store runs over the end of the array.\<close>

function print_cluster_sectors ::
  "disk \<Rightarrow> BiosParameterBlock \<Rightarrow> u32 \<Rightarrow> u32 \<Rightarrow> u8 list \<Rightarrow> u8 list option" where
  "print_cluster_sectors d bpb cluster currentSectorNumberInCluster out =
     (if currentSectorNumberInCluster < ucast (sectorsPerCluster bpb) then
        (if bytesPerSector bpb < SECTOR_LEN then None
         else
           (let absoluteCurrentSectorNumber =
                  sector_of_cluster bpb cluster currentSectorNumberInCluster;
                fileSector = fat_ReadSingleSector d absoluteCurrentSectorNumber
            in case print_sector_bytes 0 (bytesPerSector bpb) fileSector out of
                 None \<Rightarrow> None
               | Some out' \<Rightarrow>
                   print_cluster_sectors d bpb cluster (currentSectorNumberInCluster + 1)
                     out'))
      else Some out)"
  by pat_completeness auto
termination
proof (relation "measure (\<lambda>(d, bpb, cl, s, out).
                   unat (ucast (sectorsPerCluster bpb) :: u32) - unat s)", goal_cases)
  case 1
  show ?case by simp
next
  case (2 d bpb cl s out)
  then have lt: "unat s < unat (ucast (sectorsPerCluster bpb) :: u32)"
    by (simp add: word_less_nat_alt)
  have "unat (ucast (sectorsPerCluster bpb) :: u32) < 2 ^ 32"
    using unsigned_less [of "ucast (sectorsPerCluster bpb) :: u32", where 'a = nat] by simp
  with lt have "unat (s + 1) = Suc (unat s)"
    by (simp add: unat_word_ariths)
  with lt show ?case by simp
qed

declare print_cluster_sectors.simps [simp del]

text \<open>The loop over the clusters of the file (lines 1611-1633): it prints a cluster and
  goes on with the next one until pvt_GetNextCluster answers END_OF_CLUSTER. There is no
  other exit.\<close>

partial_function (option) print_clusters ::
  "fat_defs \<Rightarrow> disk \<Rightarrow> BiosParameterBlock \<Rightarrow> u32 \<Rightarrow> u8 list \<Rightarrow> u8 list option" where
  "print_clusters F d bpb cluster out =
     (case print_cluster_sectors d bpb cluster 0
             (print_str [CHR 0x0A, CHR 0x0A, CHR 0x0D] out) of
        None \<Rightarrow> None
      | Some out' \<Rightarrow>
          (case pvt_GetNextCluster d cluster bpb of
             None \<Rightarrow> None
           | Some c \<Rightarrow>
               if c \<noteq> END_OF_CLUSTER F then print_clusters F d bpb c out'
               else Some out'))"

declare print_clusters.simps [code]

definition pvt_PrintFatFile ::
  "fat_defs \<Rightarrow> disk \<Rightarrow> u16 \<Rightarrow> u8 list \<Rightarrow> BiosParameterBlock \<Rightarrow> u8 list \<Rightarrow> u8 list option" where
  "pvt_PrintFatFile F d entry_pos fileSector bpb out =
     do {
       b21 \<leftarrow> rd fileSector (unat (entry_pos + 21));
       b20 \<leftarrow> rd fileSector (unat (entry_pos + 20));
       b27 \<leftarrow> rd fileSector (unat (entry_pos + 27));
       b26 \<leftarrow> rd fileSector (unat (entry_pos + 26));
       print_clusters F d bpb (word32_of b21 b20 b27 b26) out
     }"

subsection \<open>FAT_PrintFile\<close>

text \<open>The branch of the loop body for a long-name entry (lines 710-916). The long name is
  read by copies of the loop of pvt_GetLongNameEntry: the ones that stop at 0 or at
  \<open>(int)entry\<close> compare as \<open>int\<close>, the ones that stop at \<open>entry\<close> compare unsigned.\<close>

definition pf_long_name ::
  "fat_defs \<Rightarrow> disk \<Rightarrow> BiosParameterBlock \<Rightarrow> cstring \<Rightarrow> u32 \<Rightarrow> u32 \<Rightarrow> u32 \<Rightarrow> u8 list
     \<Rightarrow> walk_state \<Rightarrow> u8 \<Rightarrow> (fat_error \<times> u8 list) step option" where
  "pf_long_name F d bpb fileNameStr cluster currentSectorNumberInCluster
       absoluteCurrentSectorNumber currentSectorContents st b0 =
     (if b0 AND LONG_NAME_LAST_ENTRY_FLAG = 0 then Some (Returned (CORRUPT_FAT_ENTRY, []))
      else do {
        let st = st\<lparr>longNameExistsFlag := True\<rparr>;
        ln0 \<leftarrow> clear_longNameStr F;
        let longNameOrder = LONG_NAME_ORDINAL_MASK AND b0;
        let st = st\<lparr>shortNamePositionInCurrentSector :=
                        entry st + ENTRY_LEN * ucast longNameOrder\<rparr>;
        if bytesPerSector bpb \<le> shortNamePositionInCurrentSector st then
          (if \<not> bytesPerSector bpb < shortNamePositionInCurrentSector st
              \<and> shortNamePositionInCurrentSector st \<noteq> SECTOR_LEN
           then Some (Returned (CORRUPT_FAT_ENTRY, []))
           else do {
             let st = (if bytesPerSector bpb < shortNamePositionInCurrentSector st
                       then st\<lparr>longNameCrossSectorBoundaryFlag := True,
                               longNameLastSectorEntryFlag := False\<rparr>
                       else st\<lparr>longNameCrossSectorBoundaryFlag := False,
                               longNameLastSectorEntryFlag := True\<rparr>);
             absoluteNextSectorNumber \<leftarrow>
               FAT_PrintFile_nextSector d bpb cluster currentSectorNumberInCluster
                 absoluteCurrentSectorNumber;
             let nextSectorContents = fat_ReadSingleSector d absoluteNextSectorNumber;
             let st = st\<lparr>shortNamePositionInNextSector :=
                             shortNamePositionInCurrentSector st - bytesPerSector bpb\<rparr>;
             attributeByte \<leftarrow>
               rd nextSectorContents (unat (shortNamePositionInNextSector st + 11));
             if attributeByte AND LONG_NAME_ATTR_MASK = LONG_NAME_ATTR_MASK
             then Some (Returned (CORRUPT_FAT_ENTRY, []))
             else if attributeByte AND DIRECTORY_ENTRY_ATTR_FLAG \<noteq> 0 then Some (Stepped st)
             else if longNameCrossSectorBoundaryFlag st \<and> \<not> longNameLastSectorEntryFlag st
             then do {
               b \<leftarrow> rd nextSectorContents
                      (unat (shortNamePositionInNextSector st - ENTRY_LEN));
               if b AND LONG_NAME_ORDINAL_MASK \<noteq> 1
               then Some (Returned (CORRUPT_FAT_ENTRY, []))
               else do {
                 ln1 \<leftarrow> long_name_loop signed_ge (shortNamePositionInNextSector st - ENTRY_LEN)
                          0 nextSectorContents ln0;
                 ln2 \<leftarrow> long_name_loop unsigned_ge (SECTOR_LEN - ENTRY_LEN) (entry st)
                          currentSectorContents ln1;
                 same \<leftarrow> c_strcmp fileNameStr (fst ln2);
                 if same then do {
                   out \<leftarrow> pvt_PrintFatFile F d (shortNamePositionInNextSector st)
                            nextSectorContents bpb [];
                   Some (Returned (SUCCESS, out))
                 } else Some (Stepped st)
               }
             }
             else if \<not> longNameCrossSectorBoundaryFlag st \<and> longNameLastSectorEntryFlag st
             then do {
               b \<leftarrow> rd currentSectorContents (unat (SECTOR_LEN - ENTRY_LEN));
               if b AND LONG_NAME_ORDINAL_MASK \<noteq> 1
               then Some (Returned (CORRUPT_FAT_ENTRY, []))
               else do {
                 ln1 \<leftarrow> long_name_loop unsigned_ge (SECTOR_LEN - ENTRY_LEN) (entry st)
                          currentSectorContents ln0;
                 same \<leftarrow> c_strcmp fileNameStr (fst ln1);
                 if same then do {
                   out \<leftarrow> pvt_PrintFatFile F d (shortNamePositionInNextSector st)
                            nextSectorContents bpb [];
                   Some (Returned (SUCCESS, out))
                 } else Some (Stepped st)
               }
             }
             else Some (Returned (CORRUPT_FAT_ENTRY, []))
           })
        else do {
          attributeByte \<leftarrow>
            rd currentSectorContents (unat (shortNamePositionInCurrentSector st + 11));
          if attributeByte AND LONG_NAME_ATTR_MASK = LONG_NAME_ATTR_MASK
          then Some (Returned (CORRUPT_FAT_ENTRY, []))
          else if attributeByte AND DIRECTORY_ENTRY_ATTR_FLAG \<noteq> 0 then Some (Stepped st)
          else do {
            b \<leftarrow> rd currentSectorContents
                   (unat (shortNamePositionInCurrentSector st - ENTRY_LEN));
            if b AND LONG_NAME_ORDINAL_MASK \<noteq> 1
            then Some (Returned (CORRUPT_FAT_ENTRY, []))
            else do {
              ln1 \<leftarrow> long_name_loop signed_ge
                       (shortNamePositionInCurrentSector st - ENTRY_LEN) (entry st)
                       currentSectorContents ln0;
              same \<leftarrow> c_strcmp fileNameStr (fst ln1);
              if same then do {
                out \<leftarrow> pvt_PrintFatFile F d (shortNamePositionInCurrentSector st)
                         currentSectorContents bpb [];
                Some (Returned (SUCCESS, out))
              } else Some (Stepped st)
            }
          }
        }
      })"

text \<open>The branch for a short-name entry (lines 920-997). \<open>pt\<close> is the position of the
  first dot of the name that is neither its first nor its last character, or the length
  of the name; the name before \<open>pt\<close> goes into an array of 9 characters. The source sets
  \<open>entryExtExistsFlag\<close> to 1 in the loop that copies the extension of the entry.
  \<open>pf_short_name_match\<close> is the decision whether the entry is the file looked for,
  the variable \<open>match\<close> of the source.\<close>

definition pf_short_name_match :: "cstring \<Rightarrow> u8 \<Rightarrow> u8 list \<Rightarrow> walk_state \<Rightarrow> u8 \<Rightarrow> bool option" where
  "pf_short_name_match fileNameStr fileNameStrLen currentSectorContents st attributeByte =
     (if attributeByte AND DIRECTORY_ENTRY_ATTR_FLAG \<noteq> 0 then Some False
      else if 12 < fileNameStrLen then Some False
      else
        (let dot = find (\<lambda>k. fileNameStr ! k = 0x2E) [1..<unat fileNameStrLen - 1];
             fileNameExtExistsFlag = (dot \<noteq> None);
             pt = (case dot of Some k \<Rightarrow> k | None \<Rightarrow> unat fileNameStrLen)
         in if 9 < pt then None
            else do {
              let tempFileName = take 8 (take pt fileNameStr @ replicate (8 - pt) 0x20);
              sn \<leftarrow> those (map (\<lambda>k. rd currentSectorContents (unat (of_nat k + entry st)))
                            [0..<8]);
              same \<leftarrow> c_strcmp tempFileName (sn @ [0]);
              if same then do {
                ext \<leftarrow> those (map (\<lambda>k. rd currentSectorContents
                                           (unat (entry st + 8 + of_nat k))) [0..<3]);
                let entryExtExistsFlag = True;
                let tempEXT = take 3 (take 3 (drop (pt + 1) fileNameStr) @ replicate 3 0x20);
                if \<not> entryExtExistsFlag \<and> \<not> fileNameExtExistsFlag then Some True
                else if (entryExtExistsFlag \<and> \<not> fileNameExtExistsFlag)
                        \<or> (\<not> entryExtExistsFlag \<and> fileNameExtExistsFlag) then Some False
                else c_strcmp tempEXT (ext @ [0])
              } else Some False
            }))"

definition pf_short_name ::
  "fat_defs \<Rightarrow> disk \<Rightarrow> BiosParameterBlock \<Rightarrow> cstring \<Rightarrow> u8 \<Rightarrow> u8 list \<Rightarrow> walk_state \<Rightarrow> u8
     \<Rightarrow> (fat_error \<times> u8 list) step option" where
  "pf_short_name F d bpb fileNameStr fileNameStrLen currentSectorContents st attributeByte =
     do {
       match \<leftarrow> pf_short_name_match fileNameStr fileNameStrLen currentSectorContents st
                  attributeByte;
       if match then do {
         out \<leftarrow> pvt_PrintFatFile F d (entry st) currentSectorContents bpb [];
         Some (Returned (SUCCESS, out))
       } else Some (Stepped st)
     }"

text \<open>The body of the loop over the entries of a sector (lines 675-998).\<close>

definition pf_entry ::
  "fat_defs \<Rightarrow> disk \<Rightarrow> BiosParameterBlock \<Rightarrow> cstring \<Rightarrow> u8 \<Rightarrow> u32 \<Rightarrow> u32 \<Rightarrow> u32 \<Rightarrow> u8 list
     \<Rightarrow> walk_state \<Rightarrow> (fat_error \<times> u8 list) step option" where
  "pf_entry F d bpb fileNameStr fileNameStrLen cluster currentSectorNumberInCluster
       absoluteCurrentSectorNumber currentSectorContents st0 =
     (case adjust_entry st0 of
        Returned r \<Rightarrow> Some (Returned r)
      | Broke st \<Rightarrow> Some (Broke st)
      | Stepped st \<Rightarrow>
          do {
            b0 \<leftarrow> rd currentSectorContents (unat (entry st));
            if b0 = 0xE5 then Some (Stepped st)
            else if b0 = 0 then Some (Returned (FILE_NOT_FOUND, []))
            else do {
              attributeByte \<leftarrow> rd currentSectorContents (unat (entry st + 11));
              if attributeByte AND LONG_NAME_ATTR_MASK = LONG_NAME_ATTR_MASK
              then pf_long_name F d bpb fileNameStr cluster currentSectorNumberInCluster
                     absoluteCurrentSectorNumber currentSectorContents st b0
              else pf_short_name F d bpb fileNameStr fileNameStrLen currentSectorContents st
                     attributeByte
            }
          })"

text \<open>The loop over the entries of a sector, \<open>for (entry = 0; entry < bpb->bytesPerSector;
  entry = entry + ENTRY_LEN)\<close>.\<close>

partial_function (option) pf_entries ::
  "fat_defs \<Rightarrow> disk \<Rightarrow> BiosParameterBlock \<Rightarrow> cstring \<Rightarrow> u8 \<Rightarrow> u32 \<Rightarrow> u32 \<Rightarrow> u32 \<Rightarrow> u8 list
     \<Rightarrow> walk_state \<Rightarrow> (fat_error \<times> u8 list) step option" where
  "pf_entries F d bpb fileNameStr fileNameStrLen cluster currentSectorNumberInCluster
       absoluteCurrentSectorNumber currentSectorContents st =
     (if entry st < bytesPerSector bpb then
        (case pf_entry F d bpb fileNameStr fileNameStrLen cluster currentSectorNumberInCluster
                absoluteCurrentSectorNumber currentSectorContents st of
           None \<Rightarrow> None
         | Some (Returned r) \<Rightarrow> Some (Returned r)
         | Some (Broke st') \<Rightarrow> Some (Broke st')
         | Some (Stepped st') \<Rightarrow>
             pf_entries F d bpb fileNameStr fileNameStrLen cluster currentSectorNumberInCluster
               absoluteCurrentSectorNumber currentSectorContents
               (st'\<lparr>entry := entry st' + ENTRY_LEN\<rparr>))
      else Some (Broke st))"

declare pf_entries.simps [code]

text \<open>The loop over the sectors of a cluster of the directory (lines 668-1000).\<close>

function pf_sectors ::
  "fat_defs \<Rightarrow> disk \<Rightarrow> BiosParameterBlock \<Rightarrow> cstring \<Rightarrow> u8 \<Rightarrow> u32 \<Rightarrow> u32 \<Rightarrow> walk_state
     \<Rightarrow> (fat_error \<times> u8 list) step option" where
  "pf_sectors F d bpb fileNameStr fileNameStrLen cluster currentSectorNumberInCluster st =
     (if currentSectorNumberInCluster < ucast (sectorsPerCluster bpb) then
        (let absoluteCurrentSectorNumber =
               sector_of_cluster bpb cluster currentSectorNumberInCluster;
             currentSectorContents = fat_ReadSingleSector d absoluteCurrentSectorNumber
         in case pf_entries F d bpb fileNameStr fileNameStrLen cluster
                   currentSectorNumberInCluster absoluteCurrentSectorNumber
                   currentSectorContents (st\<lparr>entry := 0\<rparr>) of
              None \<Rightarrow> None
            | Some (Returned r) \<Rightarrow> Some (Returned r)
            | Some (Broke st') \<Rightarrow>
                pf_sectors F d bpb fileNameStr fileNameStrLen cluster
                  (currentSectorNumberInCluster + 1) st'
            | Some (Stepped st') \<Rightarrow>
                pf_sectors F d bpb fileNameStr fileNameStrLen cluster
                  (currentSectorNumberInCluster + 1) st')
      else Some (Broke st))"
  by pat_completeness auto
termination
proof (relation "measure (\<lambda>(F, d, bpb, n, l, cl, s, st).
                   unat (ucast (sectorsPerCluster bpb) :: u32) - unat s)", goal_cases)
  case 1
  show ?case by simp
next
  case (2 F d bpb n l cl s st)
  then have lt: "unat s < unat (ucast (sectorsPerCluster bpb) :: u32)"
    by (simp add: word_less_nat_alt)
  have "unat (ucast (sectorsPerCluster bpb) :: u32) < 2 ^ 32"
    using unsigned_less [of "ucast (sectorsPerCluster bpb) :: u32", where 'a = nat] by simp
  with lt have "unat (s + 1) = Suc (unat s)"
    by (simp add: unat_word_ariths)
  with lt show ?case by simp
next
  case (3 F d bpb n l cl s st)
  then have lt: "unat s < unat (ucast (sectorsPerCluster bpb) :: u32)"
    by (simp add: word_less_nat_alt)
  have "unat (ucast (sectorsPerCluster bpb) :: u32) < 2 ^ 32"
    using unsigned_less [of "ucast (sectorsPerCluster bpb) :: u32", where 'a = nat] by simp
  with lt have "unat (s + 1) = Suc (unat s)"
    by (simp add: unat_word_ariths)
  with lt show ?case by simp
qed

declare pf_sectors.simps [simp del]

text \<open>The loop over the clusters of the directory (lines 663-1001), with the counter
  \<open>clusCnt\<close>: \<open>do { clusCnt++; ... } while ((cluster = pvt_GetNextCluster(cluster, bpb))
  != END_OF_CLUSTER && clusCnt < 5)\<close>.\<close>

function pf_clusters ::
  "fat_defs \<Rightarrow> disk \<Rightarrow> BiosParameterBlock \<Rightarrow> cstring \<Rightarrow> u8 \<Rightarrow> u32 \<Rightarrow> int \<Rightarrow> walk_state
     \<Rightarrow> (fat_error \<times> u8 list) option" where
  "pf_clusters F d bpb fileNameStr fileNameStrLen cluster clusCnt st =
     (case pf_sectors F d bpb fileNameStr fileNameStrLen cluster 0 st of
        None \<Rightarrow> None
      | Some (Returned r) \<Rightarrow> Some r
      | Some (Stepped st') \<Rightarrow>
          (case pvt_GetNextCluster d cluster bpb of
             None \<Rightarrow> None
           | Some c \<Rightarrow>
               if c \<noteq> END_OF_CLUSTER F \<and> clusCnt + 1 < 5
               then pf_clusters F d bpb fileNameStr fileNameStrLen c (clusCnt + 1) st'
               else Some (FILE_NOT_FOUND, []))
      | Some (Broke st') \<Rightarrow>
          (case pvt_GetNextCluster d cluster bpb of
             None \<Rightarrow> None
           | Some c \<Rightarrow>
               if c \<noteq> END_OF_CLUSTER F \<and> clusCnt + 1 < 5
               then pf_clusters F d bpb fileNameStr fileNameStrLen c (clusCnt + 1) st'
               else Some (FILE_NOT_FOUND, [])))"
  by pat_completeness auto
termination
  by (relation "measure (\<lambda>(F, d, bpb, n, l, cl, clusCnt, st). nat (5 - clusCnt))") auto

declare pf_clusters.simps [simp del]

definition FAT_PrintFile ::
  "fat_defs \<Rightarrow> disk \<Rightarrow> FatCurrentDirectory \<Rightarrow> cstring \<Rightarrow> BiosParameterBlock
     \<Rightarrow> (fat_error \<times> u8 list) option" where
  "FAT_PrintFile F d currentDirectory fileNameStr bpb =
     (let fileNameStrLen = (of_nat (length fileNameStr) :: u8)
      in if fileNameStr = [] then Some (INVALID_FILE_NAME, [])
         else if hd fileNameStr = 0x20 then Some (INVALID_FILE_NAME, [])
         else if list_ex (\<lambda>c. c \<in> set illegalCharacters)
                   (take (unat fileNameStrLen) fileNameStr)
              then Some (INVALID_DIR_NAME, [])
         else if \<not> list_ex (\<lambda>c. c \<noteq> 0x20) (take (unat fileNameStrLen) fileNameStr)
              then Some (INVALID_FILE_NAME, [])
         else pf_clusters F d bpb fileNameStr fileNameStrLen
                (FATFirstCluster currentDirectory) 0 initial_walk_state)"

subsection \<open>FAT_GetBiosParameterBlock\<close>

text \<open>\<open>found\<close> is what fat_FindBootSector answers: the address of the boot sector, or
  0xFFFFFFFF. The function returns its code and the geometry record as it leaves it.\<close>

definition FAT_GetBiosParameterBlock ::
  "u32 \<Rightarrow> disk \<Rightarrow> BiosParameterBlock \<Rightarrow> boot_sector_error \<times> BiosParameterBlock" where
  "FAT_GetBiosParameterBlock found d bpb =
     (let bpb = bpb\<lparr>bootSectorAddress := found\<rparr>
      in if bootSectorAddress bpb = 0xFFFFFFFF then (BOOT_SECTOR_NOT_FOUND, bpb)
         else
           (let BootSector = fat_ReadSingleSector d (bootSectorAddress bpb)
            in if BootSector ! (unat SECTOR_LEN - 2) = 0x55
                  \<and> BootSector ! (unat SECTOR_LEN - 1) = 0xAA
               then
                 (let bpb = bpb\<lparr>bytesPerSector :=
                                  push_bit 8 (ucast (BootSector ! 12)) OR ucast (BootSector ! 11)\<rparr>
                  in if bytesPerSector bpb \<noteq> SECTOR_LEN then (INVALID_BYTES_PER_SECTOR, bpb)
                     else
                       (let bpb = bpb\<lparr>sectorsPerCluster := BootSector ! 13\<rparr>
                        in if sectorsPerCluster bpb \<noteq> 1 \<and> sectorsPerCluster bpb \<noteq> 2
                              \<and> sectorsPerCluster bpb \<noteq> 4 \<and> sectorsPerCluster bpb \<noteq> 8
                              \<and> sectorsPerCluster bpb \<noteq> 16 \<and> sectorsPerCluster bpb \<noteq> 32
                              \<and> sectorsPerCluster bpb \<noteq> 64 \<and> sectorsPerCluster bpb \<noteq> 128
                           then (INVALID_SECTORS_PER_CLUSTER, bpb)
                           else
                             (let bpb = bpb\<lparr>reservedSectorCount :=
                                              push_bit 8 (ucast (BootSector ! 15))
                                                OR ucast (BootSector ! 14)\<rparr>;
                                  bpb = bpb\<lparr>numberOfFats := BootSector ! 16\<rparr>;
                                  bpb = bpb\<lparr>fatSize32 :=
                                              word32_of (BootSector ! 39) (BootSector ! 38)
                                                (BootSector ! 37) (BootSector ! 36)\<rparr>;
                                  bpb = bpb\<lparr>rootCluster :=
                                              word32_of (BootSector ! 47) (BootSector ! 46)
                                                (BootSector ! 45) (BootSector ! 44)\<rparr>;
                                  bpb = bpb\<lparr>dataRegionFirstSector :=
                                              bootSectorAddress bpb
                                                + ucast (reservedSectorCount bpb)
                                                + ucast (numberOfFats bpb) * fatSize32 bpb\<rparr>
                              in (BOOT_SECTOR_VALID, bpb))))
               else (NOT_BOOT_SECTOR, bpb)))"

subsection \<open>Notions used to state the properties of the FAT functions\<close>

text \<open>The little-endian value of two bytes, and the bytes of a 32-bit value in
  little-endian order.\<close>

definition le16 :: "u8 \<Rightarrow> u8 \<Rightarrow> u16" where
  "le16 b0 b1 = ucast b0 + 256 * ucast b1"

definition le32 :: "u32 \<Rightarrow> u8 list" where
  "le32 w = [ucast w, ucast (drop_bit 8 w), ucast (drop_bit 16 w), ucast (drop_bit 24 w)]"

text \<open>The checks of the boot sector in the order of section 4.3 of the specification,
  on the address that the search for the boot sector answered and on the sector there.\<close>

definition boot_sector_code :: "u32 \<Rightarrow> u8 list \<Rightarrow> boot_sector_error" where
  "boot_sector_code found BootSector =
     (if found = 0xFFFFFFFF then BOOT_SECTOR_NOT_FOUND
      else if \<not> (BootSector ! 510 = 0x55 \<and> BootSector ! 511 = 0xAA) then NOT_BOOT_SECTOR
      else if le16 (BootSector ! 11) (BootSector ! 12) \<noteq> 512 then INVALID_BYTES_PER_SECTOR
      else if BootSector ! 13 \<notin> {1, 2, 4, 8, 16, 32, 64, 128}
           then INVALID_SECTORS_PER_CLUSTER
      else BOOT_SECTOR_VALID)"

text \<open>A cluster chain: the clusters of a file in order, each the answer of
  pvt_GetNextCluster for the one before, the answer for the last being END_OF_CLUSTER.\<close>

fun is_chain :: "fat_defs \<Rightarrow> disk \<Rightarrow> BiosParameterBlock \<Rightarrow> u32 list \<Rightarrow> bool" where
  "is_chain F d bpb [] = False"
| "is_chain F d bpb [c] = (pvt_GetNextCluster d c bpb = Some (END_OF_CLUSTER F))"
| "is_chain F d bpb (c # c' # cl) =
     (pvt_GetNextCluster d c bpb = Some c' \<and> c' \<noteq> END_OF_CLUSTER F
      \<and> is_chain F d bpb (c' # cl))"

text \<open>What pvt_PrintFatFile transmits for one byte of the file; the bytes of a cluster,
  which are the first \<open>bytesPerSector\<close> bytes of each of its \<open>sectorsPerCluster\<close>
  sectors; and what a file with the given clusters looks like on the USART: for each
  cluster a line feed, a line feed and a carriage return, then its bytes.\<close>

definition print_byte :: "u8 \<Rightarrow> u8 list" where
  "print_byte b = (if b = 0x0A then [0x0A, 0x0D] else if b = 0 then [] else [b])"

definition cluster_bytes :: "disk \<Rightarrow> BiosParameterBlock \<Rightarrow> u32 \<Rightarrow> u8 list" where
  "cluster_bytes d bpb c =
     concat (map (\<lambda>i. take (unat (bytesPerSector bpb))
                          (fat_ReadSingleSector d (sector_of_cluster bpb c (of_nat i))))
                 [0..<unat (sectorsPerCluster bpb)])"

definition file_output :: "disk \<Rightarrow> BiosParameterBlock \<Rightarrow> u32 list \<Rightarrow> u8 list" where
  "file_output d bpb cl =
     concat (map (\<lambda>c. [0x0A, 0x0A, 0x0D] @ concat (map print_byte (cluster_bytes d bpb c))) cl)"

text \<open>The first cluster of a file, which pvt_PrintFatFile builds from the bytes 21, 20,
  27 and 26 of the entry of the file.\<close>

definition entry_first_cluster :: "u8 list \<Rightarrow> u16 \<Rightarrow> u32 option" where
  "entry_first_cluster fileSector entry_pos =
     do {
       b21 \<leftarrow> rd fileSector (unat (entry_pos + 21));
       b20 \<leftarrow> rd fileSector (unat (entry_pos + 20));
       b27 \<leftarrow> rd fileSector (unat (entry_pos + 27));
       b26 \<leftarrow> rd fileSector (unat (entry_pos + 26));
       Some (word32_of b21 b20 b27 b26)
     }"

text \<open>
  The directory search of FAT_PrintFile: the function (lines 619-1003) with its checks of
  the name and its loops over the clusters, sectors and entries of the current directory,
  in which each call of pvt_PrintFatFile with the \<open>return SUCCESS\<close> behind it is replaced
  by the answer \<open>Found\<close> with the two arguments of the call, the position of the entry
  and the sector array that holds it, and every other return by \<open>Failed\<close> with its code.
  The search tells which file FAT_PrintFile reaches from the current directory, whatever
  the clusters of the file hold. \<open>print_found\<close> and \<open>print_step\<close> are what FAT_PrintFile
  does with the answer of the search.
\<close>

datatype search_result = Found u16 "u8 list" | Failed fat_error

definition find_long_name ::
  "fat_defs \<Rightarrow> disk \<Rightarrow> BiosParameterBlock \<Rightarrow> cstring \<Rightarrow> u32 \<Rightarrow> u32 \<Rightarrow> u32 \<Rightarrow> u8 list
     \<Rightarrow> walk_state \<Rightarrow> u8 \<Rightarrow> search_result step option" where
  "find_long_name F d bpb fileNameStr cluster currentSectorNumberInCluster
       absoluteCurrentSectorNumber currentSectorContents st b0 =
     (if b0 AND LONG_NAME_LAST_ENTRY_FLAG = 0 then Some (Returned (Failed CORRUPT_FAT_ENTRY))
      else do {
        let st = st\<lparr>longNameExistsFlag := True\<rparr>;
        ln0 \<leftarrow> clear_longNameStr F;
        let longNameOrder = LONG_NAME_ORDINAL_MASK AND b0;
        let st = st\<lparr>shortNamePositionInCurrentSector :=
                        entry st + ENTRY_LEN * ucast longNameOrder\<rparr>;
        if bytesPerSector bpb \<le> shortNamePositionInCurrentSector st then
          (if \<not> bytesPerSector bpb < shortNamePositionInCurrentSector st
              \<and> shortNamePositionInCurrentSector st \<noteq> SECTOR_LEN
           then Some (Returned (Failed CORRUPT_FAT_ENTRY))
           else do {
             let st = (if bytesPerSector bpb < shortNamePositionInCurrentSector st
                       then st\<lparr>longNameCrossSectorBoundaryFlag := True,
                               longNameLastSectorEntryFlag := False\<rparr>
                       else st\<lparr>longNameCrossSectorBoundaryFlag := False,
                               longNameLastSectorEntryFlag := True\<rparr>);
             absoluteNextSectorNumber \<leftarrow>
               FAT_PrintFile_nextSector d bpb cluster currentSectorNumberInCluster
                 absoluteCurrentSectorNumber;
             let nextSectorContents = fat_ReadSingleSector d absoluteNextSectorNumber;
             let st = st\<lparr>shortNamePositionInNextSector :=
                             shortNamePositionInCurrentSector st - bytesPerSector bpb\<rparr>;
             attributeByte \<leftarrow>
               rd nextSectorContents (unat (shortNamePositionInNextSector st + 11));
             if attributeByte AND LONG_NAME_ATTR_MASK = LONG_NAME_ATTR_MASK
             then Some (Returned (Failed CORRUPT_FAT_ENTRY))
             else if attributeByte AND DIRECTORY_ENTRY_ATTR_FLAG \<noteq> 0 then Some (Stepped st)
             else if longNameCrossSectorBoundaryFlag st \<and> \<not> longNameLastSectorEntryFlag st
             then do {
               b \<leftarrow> rd nextSectorContents
                      (unat (shortNamePositionInNextSector st - ENTRY_LEN));
               if b AND LONG_NAME_ORDINAL_MASK \<noteq> 1
               then Some (Returned (Failed CORRUPT_FAT_ENTRY))
               else do {
                 ln1 \<leftarrow> long_name_loop signed_ge (shortNamePositionInNextSector st - ENTRY_LEN)
                          0 nextSectorContents ln0;
                 ln2 \<leftarrow> long_name_loop unsigned_ge (SECTOR_LEN - ENTRY_LEN) (entry st)
                          currentSectorContents ln1;
                 same \<leftarrow> c_strcmp fileNameStr (fst ln2);
                 if same
                 then Some (Returned (Found (shortNamePositionInNextSector st)
                                           nextSectorContents))
                 else Some (Stepped st)
               }
             }
             else if \<not> longNameCrossSectorBoundaryFlag st \<and> longNameLastSectorEntryFlag st
             then do {
               b \<leftarrow> rd currentSectorContents (unat (SECTOR_LEN - ENTRY_LEN));
               if b AND LONG_NAME_ORDINAL_MASK \<noteq> 1
               then Some (Returned (Failed CORRUPT_FAT_ENTRY))
               else do {
                 ln1 \<leftarrow> long_name_loop unsigned_ge (SECTOR_LEN - ENTRY_LEN) (entry st)
                          currentSectorContents ln0;
                 same \<leftarrow> c_strcmp fileNameStr (fst ln1);
                 if same
                 then Some (Returned (Found (shortNamePositionInNextSector st)
                                           nextSectorContents))
                 else Some (Stepped st)
               }
             }
             else Some (Returned (Failed CORRUPT_FAT_ENTRY))
           })
        else do {
          attributeByte \<leftarrow>
            rd currentSectorContents (unat (shortNamePositionInCurrentSector st + 11));
          if attributeByte AND LONG_NAME_ATTR_MASK = LONG_NAME_ATTR_MASK
          then Some (Returned (Failed CORRUPT_FAT_ENTRY))
          else if attributeByte AND DIRECTORY_ENTRY_ATTR_FLAG \<noteq> 0 then Some (Stepped st)
          else do {
            b \<leftarrow> rd currentSectorContents
                   (unat (shortNamePositionInCurrentSector st - ENTRY_LEN));
            if b AND LONG_NAME_ORDINAL_MASK \<noteq> 1
            then Some (Returned (Failed CORRUPT_FAT_ENTRY))
            else do {
              ln1 \<leftarrow> long_name_loop signed_ge
                       (shortNamePositionInCurrentSector st - ENTRY_LEN) (entry st)
                       currentSectorContents ln0;
              same \<leftarrow> c_strcmp fileNameStr (fst ln1);
              if same
              then Some (Returned (Found (shortNamePositionInCurrentSector st)
                                        currentSectorContents))
              else Some (Stepped st)
            }
          }
        }
      })"

definition find_short_name ::
  "fat_defs \<Rightarrow> disk \<Rightarrow> BiosParameterBlock \<Rightarrow> cstring \<Rightarrow> u8 \<Rightarrow> u8 list \<Rightarrow> walk_state \<Rightarrow> u8
     \<Rightarrow> search_result step option" where
  "find_short_name F d bpb fileNameStr fileNameStrLen currentSectorContents st attributeByte =
     do {
       match \<leftarrow> pf_short_name_match fileNameStr fileNameStrLen currentSectorContents st
                  attributeByte;
       if match then Some (Returned (Found (entry st) currentSectorContents))
                 else Some (Stepped st)
     }"

definition find_entry ::
  "fat_defs \<Rightarrow> disk \<Rightarrow> BiosParameterBlock \<Rightarrow> cstring \<Rightarrow> u8 \<Rightarrow> u32 \<Rightarrow> u32 \<Rightarrow> u32 \<Rightarrow> u8 list
     \<Rightarrow> walk_state \<Rightarrow> search_result step option" where
  "find_entry F d bpb fileNameStr fileNameStrLen cluster currentSectorNumberInCluster
       absoluteCurrentSectorNumber currentSectorContents st0 =
     (case adjust_entry st0 of
        Returned r \<Rightarrow> Some (Returned r)
      | Broke st \<Rightarrow> Some (Broke st)
      | Stepped st \<Rightarrow>
          do {
            b0 \<leftarrow> rd currentSectorContents (unat (entry st));
            if b0 = 0xE5 then Some (Stepped st)
            else if b0 = 0 then Some (Returned (Failed FILE_NOT_FOUND))
            else do {
              attributeByte \<leftarrow> rd currentSectorContents (unat (entry st + 11));
              if attributeByte AND LONG_NAME_ATTR_MASK = LONG_NAME_ATTR_MASK
              then find_long_name F d bpb fileNameStr cluster currentSectorNumberInCluster
                     absoluteCurrentSectorNumber currentSectorContents st b0
              else find_short_name F d bpb fileNameStr fileNameStrLen currentSectorContents st
                     attributeByte
            }
          })"

partial_function (option) find_entries ::
  "fat_defs \<Rightarrow> disk \<Rightarrow> BiosParameterBlock \<Rightarrow> cstring \<Rightarrow> u8 \<Rightarrow> u32 \<Rightarrow> u32 \<Rightarrow> u32 \<Rightarrow> u8 list
     \<Rightarrow> walk_state \<Rightarrow> search_result step option" where
  "find_entries F d bpb fileNameStr fileNameStrLen cluster currentSectorNumberInCluster
       absoluteCurrentSectorNumber currentSectorContents st =
     (if entry st < bytesPerSector bpb then
        (case find_entry F d bpb fileNameStr fileNameStrLen cluster currentSectorNumberInCluster
                absoluteCurrentSectorNumber currentSectorContents st of
           None \<Rightarrow> None
         | Some (Returned r) \<Rightarrow> Some (Returned r)
         | Some (Broke st') \<Rightarrow> Some (Broke st')
         | Some (Stepped st') \<Rightarrow>
             find_entries F d bpb fileNameStr fileNameStrLen cluster currentSectorNumberInCluster
               absoluteCurrentSectorNumber currentSectorContents
               (st'\<lparr>entry := entry st' + ENTRY_LEN\<rparr>))
      else Some (Broke st))"

declare find_entries.simps [code]

function find_sectors ::
  "fat_defs \<Rightarrow> disk \<Rightarrow> BiosParameterBlock \<Rightarrow> cstring \<Rightarrow> u8 \<Rightarrow> u32 \<Rightarrow> u32 \<Rightarrow> walk_state
     \<Rightarrow> search_result step option" where
  "find_sectors F d bpb fileNameStr fileNameStrLen cluster currentSectorNumberInCluster st =
     (if currentSectorNumberInCluster < ucast (sectorsPerCluster bpb) then
        (let absoluteCurrentSectorNumber =
               sector_of_cluster bpb cluster currentSectorNumberInCluster;
             currentSectorContents = fat_ReadSingleSector d absoluteCurrentSectorNumber
         in case find_entries F d bpb fileNameStr fileNameStrLen cluster
                   currentSectorNumberInCluster absoluteCurrentSectorNumber
                   currentSectorContents (st\<lparr>entry := 0\<rparr>) of
              None \<Rightarrow> None
            | Some (Returned r) \<Rightarrow> Some (Returned r)
            | Some (Broke st') \<Rightarrow>
                find_sectors F d bpb fileNameStr fileNameStrLen cluster
                  (currentSectorNumberInCluster + 1) st'
            | Some (Stepped st') \<Rightarrow>
                find_sectors F d bpb fileNameStr fileNameStrLen cluster
                  (currentSectorNumberInCluster + 1) st')
      else Some (Broke st))"
  by pat_completeness auto
termination
proof (relation "measure (\<lambda>(F, d, bpb, n, l, cl, s, st).
                   unat (ucast (sectorsPerCluster bpb) :: u32) - unat s)", goal_cases)
  case 1
  show ?case by simp
next
  case (2 F d bpb n l cl s st)
  then have lt: "unat s < unat (ucast (sectorsPerCluster bpb) :: u32)"
    by (simp add: word_less_nat_alt)
  have "unat (ucast (sectorsPerCluster bpb) :: u32) < 2 ^ 32"
    using unsigned_less [of "ucast (sectorsPerCluster bpb) :: u32", where 'a = nat] by simp
  with lt have "unat (s + 1) = Suc (unat s)"
    by (simp add: unat_word_ariths)
  with lt show ?case by simp
next
  case (3 F d bpb n l cl s st)
  then have lt: "unat s < unat (ucast (sectorsPerCluster bpb) :: u32)"
    by (simp add: word_less_nat_alt)
  have "unat (ucast (sectorsPerCluster bpb) :: u32) < 2 ^ 32"
    using unsigned_less [of "ucast (sectorsPerCluster bpb) :: u32", where 'a = nat] by simp
  with lt have "unat (s + 1) = Suc (unat s)"
    by (simp add: unat_word_ariths)
  with lt show ?case by simp
qed

declare find_sectors.simps [simp del]

function find_clusters ::
  "fat_defs \<Rightarrow> disk \<Rightarrow> BiosParameterBlock \<Rightarrow> cstring \<Rightarrow> u8 \<Rightarrow> u32 \<Rightarrow> int \<Rightarrow> walk_state
     \<Rightarrow> search_result option" where
  "find_clusters F d bpb fileNameStr fileNameStrLen cluster clusCnt st =
     (case find_sectors F d bpb fileNameStr fileNameStrLen cluster 0 st of
        None \<Rightarrow> None
      | Some (Returned r) \<Rightarrow> Some r
      | Some (Stepped st') \<Rightarrow>
          (case pvt_GetNextCluster d cluster bpb of
             None \<Rightarrow> None
           | Some c \<Rightarrow>
               if c \<noteq> END_OF_CLUSTER F \<and> clusCnt + 1 < 5
               then find_clusters F d bpb fileNameStr fileNameStrLen c (clusCnt + 1) st'
               else Some (Failed FILE_NOT_FOUND))
      | Some (Broke st') \<Rightarrow>
          (case pvt_GetNextCluster d cluster bpb of
             None \<Rightarrow> None
           | Some c \<Rightarrow>
               if c \<noteq> END_OF_CLUSTER F \<and> clusCnt + 1 < 5
               then find_clusters F d bpb fileNameStr fileNameStrLen c (clusCnt + 1) st'
               else Some (Failed FILE_NOT_FOUND)))"
  by pat_completeness auto
termination
  by (relation "measure (\<lambda>(F, d, bpb, n, l, cl, clusCnt, st). nat (5 - clusCnt))") auto

declare find_clusters.simps [simp del]

definition FAT_PrintFile_search ::
  "fat_defs \<Rightarrow> disk \<Rightarrow> FatCurrentDirectory \<Rightarrow> cstring \<Rightarrow> BiosParameterBlock
     \<Rightarrow> search_result option" where
  "FAT_PrintFile_search F d currentDirectory fileNameStr bpb =
     (let fileNameStrLen = (of_nat (length fileNameStr) :: u8)
      in if fileNameStr = [] then Some (Failed INVALID_FILE_NAME)
         else if hd fileNameStr = 0x20 then Some (Failed INVALID_FILE_NAME)
         else if list_ex (\<lambda>c. c \<in> set illegalCharacters)
                   (take (unat fileNameStrLen) fileNameStr)
              then Some (Failed INVALID_DIR_NAME)
         else if \<not> list_ex (\<lambda>c. c \<noteq> 0x20) (take (unat fileNameStrLen) fileNameStr)
              then Some (Failed INVALID_FILE_NAME)
         else find_clusters F d bpb fileNameStr fileNameStrLen
                (FATFirstCluster currentDirectory) 0 initial_walk_state)"

fun print_found ::
  "fat_defs \<Rightarrow> disk \<Rightarrow> BiosParameterBlock \<Rightarrow> search_result \<Rightarrow> (fat_error \<times> u8 list) option" where
  "print_found F d bpb (Found entry_pos fileSector) =
     do {
       out \<leftarrow> pvt_PrintFatFile F d entry_pos fileSector bpb [];
       Some (SUCCESS, out)
     }"
| "print_found F d bpb (Failed e) = Some (e, [])"

fun print_step ::
  "fat_defs \<Rightarrow> disk \<Rightarrow> BiosParameterBlock \<Rightarrow> search_result step
     \<Rightarrow> (fat_error \<times> u8 list) step option" where
  "print_step F d bpb (Returned r) = map_option Returned (print_found F d bpb r)"
| "print_step F d bpb (Broke st) = Some (Broke st)"
| "print_step F d bpb (Stepped st) = Some (Stepped st)"

text \<open>A result of the directory walk of FAT_SetCurrentDirectory that, when it is a return
  with SUCCESS, carries a cursor that pvt_SetCurrentDirectoryToChild made from the cursor
  and the name given.\<close>

definition success_is_child ::
  "FatCurrentDirectory \<Rightarrow> cstring \<Rightarrow> (fat_error \<times> FatCurrentDirectory) step option \<Rightarrow> bool" where
  "success_is_child c A r \<longleftrightarrow>
     (\<forall>c'. r = Some (Returned (SUCCESS, c')) \<longrightarrow>
        (\<exists>sector pos. pvt_SetCurrentDirectoryToChild c sector pos A = Some c'))"

text \<open>The first-cluster field of the second entry of the first sector of a directory,
  which is the entry \<open>..\<close> of every directory but the root.\<close>

definition dotdot_cluster :: "disk \<Rightarrow> BiosParameterBlock \<Rightarrow> u32 \<Rightarrow> u32" where
  "dotdot_cluster d bpb c =
     (let s = fat_ReadSingleSector d (sector_of_cluster bpb c 0)
      in word32_of (s ! 53) (s ! 52) (s ! 59) (s ! 58))"

text \<open>The cursor of the root directory, and the cursors of the other directories for
  which pvt_SetCurrentDirectoryToParent can undo pvt_SetCurrentDirectoryToChild: the
  parent paths end with a slash, the names hold no slash, and each parent path with its
  name and one more slash fits the array of 64 characters of
  pvt_SetCurrentDirectoryToParent.\<close>

definition root_cursor :: "BiosParameterBlock \<Rightarrow> FatCurrentDirectory" where
  "root_cursor bpb =
     \<lparr>longName = cstr ''/'', longParentPath = [], shortName = cstr ''/'',
      shortParentPath = [], FATFirstCluster = rootCluster bpb\<rparr>"

definition path_ok :: "cstring \<Rightarrow> cstring \<Rightarrow> bool" where
  "path_ok parentPath name \<longleftrightarrow>
     parentPath \<noteq> [] \<and> last parentPath = 0x2F \<and> 0x2F \<notin> set name
     \<and> length parentPath + length name < 64"

definition cursor_ok :: "BiosParameterBlock \<Rightarrow> FatCurrentDirectory \<Rightarrow> bool" where
  "cursor_ok bpb c \<longleftrightarrow>
     (if FATFirstCluster c = rootCluster bpb then c = root_cursor bpb
      else FATFirstCluster c \<noteq> 0
           \<and> path_ok (longParentPath c) (longName c)
           \<and> path_ok (shortParentPath c) (shortName c))"

subsection \<open>Example volumes\<close>

text \<open>A directory entry of 32 bytes with the given 11 bytes of name and extension,
  attribute byte and first cluster; the other fields are 0.\<close>

definition dir_entry :: "string \<Rightarrow> u8 \<Rightarrow> u32 \<Rightarrow> u8 list" where
  "dir_entry name11 attr cluster =
     cstr name11 @ [attr] @ replicate 8 0
       @ [ucast (drop_bit 16 cluster), ucast (drop_bit 24 cluster)] @ replicate 4 0
       @ [ucast cluster, ucast (drop_bit 8 cluster)] @ replicate 4 0"

definition example_fat_defs :: fat_defs where
  "example_fat_defs = \<lparr>END_OF_CLUSTER = 0x0FFFFFFF, LONG_NAME_LEN_MAX = 64\<rparr>"

text \<open>A volume with one sector per cluster. The root directory (cluster 2) holds the
  directory ABCDEF (cluster 3) and the file HELLO.TXT, whose chain has the six clusters
  4, 5, 6, 7, 8, 9; cluster \<open>4 + i\<close> of the file holds the \<open>i\<close>-th of the letters
  A to F followed by NULs. The directory ABCDEF holds the directory SUB (cluster 10).\<close>

definition example_bpb :: BiosParameterBlock where
  "example_bpb =
     \<lparr>bytesPerSector = 512, sectorsPerCluster = 1, reservedSectorCount = 32,
      numberOfFats = 2, fatSize32 = 16, rootCluster = 2, bootSectorAddress = 0,
      dataRegionFirstSector = 64\<rparr>"

definition example_volume :: disk where
  "example_volume a =
     (if a = 32 then
        concat (map le32 [0x0FFFFFF8, 0x0FFFFFFF, 0x0FFFFFFF, 0x0FFFFFFF,
                          5, 6, 7, 8, 9, 0x0FFFFFFF, 0x0FFFFFFF])
      else if a = 64 then
        dir_entry ''ABCDEF     '' 0x10 3 @ dir_entry ''HELLO   TXT'' 0x20 4
      else if a = 65 then
        dir_entry ''.          '' 0x10 3 @ dir_entry ''..         '' 0x10 0
          @ dir_entry ''SUB        '' 0x10 10
      else if 66 \<le> a \<and> a \<le> 71 then [ucast a - 1]
      else if a = 72 then
        dir_entry ''.          '' 0x10 10 @ dir_entry ''..         '' 0x10 3
      else [])"

definition example_subdir :: FatCurrentDirectory where
  "example_subdir =
     \<lparr>longName = cstr ''ABCDEF'', longParentPath = cstr ''/'', shortName = cstr ''ABCDEF'',
      shortParentPath = cstr ''/'', FATFirstCluster = 3\<rparr>"

text \<open>The volume of scenario 1 of the specification: the boot sector at address 8192
  with 512 bytes per sector, 8 sectors per cluster, 32 reserved sectors, 2 FATs of 1024
  sectors and the root directory in cluster 2. In its FAT, as pvt_GetNextCluster reads it,
  cluster 5 follows cluster 2.\<close>

definition scenario_boot_sector :: "u8 list" where
  "scenario_boot_sector =
     replicate 11 0 @ [0x00, 0x02, 8, 32, 0, 2] @ replicate 19 0 @ le32 1024
       @ replicate 4 0 @ le32 2 @ replicate 462 0 @ [0x55, 0xAA]"

definition scenario_volume :: disk where
  "scenario_volume a =
     (if a = 8192 then scenario_boot_sector
      else if a = 32 then concat (map le32 [0x0FFFFFF8, 0x0FFFFFFF, 5, 0, 0, 0x0FFFFFFF])
      else [])"

definition scenario_bpb :: BiosParameterBlock where
  "scenario_bpb =
     \<lparr>bytesPerSector = 512, sectorsPerCluster = 8, reservedSectorCount = 32,
      numberOfFats = 2, fatSize32 = 1024, rootCluster = 2, bootSectorAddress = 8192,
      dataRegionFirstSector = 10272\<rparr>"

definition example_subsubdir :: FatCurrentDirectory where
  "example_subsubdir =
     \<lparr>longName = cstr ''SUB'', longParentPath = cstr ''/ABCDEF/'', shortName = cstr ''SUB'',
      shortParentPath = cstr ''/ABCDEF/'', FATFirstCluster = 10\<rparr>"

definition blank_bpb :: BiosParameterBlock where
  "blank_bpb =
     \<lparr>bytesPerSector = 0, sectorsPerCluster = 0, reservedSectorCount = 0,
      numberOfFats = 0, fatSize32 = 0, rootCluster = 0, bootSectorAddress = 0,
      dataRegionFirstSector = 0\<rparr>"

section \<open>Properties of the block layer\<close>

lemma after_reads_0 [simp]: "after_reads 0 bus = bus"
  by (simp add: after_reads_def)

lemma recv_after_reads:
  "SD_ReceiveByteSPI bus = (miso bus (clk bus), after_reads (Suc 0) bus)"
  by (simp add: SD_ReceiveByteSPI_def SD_SendByteSPI_def after_reads_def)

lemma after_reads_add: "after_reads m (after_reads n bus) = after_reads (n + m) bus"
  by (simp add: after_reads_def replicate_add)

lemma after_reads_sel [simp]:
  "miso (after_reads n bus) = miso bus" "clk (after_reads n bus) = clk bus + n"
  "cs (after_reads n bus) = cs bus"
  by (simp_all add: after_reads_def)

lemma first_token_Some:
  "first_token m p n = Some k \<Longrightarrow> k < n \<and> m (p + k) = 0xFE \<and> (\<forall>j<k. m (p + j) \<noteq> 0xFE)"
proof (induction n arbitrary: p k)
  case 0
  then show ?case by simp
next
  case (Suc n)
  show ?case
  proof (cases "m p = 0xFE")
    case True
    with Suc.prems show ?thesis by simp
  next
    case False
    with Suc.prems obtain k' where k': "first_token m (Suc p) n = Some k'" "k = Suc k'"
      by auto
    from Suc.IH [OF k'(1)] have ih: "k' < n" "m (Suc p + k') = 0xFE" "\<forall>j<k'. m (Suc p + j) \<noteq> 0xFE"
      by auto
    have "\<forall>j<k. m (p + j) \<noteq> 0xFE"
    proof (intro allI impI)
      fix j assume "j < k"
      show "m (p + j) \<noteq> 0xFE"
      proof (cases j)
        case 0
        with False show ?thesis by simp
      next
        case (Suc j')
        with \<open>j < k\<close> k'(2) ih(3) show ?thesis by simp
      qed
    qed
    with ih k'(2) show ?thesis by simp
  qed
qed

lemma first_token_None:
  "first_token m p n = None \<longleftrightarrow> (\<forall>k<n. m (p + k) \<noteq> 0xFE)"
proof (induction n arbitrary: p)
  case 0
  then show ?case by simp
next
  case (Suc n)
  have "(\<forall>k<Suc n. m (p + k) \<noteq> 0xFE) \<longleftrightarrow> m p \<noteq> 0xFE \<and> (\<forall>k<n. m (Suc p + k) \<noteq> 0xFE)"
    by (auto simp: less_Suc_eq_0_disj)
  with Suc.IH [of "Suc p"] show ?case by simp
qed

lemma wait_start_token_eq:
  "unat t + n = 254 \<Longrightarrow>
   wait_start_token sbt t bus =
     (if sbt = 0xFE then (False, bus)
      else case first_token (miso bus) (clk bus) n of
             Some k \<Rightarrow> (False, after_reads (Suc k) bus)
           | None \<Rightarrow> (True, after_reads (Suc n) bus))"
proof (induction n arbitrary: t sbt bus)
  case 0
  then have "unat t = 254" by simp
  then have "word_of_nat (unat t) = (word_of_nat 254 :: u8)" by simp
  then have "t = 0xFE" by simp
  then show ?case
    by (subst wait_start_token.simps) (simp add: recv_after_reads)
next
  case (Suc n)
  from Suc.prems have lt: "unat t < 254" by simp
  then have t1: "unat (t + 1) = Suc (unat t)" 
    by (simp add: unat_word_ariths)
  then have le: "\<not> 0xFE < t + 1" using lt
    by (simp add: word_less_nat_alt)
  have ih: "wait_start_token sbt' (t + 1) bus' =
     (if sbt' = 0xFE then (False, bus')
      else case first_token (miso bus') (clk bus') n of
             Some k \<Rightarrow> (False, after_reads (Suc k) bus')
           | None \<Rightarrow> (True, after_reads (Suc n) bus'))" for sbt' bus'
    using Suc.prems t1 by (intro Suc.IH) simp
  show ?case
    by (subst wait_start_token.simps)
       (simp add: recv_after_reads le ih after_reads_add split: option.split)
qed


lemma load_block_eq:
  "i + n = BLOCK_LEN \<Longrightarrow> clk bus = base + i \<Longrightarrow>
   load_block i block bus =
     ((\<lambda>j. if i \<le> j \<and> j < BLOCK_LEN then miso bus (base + j) else block j),
      after_reads n bus)"
proof (induction n arbitrary: i block bus)
  case 0
  then show ?case
    by (subst load_block.simps) (auto simp: fun_eq_iff)
next
  case (Suc n)
  then have lt: "i < BLOCK_LEN" and nxt: "Suc i + n = BLOCK_LEN" by simp_all
  have c: "clk (after_reads (Suc 0) bus) = base + Suc i" using Suc.prems by simp
  show ?case
    by (subst load_block.simps)
       (auto simp: lt recv_after_reads Suc.IH [OF nxt c] after_reads_add fun_eq_iff Suc.prems)
qed

lemma SD_ReadSingleBlock_eq:
  "SD_ReadSingleBlock D blockAddress block bus =
    (let (r1, b) = SD_GetR1 D (SD_SendCommand D READ_SINGLE_BLOCK blockAddress (CS_LOW bus))
     in if r1 \<noteq> 0 then (R1_ERROR D OR ucast r1, block, CS_HIGH b)
        else case first_token (miso b) (clk b) 255 of
               None \<Rightarrow> (START_TOKEN_TIMEOUT D OR ucast r1, block, CS_HIGH (after_reads 256 b))
             | Some k \<Rightarrow>
                 (READ_SUCCESS D OR ucast r1,
                  (\<lambda>i. if i < 512 then miso b (clk b + k + 1 + i) else block i),
                  CS_HIGH (after_reads (k + 516) b)))"
proof -
  obtain r1 b where rb: "SD_GetR1 D (SD_SendCommand D READ_SINGLE_BLOCK blockAddress (CS_LOW bus)) = (r1, b)"
    by (cases "SD_GetR1 D (SD_SendCommand D READ_SINGLE_BLOCK blockAddress (CS_LOW bus))")
  have w: "wait_start_token (miso b (clk b)) 0 (after_reads (Suc 0) b) =
     (case first_token (miso b) (clk b) 255 of
        Some k \<Rightarrow> (False, after_reads (Suc k) b)
      | None \<Rightarrow> (True, after_reads 256 b))"
  proof -
    have 255: "(255::nat) = Suc 254" by simp
    show ?thesis
      unfolding 255 first_token.simps
      by (subst wait_start_token_eq [where n = 254])
         (auto simp: after_reads_add split: option.split)
  qed
  show ?thesis
    unfolding SD_ReadSingleBlock_def
    by (simp add: rb Let_def word_greater_zero_iff recv_after_reads w
        load_block_eq [where n = 512 and i = 0 and base = "clk b + Suc k" for k]
        BLOCK_LEN_def after_reads_add add.commute [of 516]
        split: option.split cong: if_cong)
qed

text \<open>
  Claim C7. For every address, array and bus, SD_ReadSingleBlock asserts chip-select, sends
  CMD17 with the address and reads R1. When R1 is not zero it returns R1_ERROR | r1. When
  R1 is zero and none of the next 255 bytes of the card is the Start Block Token 0xFE, it
  returns START_TOKEN_TIMEOUT | r1, after 256 reads. Otherwise, with the token at
  position \<open>k\<close>, it stores exactly the 512 bytes that follow the token at the indices
  0..511 of the array, reads three more bytes (two CRC bytes and one more) and returns
  READ_SUCCESS | r1. Chip-select is high on each of the three paths.
\<close>

theorem SD_ReadSingleBlock_contract:
  "SD_ReadSingleBlock D blockAddress block bus =
    (let (r1, b) = SD_GetR1 D (SD_SendCommand D READ_SINGLE_BLOCK blockAddress (CS_LOW bus))
     in if r1 \<noteq> 0 then (R1_ERROR D OR ucast r1, block, CS_HIGH b)
        else case first_token (miso b) (clk b) 255 of
               None \<Rightarrow> (START_TOKEN_TIMEOUT D OR ucast r1, block, CS_HIGH (after_reads 256 b))
             | Some k \<Rightarrow>
                 (READ_SUCCESS D OR ucast r1,
                  (\<lambda>i. if i < 512 then miso b (clk b + k + 1 + i) else block i),
                  CS_HIGH (after_reads (k + 516) b)))"
  by (rule SD_ReadSingleBlock_eq)

lemma SD_SendByteSPI_sel [simp]:
  "cs (SD_SendByteSPI x bus) = cs bus" "miso (SD_SendByteSPI x bus) = miso bus"
  by (simp_all add: SD_SendByteSPI_def)

lemma SD_SendCommand_sel [simp]:
  "cs (SD_SendCommand D c a bus) = cs bus" "miso (SD_SendCommand D c a bus) = miso bus"
  by (simp_all add: SD_SendCommand_def)

lemma SD_GetR1_poll_sel:
  "SD_GetR1_poll D n bus = (r, bus') \<Longrightarrow> cs bus' = cs bus \<and> miso bus' = miso bus"
proof (induction n arbitrary: bus)
  case 0
  then show ?case by auto
next
  case (Suc n)
  show ?case
  proof (cases "miso bus (clk bus) AND 0x80 = 0")
    case True
    with Suc.prems show ?thesis by (auto simp: recv_after_reads)
  next
    case False
    with Suc.prems have "SD_GetR1_poll D n (after_reads (Suc 0) bus) = (r, bus')"
      by (simp add: recv_after_reads)
    from Suc.IH [OF this] show ?thesis by simp
  qed
qed

lemma SD_GetR1_sel:
  "SD_GetR1 D bus = (r, bus') \<Longrightarrow> cs bus' = cs bus \<and> miso bus' = miso bus"
  unfolding SD_GetR1_def by (rule SD_GetR1_poll_sel)

lemma CS_sel [simp]:
  "cs (CS_HIGH bus) = True" "cs (CS_LOW bus) = False"
  "miso (CS_HIGH bus) = miso bus" "miso (CS_LOW bus) = miso bus"
  by (simp_all add: CS_HIGH_def CS_LOW_def)

lemma SD_ReadSingleBlock_cs_high:
  "cs (snd (snd (SD_ReadSingleBlock D blockAddress block bus)))"
  by (simp add: SD_ReadSingleBlock_eq split: prod.split option.split)

text \<open>
  Claim C10. When the code SD_ReadSingleBlock returns carries the flag R1_ERROR or
  START_TOKEN_TIMEOUT, the array of the caller is what it was before the call, at every
  index; and an array that differs after the call comes with the code READ_SUCCESS.
\<close>

theorem SD_ReadSingleBlock_error_keeps_block:
  assumes ok: "read_flags_ok D"
    and res: "SD_ReadSingleBlock D blockAddress block bus = (code, block', bus')"
  shows "(code AND 0xFF00 = R1_ERROR D \<or> code AND 0xFF00 = START_TOKEN_TIMEOUT D
            \<longrightarrow> block' = block)
         \<and> (block' \<noteq> block \<longrightarrow> code = READ_SUCCESS D)"
proof -
  obtain r1 b where rb: "SD_GetR1 D (SD_SendCommand D READ_SINGLE_BLOCK blockAddress (CS_LOW bus)) = (r1, b)"
    by (cases "SD_GetR1 D (SD_SendCommand D READ_SINGLE_BLOCK blockAddress (CS_LOW bus))")
  show ?thesis
  proof (cases "r1 \<noteq> 0")
    case True
    with res rb have "block' = block"
      by (simp add: SD_ReadSingleBlock_eq)
    then show ?thesis by simp
  next
    case False
    note r0 = this
    show ?thesis
    proof (cases "first_token (miso b) (clk b) 255")
      case None
      with res rb r0 have "block' = block"
        by (simp add: SD_ReadSingleBlock_eq)
      then show ?thesis by simp
    next
      case (Some k)
      with res rb r0 have "code = READ_SUCCESS D"
        by (auto simp: SD_ReadSingleBlock_eq)
      with ok show ?thesis
        by (auto simp: read_flags_ok_def)
    qed
  qed
qed

lemma erase_busy_wait_held_low:
  "unat t + n = 0xFFFF \<Longrightarrow> (\<forall>k\<le>n. miso bus (clk bus + k) = 0) \<Longrightarrow>
   erase_busy_wait t bus = (True, after_reads (Suc n) bus)"
proof (induction n arbitrary: t bus)
  case 0
  then have "unat t = 0xFFFF" by simp
  then have "word_of_nat (unat t) = (word_of_nat 0xFFFF :: u16)" by simp
  then have "t = 0xFFFF" by simp
  with "0.prems" show ?case
    by (subst erase_busy_wait.simps) (simp add: recv_after_reads)
next
  case (Suc n)
  from Suc.prems have lt: "unat t < 0xFFFF" by simp
  then have t1: "unat (t + 1) = Suc (unat t)"
    by (simp add: unat_word_ariths)
  from lt have le: "\<not> 0xFFFE < t"
    by (simp add: word_less_nat_alt)
  have z: "miso bus (clk bus) = 0" using Suc.prems(2) by (metis add.right_neutral le0)
  have "\<forall>k\<le>n. miso (after_reads (Suc 0) bus) (clk (after_reads (Suc 0) bus) + k) = 0"
    using Suc.prems(2) by (auto dest: spec [where x = "Suc k" for k])
  moreover have "unat (t + 1) + n = 0xFFFF" using Suc.prems(1) t1 by simp
  ultimately have ih: "erase_busy_wait (t + 1) (after_reads (Suc 0) bus)
       = (True, after_reads (Suc n) (after_reads (Suc 0) bus))"
    by (rule Suc.IH [rotated])
  show ?case
    by (subst erase_busy_wait.simps) (simp add: recv_after_reads z le ih after_reads_add)
qed

lemma SD_GetR1_held_low:
  assumes "0 < R1_POLL_LIMIT D" "miso bus = (\<lambda>_. 0)"
  shows "SD_GetR1 D bus = (0, after_reads (Suc 0) bus)"
proof -
  from assms(1) obtain n where n: "R1_POLL_LIMIT D = Suc n" by (cases "R1_POLL_LIMIT D") auto
  show ?thesis
    by (simp add: SD_GetR1_def n recv_after_reads assms(2))
qed

text \<open>
  Claim C1 says that chip-select is high when a block-layer operation returns, on every
  path. SD_ReadSingleBlock keeps that (\<open>SD_ReadSingleBlock_cs_high\<close>). SD_EraseBlocks
  does not: on a card that answers 0 to every exchange (R1 = 0 to the three commands, then
  busy for all 65536 polls) it returns ERASE_BUSY_TIMEOUT | r1 with chip-select still low.
\<close>

theorem SD_EraseBlocks_busy_timeout_leaves_cs_low:
  assumes "0 < R1_POLL_LIMIT D" "miso bus = (\<lambda>_. 0)"
  shows "fst (SD_EraseBlocks D startBlockAddress endBlockAddress bus) = ERASE_BUSY_TIMEOUT D
         \<and> cs (snd (SD_EraseBlocks D startBlockAddress endBlockAddress bus)) = False"
proof -
  have r: "SD_GetR1 D (SD_SendCommand D c a (CS_LOW b)) =
             (0, after_reads (Suc 0) (SD_SendCommand D c a (CS_LOW b)))"
    if "miso b = (\<lambda>_. 0)" for c a b
    using that by (intro SD_GetR1_held_low assms(1)) simp
  have w: "erase_busy_wait 0 b = (True, after_reads (Suc 0xFFFF) b)" if "miso b = (\<lambda>_. 0)" for b
    using that by (intro erase_busy_wait_held_low) simp_all
  show ?thesis
    unfolding SD_EraseBlocks_def
    by (simp add: Let_def r w assms(2))
qed

lemma first_token_numeral:
  "first_token m p (numeral k) =
     (if m p = 0xFE then Some 0 else map_option Suc (first_token m (Suc p) (pred_numeral k)))"
  by (simp add: numeral_eq_Suc)

lemma SD_GetR1_poll_numeral:
  "SD_GetR1_poll D (numeral k) bus =
     (let (r, bus') = SD_ReceiveByteSPI bus
      in if r AND 0x80 = 0 then (r, bus') else SD_GetR1_poll D (pred_numeral k) bus')"
  by (simp add: numeral_eq_Suc)

lemma clk_SD_SendCommand [simp]: "clk (SD_SendCommand D c a bus) = clk bus + 6"
  by (simp add: SD_SendCommand_def SD_SendByteSPI_def)

lemma clk_CS [simp]: "clk (CS_LOW bus) = clk bus" "clk (CS_HIGH bus) = clk bus"
  by (simp_all add: CS_LOW_def CS_HIGH_def)

lemma idle_bus_sel [simp]:
  "miso (idle_bus m) = m" "clk (idle_bus m) = 0" "cs (idle_bus m) = True"
  by (simp_all add: idle_bus_def)

lemma SD_GetR1_example:
  "m 6 = 0 \<Longrightarrow>
   SD_GetR1 example_defs (SD_SendCommand example_defs c a (CS_LOW (idle_bus m))) =
     (0, after_reads (Suc 0) (SD_SendCommand example_defs c a (CS_LOW (idle_bus m))))"
  by (simp add: SD_GetR1_def example_defs_def SD_GetR1_poll_numeral recv_after_reads)

theorem SD_ReadSingleBlock_contract_witness:
  "fst (SD_ReadSingleBlock example_defs 100 (\<lambda>i. 0)
          (idle_bus (\<lambda>n. if n = 6 then 0 else if n = 8 then 0xFE else if n < 8 then 0xFF else 0x41)))
     = 0x0100
   \<and> fst (snd (SD_ReadSingleBlock example_defs 100 (\<lambda>i. 0)
          (idle_bus (\<lambda>n. if n = 6 then 0 else if n = 8 then 0xFE else if n < 8 then 0xFF else 0x41)))) 511
     = 0x41
   \<and> fst (snd (SD_ReadSingleBlock example_defs 100 (\<lambda>i. 0)
          (idle_bus (\<lambda>n. if n = 6 then 0 else if n = 8 then 0xFE else if n < 8 then 0xFF else 0x41)))) 512
     = 0"
  by (simp add: SD_ReadSingleBlock_contract SD_GetR1_example first_token_numeral)
     (simp add: example_defs_def)

theorem SD_ReadSingleBlock_error_keeps_block_witness:
  "read_flags_ok example_defs
   \<and> fst (SD_ReadSingleBlock example_defs 100 (\<lambda>i. 7) (idle_bus (\<lambda>n. if n = 6 then 0 else 0xFF)))
        AND 0xFF00 = START_TOKEN_TIMEOUT example_defs
   \<and> fst (snd (SD_ReadSingleBlock example_defs 100 (\<lambda>i. 7)
        (idle_bus (\<lambda>n. if n = 6 then 0 else 0xFF)))) = (\<lambda>i. 7)"
proof -
  let ?bus = "idle_bus (\<lambda>n. if n = 6 then 0 else 0xFF)"
  let ?r = "SD_ReadSingleBlock example_defs 100 (\<lambda>i. 7) ?bus"
  have ok: "read_flags_ok example_defs"
    by (simp add: read_flags_ok_def example_defs_def)
  have res: "?r = (fst ?r, fst (snd ?r), snd (snd ?r))" by simp
  have none: "first_token (\<lambda>n. if n = 6 then 0 else 0xFF) 7 255 = None"
    by (simp add: first_token_None)
  have code: "fst ?r AND 0xFF00 = START_TOKEN_TIMEOUT example_defs"
    by (simp add: SD_ReadSingleBlock_eq SD_GetR1_example none)
       (simp add: example_defs_def)
  from SD_ReadSingleBlock_error_keeps_block [OF ok res] code ok show ?thesis by simp
qed

theorem SD_EraseBlocks_busy_timeout_leaves_cs_low_witness:
  "0 < R1_POLL_LIMIT example_defs
   \<and> fst (SD_EraseBlocks example_defs 0 99 (idle_bus (\<lambda>n. 0))) = 0x0800
   \<and> cs (snd (SD_EraseBlocks example_defs 0 99 (idle_bus (\<lambda>n. 0)))) = False"
proof -
  have p: "0 < R1_POLL_LIMIT example_defs" by (simp add: example_defs_def)
  have m: "miso (idle_bus (\<lambda>n. 0)) = (\<lambda>_. 0)" by simp
  from SD_EraseBlocks_busy_timeout_leaves_cs_low [OF p m, of 0 99] p show ?thesis
    by (simp add: example_defs_def)
qed

subsection \<open>The later revision of the block layer\<close>

text \<open>
  sd_ReadSingleBlock and sd_EraseBlocks of sd_spi_rwe.c behave as their predecessors, with
  OUT_OF_IDLE in the place of 0 and TIMEOUT_LIMIT in the place of the two literal bounds.
  With TIMEOUT_LIMIT below 255 the wait for the Start Block Token gives up after
  TIMEOUT_LIMIT + 1 reads; the array is written on the READ_SUCCESS path only; and the
  timeout return of the busy-wait of sd_EraseBlocks leaves chip-select low as well.
\<close>

lemma sd_wait_start_token_eq:
  "unat t + n = TIMEOUT_LIMIT D \<Longrightarrow> TIMEOUT_LIMIT D < 255 \<Longrightarrow>
   sd_wait_start_token D t bus =
     Some (case first_token (miso bus) (clk bus) (Suc n) of
             Some k \<Rightarrow> (False, after_reads (Suc k) bus)
           | None \<Rightarrow> (True, after_reads (Suc n) bus))"
proof (induction n arbitrary: t bus)
  case 0
  then have t1: "unat (t + 1) = Suc (unat t)"
    by (simp add: unat_word_ariths)
  with 0 show ?case
    by (subst sd_wait_start_token.simps) (simp add: recv_after_reads)
next
  case (Suc n)
  then have t1: "unat (t + 1) = Suc (unat t)"
    by (simp add: unat_word_ariths)
  with Suc.prems have le: "\<not> TIMEOUT_LIMIT D < unat (t + 1)" by simp
  have ih: "sd_wait_start_token D (t + 1) bus' =
     Some (case first_token (miso bus') (clk bus') (Suc n) of
             Some k \<Rightarrow> (False, after_reads (Suc k) bus')
           | None \<Rightarrow> (True, after_reads (Suc n) bus'))" for bus'
    using Suc.prems t1 by (intro Suc.IH) simp_all
  show ?case
    by (subst sd_wait_start_token.simps)
       (simp add: recv_after_reads le ih after_reads_add split: option.split)
qed

lemma sd_ReadSingleBlock_closed_form:
  assumes "TIMEOUT_LIMIT D < 255"
  shows "sd_ReadSingleBlock D blckAddr blckArr bus =
    Some (let (r1, b) = SD_GetR1 D (SD_SendCommand D READ_SINGLE_BLOCK blckAddr (CS_LOW bus))
     in if r1 \<noteq> OUT_OF_IDLE D then (R1_ERROR D OR ucast r1, blckArr, CS_HIGH b)
        else case first_token (miso b) (clk b) (TIMEOUT_LIMIT D + 1) of
               None \<Rightarrow> (START_TOKEN_TIMEOUT D OR ucast r1, blckArr,
                         CS_HIGH (after_reads (TIMEOUT_LIMIT D + 1) b))
             | Some k \<Rightarrow>
                 (READ_SUCCESS D OR ucast r1,
                  (\<lambda>i. if i < 512 then miso b (clk b + k + 1 + i) else blckArr i),
                  CS_HIGH (after_reads (k + 516) b)))"
proof -
  obtain r1 b where rb: "SD_GetR1 D (SD_SendCommand D READ_SINGLE_BLOCK blckAddr (CS_LOW bus)) = (r1, b)"
    by (cases "SD_GetR1 D (SD_SendCommand D READ_SINGLE_BLOCK blckAddr (CS_LOW bus))")
  have w: "sd_wait_start_token D 0 b =
     Some (case first_token (miso b) (clk b) (Suc (TIMEOUT_LIMIT D)) of
        Some k \<Rightarrow> (False, after_reads (Suc k) b)
      | None \<Rightarrow> (True, after_reads (Suc (TIMEOUT_LIMIT D)) b))"
    by (rule sd_wait_start_token_eq [OF _ assms]) simp
  show ?thesis
    unfolding sd_ReadSingleBlock_def
    by (simp add: rb Let_def recv_after_reads w del: first_token.simps
        add: load_block_eq [where n = 512 and i = 0 and base = "clk b + Suc k" for k]
        BLOCK_LEN_def after_reads_add add.commute [of 516]
        split: option.split cong: if_cong)
qed

lemma sd_ReadSingleBlock_cs_high:
  "TIMEOUT_LIMIT D < 255 \<Longrightarrow> sd_ReadSingleBlock D blckAddr blckArr bus = Some (code, blckArr', bus')
   \<Longrightarrow> cs bus'"
  by (auto simp: sd_ReadSingleBlock_closed_form Let_def simp del: first_token.simps
      split: prod.splits option.splits if_splits)

lemma sd_ReadSingleBlock_keeps_block_on_error:
  assumes "TIMEOUT_LIMIT D < 255" and ok: "read_flags_ok D"
    and res: "sd_ReadSingleBlock D blckAddr blckArr bus = Some (code, blckArr', bus')"
  shows "(code AND 0xFF00 = R1_ERROR D \<or> code AND 0xFF00 = START_TOKEN_TIMEOUT D
            \<longrightarrow> blckArr' = blckArr)
         \<and> (blckArr' \<noteq> blckArr \<longrightarrow> code AND 0xFF00 = READ_SUCCESS D)"
proof -
  have "(ucast r :: u16) AND push_bit 8 x = 0" for r :: u8 and x
    by (rule bit_word_eqI) (auto simp: bit_simps dest: bit_imp_le_length)
  from this [of _ "0xFF"] have lo: "(ucast r :: u16) AND 0xFF00 = 0" for r :: u8
    by simp
  have hi: "(f OR ucast r) AND 0xFF00 = f" if "f AND 0xFF00 = f" for f :: u16 and r :: u8
    using that by (simp add: bit.conj_disj_distrib2 lo)
  from ok have f: "R1_ERROR D AND 0xFF00 = R1_ERROR D"
    "START_TOKEN_TIMEOUT D AND 0xFF00 = START_TOKEN_TIMEOUT D"
    "READ_SUCCESS D AND 0xFF00 = READ_SUCCESS D"
    "R1_ERROR D \<noteq> READ_SUCCESS D" "START_TOKEN_TIMEOUT D \<noteq> READ_SUCCESS D"
    "READ_SUCCESS D \<noteq> R1_ERROR D" "READ_SUCCESS D \<noteq> START_TOKEN_TIMEOUT D"
    by (auto simp: read_flags_ok_def)
  from res show ?thesis
    by (auto simp: sd_ReadSingleBlock_closed_form [OF assms(1)] Let_def hi f
        simp del: first_token.simps split: prod.splits option.splits if_splits)
qed

lemma sd_erase_busy_wait_held_low:
  "unat t + n = 4 * TIMEOUT_LIMIT D + 1 \<Longrightarrow> 4 * TIMEOUT_LIMIT D \<le> 32767 \<Longrightarrow>
   (\<forall>k\<le>n. miso bus (clk bus + k) = 0) \<Longrightarrow>
   sd_erase_busy_wait D t bus = Some (True, after_reads (Suc n) bus)"
proof (induction n arbitrary: t bus)
  case 0
  then show ?case
    by (subst sd_erase_busy_wait.simps) (simp add: recv_after_reads)
next
  case (Suc n)
  from Suc.prems have lt: "unat t < 32768" by simp
  then have t1: "unat (t + 1) = Suc (unat t)"
    by (simp add: unat_word_ariths)
  from Suc.prems have le: "\<not> 4 * TIMEOUT_LIMIT D < unat t" by simp
  have z: "miso bus (clk bus) = 0" using Suc.prems(3) by (metis add.right_neutral le0)
  have "\<forall>k\<le>n. miso (after_reads (Suc 0) bus) (clk (after_reads (Suc 0) bus) + k) = 0"
    using Suc.prems(3) by (auto dest: spec [where x = "Suc k" for k])
  moreover have "unat (t + 1) + n = 4 * TIMEOUT_LIMIT D + 1" using Suc.prems(1) t1 by simp
  ultimately have ih: "sd_erase_busy_wait D (t + 1) (after_reads (Suc 0) bus)
       = Some (True, after_reads (Suc n) (after_reads (Suc 0) bus))"
    using Suc.prems(2) by (intro Suc.IH) simp_all
  show ?case
    by (subst sd_erase_busy_wait.simps) (simp add: recv_after_reads z le ih after_reads_add)
qed

lemma sd_EraseBlocks_busy_timeout_cs_low:
  assumes "0 < R1_POLL_LIMIT D" "miso bus = (\<lambda>_. 0)" "OUT_OF_IDLE D = 0"
    and "4 * TIMEOUT_LIMIT D \<le> 32767"
  shows "\<exists>bus'. sd_EraseBlocks D startBlckAddr endBlckAddr bus = Some (ERASE_BUSY_TIMEOUT D, bus')
           \<and> cs bus' = False"
proof -
  have r: "SD_GetR1 D (SD_SendCommand D c a (CS_LOW b)) =
             (0, after_reads (Suc 0) (SD_SendCommand D c a (CS_LOW b)))"
    if "miso b = (\<lambda>_. 0)" for c a b
    using that by (intro SD_GetR1_held_low assms(1)) simp
  have w: "sd_erase_busy_wait D 0 b = Some (True, after_reads (Suc (4 * TIMEOUT_LIMIT D + 1)) b)"
    if "miso b = (\<lambda>_. 0)" for b
    using that assms(4) by (intro sd_erase_busy_wait_held_low) simp_all
  show ?thesis
    unfolding sd_EraseBlocks_def
    using assms(4) by (simp add: Let_def r w assms(2,3))
qed

section \<open>Properties of the FAT functions\<close>

lemma le16_eq: "push_bit 8 (ucast (b1::u8)) OR ucast (b0::u8) = le16 b0 b1"
proof -
  have "push_bit 8 (ucast b1 :: u16) OR ucast b0 = push_bit 8 (ucast b1) + ucast b0"
    by (rule disjunctive_add_eq_or [symmetric], rule bit_eqI)
       (auto simp: bit_simps dest: bit_imp_le_length)
  then show ?thesis by (simp add: le16_def push_bit_eq_mult)
qed

lemma bit_u8_high:
  "\<not> bit (b::u8) (8 + n)" "\<not> bit b (16 + n)" "\<not> bit b (24 + n)"
  using bit_imp_le_length [of b "8 + n"] bit_imp_le_length [of b "16 + n"]
    bit_imp_le_length [of b "24 + n"] by auto

lemma le32_word32_of: "le32 (word32_of b3 b2 b1 b0) = [b0, b1, b2, b3]"
  unfolding le32_def word32_of_def
  by (auto intro!: bit_eqI simp: bit_simps bit_u8_high)

lemma check_cstr_dotdot: "pvt_CheckIllegalName (cstr ''..'') = Some 0"
  by (simp add: pvt_CheckIllegalName_def cstr_def illegalCharacters_def)

text \<open>
  Claim C9. When the cursor is at the root directory (its first cluster is the root
  cluster of the geometry record), FAT_SetCurrentDirectory with the name ".." returns
  SUCCESS and the cursor it leaves is the cursor it was given, in all five fields.
\<close>

theorem FAT_SetCurrentDirectory_parent_at_root:
  "FATFirstCluster currentDirectory = rootCluster bpb \<Longrightarrow>
   FAT_SetCurrentDirectory F d currentDirectory (cstr ''..'') bpb = Some (SUCCESS, currentDirectory)"
proof -
  assume root: "FATFirstCluster currentDirectory = rootCluster bpb"
  have ne: "cstr ''..'' \<noteq> cstr ''.''" by (simp add: cstr_def)
  show ?thesis
    by (simp add: FAT_SetCurrentDirectory_def check_cstr_dotdot ne root
        pvt_SetCurrentDirectoryToParent_def Let_def)
qed

lemma unat_u8_length: "length (xs::'b list) < 256 \<Longrightarrow> unat (of_nat (length xs) :: u8) = length xs"
  by (simp add: unat_of_nat)

text \<open>
  Claim C5 says that FAT_PrintFile answers INVALID_FILE_NAME, and no other code, to every
  illegal name. It does so for the empty name and for a name that begins with a space
  (\<open>FAT_PrintFile_empty_or_space\<close> below), before it reads the directory. For a name of
  less than 256 characters that is not empty, does not begin with a space and holds one
  of the nine illegal characters, the code it returns is INVALID_DIR_NAME (line 629).
\<close>

theorem FAT_PrintFile_illegal_character:
  assumes "fileNameStr \<noteq> []" "hd fileNameStr \<noteq> 0x20" "length fileNameStr < 256"
    and "c \<in> set fileNameStr" "c \<in> set illegalCharacters"
  shows "FAT_PrintFile F d currentDirectory fileNameStr bpb = Some (INVALID_DIR_NAME, [])"
proof -
  have "list_ex (\<lambda>c. c \<in> set illegalCharacters) fileNameStr"
    using assms(4,5) by (auto simp: list_ex_iff)
  then show ?thesis
    using assms(1-3) by (simp add: FAT_PrintFile_def Let_def unat_u8_length)
qed

lemma FAT_PrintFile_empty_or_space:
  "fileNameStr = [] \<or> hd fileNameStr = 0x20 \<Longrightarrow>
   FAT_PrintFile F d currentDirectory fileNameStr bpb = Some (INVALID_FILE_NAME, [])"
  by (auto simp: FAT_PrintFile_def Let_def)

theorem FAT_GetBiosParameterBlock_codes:
  "fst (FAT_GetBiosParameterBlock found d bpb) = boot_sector_code found (fat_ReadSingleSector d found)"
  by (simp add: FAT_GetBiosParameterBlock_def boot_sector_code_def Let_def SECTOR_LEN_def
      le16_eq)


text \<open>
  Claim C6. The code FAT_GetBiosParameterBlock returns is the one of the checks of the
  specification, taken in their order: BOOT_SECTOR_NOT_FOUND for the address 0xFFFFFFFF,
  NOT_BOOT_SECTOR unless bytes 510 and 511 of the sector are 0x55 and 0xAA,
  INVALID_BYTES_PER_SECTOR unless the little-endian value at 11..12 is 512,
  INVALID_SECTORS_PER_CLUSTER unless byte 13 is one of 1, 2, 4, 8, 16, 32, 64, 128, and
  BOOT_SECTOR_VALID otherwise. In the last case the geometry record holds the fields of
  the boot sector and dataRegionFirstSector = bootSectorAddress + reservedSectorCount +
  numberOfFats * fatSize32 (in 32-bit arithmetic).
\<close>

theorem FAT_GetBiosParameterBlock_contract:
  "fst (FAT_GetBiosParameterBlock found d bpb)
     = boot_sector_code found (fat_ReadSingleSector d found)
   \<and> (boot_sector_code found (fat_ReadSingleSector d found) = BOOT_SECTOR_VALID \<longrightarrow>
        (let g = snd (FAT_GetBiosParameterBlock found d bpb);
             s = fat_ReadSingleSector d found
         in bootSectorAddress g = found
            \<and> bytesPerSector g = 512
            \<and> sectorsPerCluster g = s ! 13
            \<and> reservedSectorCount g = le16 (s ! 14) (s ! 15)
            \<and> numberOfFats g = s ! 16
            \<and> le32 (fatSize32 g) = [s ! 36, s ! 37, s ! 38, s ! 39]
            \<and> le32 (rootCluster g) = [s ! 44, s ! 45, s ! 46, s ! 47]
            \<and> dataRegionFirstSector g
                = bootSectorAddress g + ucast (reservedSectorCount g)
                    + ucast (numberOfFats g) * fatSize32 g))"
  by (simp add: FAT_GetBiosParameterBlock_def boot_sector_code_def Let_def SECTOR_LEN_def
      le16_eq le32_word32_of)

lemma scenario_mount:
  "FAT_GetBiosParameterBlock 8192 scenario_volume blank_bpb = (BOOT_SECTOR_VALID, scenario_bpb)"
  by code_simp

theorem FAT_GetBiosParameterBlock_contract_witness:
  "boot_sector_code 8192 (fat_ReadSingleSector scenario_volume 8192) = BOOT_SECTOR_VALID
   \<and> fst (FAT_GetBiosParameterBlock 8192 scenario_volume blank_bpb) = BOOT_SECTOR_VALID
   \<and> dataRegionFirstSector (snd (FAT_GetBiosParameterBlock 8192 scenario_volume blank_bpb))
        = 8192 + 32 + 2 * 1024"
proof -
  have v: "boot_sector_code 8192 (fat_ReadSingleSector scenario_volume 8192) = BOOT_SECTOR_VALID"
    by code_simp
  have f: "reservedSectorCount (snd (FAT_GetBiosParameterBlock 8192 scenario_volume blank_bpb)) = 32"
    "numberOfFats (snd (FAT_GetBiosParameterBlock 8192 scenario_volume blank_bpb)) = 2"
    "fatSize32 (snd (FAT_GetBiosParameterBlock 8192 scenario_volume blank_bpb)) = 1024"
    by (simp_all add: scenario_mount scenario_bpb_def)
  from FAT_GetBiosParameterBlock_contract [of 8192 scenario_volume blank_bpb] v f
  show ?thesis by (simp add: Let_def)
qed

lemma last_sector_iff:
  fixes s :: u32 and spc :: u8
  assumes "s < ucast spc"
  shows "ucast spc - 1 \<le> s \<longleftrightarrow> s = ucast spc - 1"
proof -
  from assms have "unat s < unat (ucast spc :: u32)" by (simp add: word_less_nat_alt)
  then have pos: "0 < unat (ucast spc :: u32)" by simp
  then have "(ucast spc :: u32) \<noteq> 0" by (auto simp: unat_gt_0)
  then have "unat ((ucast spc :: u32) - 1) = unat (ucast spc :: u32) - 1"
    by (simp add: unat_minus_one)
  with \<open>unat s < unat (ucast spc :: u32)\<close> show ?thesis
    by (auto simp: word_le_nat_alt word_unat_eq_iff)
qed

lemma FAT_PrintFile_nextSector_follows_chain:
  assumes "currentSectorNumberInCluster < ucast (sectorsPerCluster bpb)"
  shows "FAT_PrintFile_nextSector d bpb cluster currentSectorNumberInCluster
           (sector_of_cluster bpb cluster currentSectorNumberInCluster) =
         (if currentSectorNumberInCluster = ucast (sectorsPerCluster bpb) - 1
          then map_option (\<lambda>c. sector_of_cluster bpb c 0) (pvt_GetNextCluster d cluster bpb)
          else Some (sector_of_cluster bpb cluster currentSectorNumberInCluster + 1))"
  using last_sector_iff [OF assms]
  by (cases "pvt_GetNextCluster d cluster bpb")
     (simp_all add: FAT_PrintFile_nextSector_def sector_of_cluster_def)

lemma FAT_PrintCurrentDirectory_nextSector_follows_chain:
  assumes "currentSectorNumberInCluster < ucast (sectorsPerCluster bpb)"
  shows "FAT_PrintCurrentDirectory_nextSector d bpb cluster currentSectorNumberInCluster
           (sector_of_cluster bpb cluster currentSectorNumberInCluster) =
         (if currentSectorNumberInCluster = ucast (sectorsPerCluster bpb) - 1
          then map_option (\<lambda>c. sector_of_cluster bpb c 0) (pvt_GetNextCluster d cluster bpb)
          else Some (sector_of_cluster bpb cluster currentSectorNumberInCluster + 1))"
  using last_sector_iff [OF assms]
  by (cases "pvt_GetNextCluster d cluster bpb")
     (simp_all add: FAT_PrintCurrentDirectory_nextSector_def sector_of_cluster_def)

lemma FAT_SetCurrentDirectory_nextSector_never_follows_chain:
  assumes "bytesPerSector bpb = 512"
    and "currentSectorNumberInCluster < ucast (sectorsPerCluster bpb)"
  shows "FAT_SetCurrentDirectory_nextSector d bpb clusterNumber currentSectorNumberInCluster
           absoluteCurrentSectorNumber = Some (1 + absoluteCurrentSectorNumber)"
proof -
  have "unat (sectorsPerCluster bpb) < 256"
    using unsigned_less [of "sectorsPerCluster bpb", where 'a = nat] by simp
  then have "unat (ucast (sectorsPerCluster bpb) :: u32) < 256"
    by (simp add: unsigned_ucast_eq take_bit_nat_eq_self)
  with assms(2) have "unat currentSectorNumberInCluster < 511"
    by (simp add: word_less_nat_alt)
  then have "\<not> 511 \<le> currentSectorNumberInCluster"
    by (simp add: word_le_nat_alt)
  then show ?thesis
    by (simp add: FAT_SetCurrentDirectory_nextSector_def assms(1))
qed

text \<open>
  Claim C3 says that each of the three functions takes the first sector of the next
  cluster of the chain when the current sector is the last one of its cluster, and the
  sector after the current one otherwise. FAT_PrintCurrentDirectory and FAT_PrintFile do
  (the two lemmas above). FAT_SetCurrentDirectory compares the index of the sector with
  bytesPerSector - 1 instead of sectorsPerCluster - 1 (line 187), so with 512 bytes per
  sector it never follows the chain (\<open>FAT_SetCurrentDirectory_nextSector_never_follows_chain\<close>).
  On the volume of scenario 1, in sector 7 of cluster 2, whose successor is cluster 5:
  the first sector of cluster 5 is 10296, which the two other functions take, and
  FAT_SetCurrentDirectory takes 10280.
\<close>

theorem FAT_SetCurrentDirectory_nextSector_at_cluster_end:
  "sector_of_cluster scenario_bpb 2 7 = 10279
   \<and> pvt_GetNextCluster scenario_volume 2 scenario_bpb = Some 5
   \<and> sector_of_cluster scenario_bpb 5 0 = 10296
   \<and> FAT_SetCurrentDirectory_nextSector scenario_volume scenario_bpb 2 7 10279 = Some 10280
   \<and> FAT_PrintCurrentDirectory_nextSector scenario_volume scenario_bpb 2 7 10279 = Some 10296
   \<and> FAT_PrintFile_nextSector scenario_volume scenario_bpb 2 7 10279 = Some 10296"
  by code_simp

text \<open>
  The decision of FAT_SetCurrentDirectory on a short-name entry looks at the first
  \<open>strlen\<close> bytes of the entry only: when they are the name, the entry matches, whatever
  its bytes up to position 7 are. The decision of FAT_PrintFile finds an extension in
  every entry, so that a name without a dot after its first and before its last
  character never matches a short-name entry.
\<close>

lemma c_strcmp_self: "c_strcmp n (n @ [0]) = Some True"
  by (induction n) simp_all

lemma those_snoc:
  "those (as @ [b]) = (case those as of None \<Rightarrow> None
      | Some ys \<Rightarrow> (case b of None \<Rightarrow> None | Some y \<Rightarrow> Some (ys @ [y])))"
  by (induction as) (auto split: option.splits)

lemma those_map_nth:
  "(\<And>k. k < length n \<Longrightarrow> f k = Some (n ! k)) \<Longrightarrow> those (map f [0..<length n]) = Some n"
proof (induction n arbitrary: f rule: rev_induct)
  case Nil
  then show ?case by simp
next
  case (snoc x xs)
  have "those (map f [0..<length xs]) = Some xs"
  proof (rule snoc.IH)
    fix k assume "k < length xs"
    with snoc.prems [of k] show "f k = Some (xs ! k)" by (simp add: nth_append)
  qed
  moreover have "f (length xs) = Some x" using snoc.prems [of "length xs"] by simp
  ultimately show ?case by (simp add: those_snoc)
qed

lemma cd_short_name_match_compares_prefix:
  assumes "length newDirectoryStr < 9"
    and "rd currentSectorContents (unat (entry st + 11)) = Some attributeByte"
    and "attributeByte AND DIRECTORY_ENTRY_ATTR_FLAG \<noteq> 0"
    and "\<And>k. k < length newDirectoryStr \<Longrightarrow>
           rd currentSectorContents (unat (of_nat k + entry st)) = Some (newDirectoryStr ! k)"
  shows "cd_short_name_match newDirectoryStr currentSectorContents st = Some True"
proof -
  have l: "unat (of_nat (length newDirectoryStr) :: u8) = length newDirectoryStr"
    using assms(1) by (simp add: unat_of_nat)
  then have lt: "(of_nat (length newDirectoryStr) :: u8) < 9"
    using assms(1) by (simp add: word_less_nat_alt)
  have sn: "those (map (\<lambda>k. rd currentSectorContents (unat (of_nat k + entry st)))
      [0..<length newDirectoryStr]) = Some newDirectoryStr"
    by (rule those_map_nth) (rule assms(4))
  show ?thesis
    using assms(1,3)
    by (simp add: cd_short_name_match_def assms(2) Let_def l lt sn c_strcmp_self)
qed

lemma pf_short_name_match_needs_dot:
  "find (\<lambda>k. fileNameStr ! k = 0x2E) [1..<unat fileNameStrLen - 1] = None \<Longrightarrow>
   pf_short_name_match fileNameStr fileNameStrLen currentSectorContents st attributeByte
     \<noteq> Some True"
  by (auto simp: pf_short_name_match_def Let_def split: if_splits bind_splits)

text \<open>
  Claim C4 says that a name without a dot matches a short-name entry only if the bytes of
  the entry after the name are spaces, so that a strict prefix of a stored name does not
  match. FAT_SetCurrentDirectory compares only the first \<open>strlen\<close> bytes of the entry
  (lines 276-280): on the example volume, whose root directory holds the directory
  ABCDEF, the name ABC is found and the cursor moves into ABCDEF (cluster 3).
\<close>

theorem FAT_SetCurrentDirectory_matches_prefix_of_short_name:
  "take 11 (fat_ReadSingleSector example_volume (sector_of_cluster example_bpb 2 0))
     = cstr ''ABCDEF     ''
   \<and> FAT_SetCurrentDirectory example_fat_defs example_volume (root_cursor example_bpb)
        (cstr ''ABC'') example_bpb
     = Some (SUCCESS,
         \<lparr>longName = cstr ''ABC'', longParentPath = cstr ''/'', shortName = cstr ''ABC'',
          shortParentPath = cstr ''/'', FATFirstCluster = 3\<rparr>)"
  by code_simp

theorem FAT_SetCurrentDirectory_parent_at_root_witness:
  "FATFirstCluster (root_cursor example_bpb) = rootCluster example_bpb
   \<and> FAT_SetCurrentDirectory example_fat_defs example_volume (root_cursor example_bpb)
         (cstr ''..'') example_bpb
       = Some (SUCCESS, root_cursor example_bpb)"
proof -
  have r: "FATFirstCluster (root_cursor example_bpb) = rootCluster example_bpb"
    by (simp add: root_cursor_def)
  from FAT_SetCurrentDirectory_parent_at_root [OF r] r show ?thesis by simp
qed

theorem FAT_PrintFile_illegal_character_witness:
  "cstr ''a*b'' \<noteq> [] \<and> hd (cstr ''a*b'') \<noteq> 0x20 \<and> length (cstr ''a*b'') < 256
   \<and> 0x2A \<in> set (cstr ''a*b'') \<and> 0x2A \<in> set illegalCharacters
   \<and> FAT_PrintFile example_fat_defs example_volume (root_cursor example_bpb) (cstr ''a*b'')
         example_bpb
       = Some (INVALID_DIR_NAME, [])"
proof -
  have h: "cstr ''a*b'' \<noteq> []" "hd (cstr ''a*b'') \<noteq> 0x20" "length (cstr ''a*b'') < 256"
    "0x2A \<in> set (cstr ''a*b'')" "0x2A \<in> set illegalCharacters"
    by (simp_all add: cstr_def illegalCharacters_def)
  from FAT_PrintFile_illegal_character [OF h] h show ?thesis by simp
qed

subsection \<open>Entering a directory and leaving it again\<close>

lemma c_strrchr_append:
  "c \<notin> set ys \<Longrightarrow> c_strrchr (xs @ c # ys) c = Some (length xs)"
proof (induction xs)
  case Nil
  have "c_strrchr ys c = None" using Nil by (induction ys) auto
  then show ?case by simp
next
  case (Cons x xs)
  then show ?case by simp
qed

lemma c_strrchr_path:
  assumes "p \<noteq> []" "last p = c" "c \<notin> set n"
  shows "c_strrchr (p @ n) c = Some (length p - 1)"
proof -
  from assms(1,2) have p: "p = butlast p @ [c]" by (metis append_butlast_last_id)
  have "c_strrchr (butlast p @ c # n) c = Some (length (butlast p))"
    using assms(3) by (rule c_strrchr_append)
  moreover have "butlast p @ c # n = p @ n" using p by (metis append.assoc append_Cons append_Nil)
  ultimately show ?thesis by simp
qed

lemma not_slash_first_no_slash: "0x2F \<notin> set n \<Longrightarrow> not_slash_first n"
  by (cases n) (auto simp: not_slash_first_def)

lemma undo_path:
  assumes "path_ok p n"
  shows "strlcpy_tmp64 (p @ n @ cstr ''/'') = Some (p @ n)"
    and "c_strrchr (p @ n) 0x2F = Some (length p - 1)"
    and "drop (length p - 1 + 1) (p @ n) = n"
    and "take (length p - 1 + 1) (p @ n) = p"
proof -
  from assms have ne: "p \<noteq> []" and l: "last p = 0x2F" and ns: "0x2F \<notin> set n"
    and len: "length p + length n < 64"
    by (simp_all add: path_ok_def)
  show "strlcpy_tmp64 (p @ n @ cstr ''/'') = Some (p @ n)"
    using len by (simp add: strlcpy_tmp64_def cstr_def)
  show "c_strrchr (p @ n) 0x2F = Some (length p - 1)"
    using ne l ns by (rule c_strrchr_path)
  from ne have "length p - 1 + 1 = length p" by (cases p) auto
  then show "drop (length p - 1 + 1) (p @ n) = n" "take (length p - 1 + 1) (p @ n) = p"
    by simp_all
qed

lemma child_fields:
  assumes "pvt_SetCurrentDirectoryToChild c sector pos A = Some c'"
  shows "longName c' = A"
    and "longParentPath c' = longParentPath c @ longName c
           @ (if not_slash_first (longName c) then cstr ''/'' else [])"
    and "shortParentPath c' = shortParentPath c @ shortName c
           @ (if not_slash_first (shortName c) then cstr ''/'' else [])"
  using assms
  by (auto simp: pvt_SetCurrentDirectoryToChild_def Let_def split: bind_splits if_splits)

lemma parent_undoes_child:
  assumes ok: "cursor_ok bpb c"
    and child: "pvt_SetCurrentDirectoryToChild c sector pos A = Some c'"
    and nr: "FATFirstCluster c' \<noteq> rootCluster bpb"
    and dd: "dotdot_cluster d bpb (FATFirstCluster c')
               = (if FATFirstCluster c = rootCluster bpb then 0 else FATFirstCluster c)"
  shows "pvt_SetCurrentDirectoryToParent d c' bpb = Some c"
proof (cases "FATFirstCluster c = rootCluster bpb")
  case True
  with ok have c: "c = root_cursor bpb" by (simp add: cursor_ok_def)
  from dd True have z: "dotdot_cluster d bpb (FATFirstCluster c') = 0" by simp
  have "c'\<lparr>shortName := cstr ''/'', shortParentPath := cstr [],
           longName := cstr ''/'', longParentPath := cstr [],
           FATFirstCluster := rootCluster bpb\<rparr> = root_cursor bpb"
    by (cases c') (simp add: root_cursor_def cstr_def)
  then show ?thesis
    using nr z
    by (simp add: pvt_SetCurrentDirectoryToParent_def dotdot_cluster_def sector_of_cluster_def
        Let_def c)
next
  case False
  with ok have nz: "FATFirstCluster c \<noteq> 0"
    and lp: "path_ok (longParentPath c) (longName c)"
    and sp: "path_ok (shortParentPath c) (shortName c)"
    by (simp_all add: cursor_ok_def)
  from lp sp have ns: "not_slash_first (longName c)" "not_slash_first (shortName c)"
    by (simp_all add: path_ok_def not_slash_first_no_slash)
  from dd False have p: "dotdot_cluster d bpb (FATFirstCluster c') = FATFirstCluster c" by simp
  note f = child_fields [OF child]
  have "c'\<lparr>shortName := shortName c, longName := longName c,
           shortParentPath := shortParentPath c, longParentPath := longParentPath c,
           FATFirstCluster := FATFirstCluster c\<rparr> = c"
    by simp
  moreover from lp sp have "Suc (length (longParentPath c) - Suc 0) = length (longParentPath c)"
    "Suc (length (shortParentPath c) - Suc 0) = length (shortParentPath c)"
    by (simp_all add: path_ok_def)
  ultimately show ?thesis
    using nr p nz
    by (simp add: pvt_SetCurrentDirectoryToParent_def dotdot_cluster_def sector_of_cluster_def
        Let_def f ns undo_path [OF lp] undo_path [OF sp])
qed



lemma sic_child:
  "success_is_child c A
     (pvt_SetCurrentDirectoryToChild c sector pos A \<bind> (\<lambda>child. Some (Returned (SUCCESS, child))))"
  by (auto simp: success_is_child_def split: bind_splits)

lemma sic_bind: "(\<And>x. success_is_child c A (f x)) \<Longrightarrow> success_is_child c A (m \<bind> f)"
  by (cases m) (auto simp: success_is_child_def)

lemma sic_if:
  "(b \<Longrightarrow> success_is_child c A x) \<Longrightarrow> (\<not> b \<Longrightarrow> success_is_child c A y) \<Longrightarrow>
   success_is_child c A (if b then x else y)"
  by simp

lemma sic_error: "e \<noteq> SUCCESS \<Longrightarrow> success_is_child c A (Some (Returned (e, c0)))"
  by (simp add: success_is_child_def)

lemma sic_other:
  "success_is_child c A (Some (Stepped st))" "success_is_child c A (Some (Broke st))"
  "success_is_child c A None"
  by (simp_all add: success_is_child_def)

lemmas sic_rules = sic_child sic_if sic_other sic_bind

lemma cd_short_name_sic: "success_is_child c A (cd_short_name c A sec st)"
  unfolding cd_short_name_def Let_def
  by (intro sic_rules)

lemma cd_long_name_sic: "success_is_child c A (cd_long_name F d bpb c A cl s a sec st b0)"
  unfolding cd_long_name_def Let_def
  by (intro sic_rules sic_error; simp)

lemma cd_entry_sic: "success_is_child c A (cd_entry F d bpb c A cl s a sec st)"
proof (cases "adjust_entry st :: (fat_error \<times> FatCurrentDirectory) step")
  case (Returned r)
  then show ?thesis by (simp add: adjust_entry_def Let_def split: if_splits)
next
  case (Broke st')
  then show ?thesis by (simp add: cd_entry_def sic_other)
next
  case (Stepped st')
  have "success_is_child c A
     (rd sec (unat (entry st')) \<bind> (\<lambda>b0.
        if b0 = 0 then Some (Returned (END_OF_DIRECTORY, c))
        else rd sec (unat (entry st' + 11)) \<bind> (\<lambda>attributeByte.
          if attributeByte AND LONG_NAME_ATTR_MASK = LONG_NAME_ATTR_MASK \<and> b0 \<noteq> 0xE5
          then cd_long_name F d bpb c A cl s a sec st' b0
          else cd_short_name c A sec st')))"
    by (intro sic_bind sic_if sic_error cd_long_name_sic cd_short_name_sic) simp
  with Stepped show ?thesis by (simp add: cd_entry_def)
qed

lemma cd_entries_sic:
  assumes "cd_entries F d bpb c A cl s a sec st = Some r"
  shows "success_is_child c A (Some r)"
proof (rule cd_entries.raw_induct
    [where P = "\<lambda>F d bpb c A cl s a sec st r. success_is_child c A (Some r)", OF _ assms],
    goal_cases)
  case (1 cd_entries' F d bpb c A cl s a sec st r)
  note IH = 1(1) and eq = 1(2)
  show ?case
  proof (cases "entry st < SECTOR_LEN")
    case False
    with eq show ?thesis by (auto simp: sic_other)
  next
    case True
    show ?thesis
    proof (cases "cd_entry F d bpb c A cl s a sec st")
      case None
      with eq True show ?thesis by simp
    next
      case (Some x)
      show ?thesis
      proof (cases x)
        case (Returned y)
        with Some eq True have "Some r = cd_entry F d bpb c A cl s a sec st" by simp
        then show ?thesis using cd_entry_sic [of c A F d bpb cl s a sec st] by simp
      next
        case (Broke st')
        with Some eq True show ?thesis by (auto simp: sic_other)
      next
        case (Stepped st')
        with Some eq True show ?thesis by (auto intro: IH)
      qed
    qed
  qed
qed

lemma cd_sectors_sic:
  "cd_sectors F d bpb c A cl s st = Some r \<Longrightarrow> success_is_child c A (Some r)"
proof (induction F d bpb c A cl s st arbitrary: r rule: cd_sectors.induct)
  case (1 F d bpb c A cl s st)
  show ?case
  proof (cases "s < ucast (sectorsPerCluster bpb)")
    case False
    with "1.prems" show ?thesis
      by (subst (asm) cd_sectors.simps) (auto simp: sic_other)
  next
    case True
    let ?a = "sector_of_cluster bpb cl s"
    let ?sec = "fat_ReadSingleSector d ?a"
    let ?e = "cd_entries F d bpb c A cl s ?a ?sec (st\<lparr>entry := 0\<rparr>)"
    from "1.prems" True have eq:
      "(case ?e of None \<Rightarrow> None | Some (Returned r) \<Rightarrow> Some (Returned r)
        | Some (Broke st') \<Rightarrow> cd_sectors F d bpb c A cl (s + 1) st'
        | Some (Stepped st') \<Rightarrow> cd_sectors F d bpb c A cl (s + 1) st') = Some r"
      by (subst (asm) cd_sectors.simps) (simp add: Let_def)
    show ?thesis
    proof (cases ?e)
      case None
      with eq show ?thesis by simp
    next
      case (Some x)
      show ?thesis
      proof (cases x)
        case (Returned y)
        with Some eq have "r = x" by simp
        with Some show ?thesis using cd_entries_sic by simp
      next
        case (Broke st')
        with Some eq have "cd_sectors F d bpb c A cl (s + 1) st' = Some r" by simp
        with "1.IH"(1) [OF True refl refl _ _ ] Some Broke show ?thesis by simp
      next
        case (Stepped st')
        with Some eq have "cd_sectors F d bpb c A cl (s + 1) st' = Some r" by simp
        with "1.IH"(2) [OF True refl refl _ _ ] Some Stepped show ?thesis by simp
      qed
    qed
  qed
qed


lemma cd_clusters_success:
  assumes "cd_clusters F d bpb c A cl st = Some r"
  shows "fst r = SUCCESS \<longrightarrow>
         (\<exists>sector pos. pvt_SetCurrentDirectoryToChild c sector pos A = Some (snd r))"
proof (rule cd_clusters.raw_induct
    [where P = "\<lambda>F d bpb c A cl st r. fst r = SUCCESS \<longrightarrow>
         (\<exists>sector pos. pvt_SetCurrentDirectoryToChild c sector pos A = Some (snd r))",
     OF _ assms], goal_cases)
  case (1 cd_clusters' F d bpb c A cl st r)
  note IH = 1(1) and eq = 1(2)
  show ?case
  proof (cases "cd_sectors F d bpb c A cl 0 st")
    case None
    with eq show ?thesis by simp
  next
    case (Some x)
    have next_cluster: ?thesis
      if "(case pvt_GetNextCluster d cl bpb of None \<Rightarrow> None
           | Some n \<Rightarrow> if n \<noteq> END_OF_CLUSTER F then cd_clusters' F d bpb c A n st'
                       else Some (END_OF_DIRECTORY, c)) = Some r" for st'
      using that by (auto split: option.splits if_splits dest: IH)
    show ?thesis
    proof (cases x)
      case (Returned y)
      with Some eq have "r = y" by simp
      with Some Returned cd_sectors_sic [of F d bpb c A cl 0 st x] show ?thesis
        by (cases y) (auto simp: success_is_child_def)
    next
      case (Broke st')
      with Some eq show ?thesis by (intro next_cluster [of st']) simp
    next
      case (Stepped st')
      with Some eq show ?thesis by (intro next_cluster [of st']) simp
    qed
  qed
qed

text \<open>
  Claim C8 says that, for every cursor and every name A for which cd(A) succeeds, cd(A)
  followed by cd("..") gives back the cursor as it was, in all five fields. This holds
  when A is neither \<open>.\<close> nor \<open>..\<close>, the cursor is the root cursor or has parent paths that
  end with a slash, names without a slash and paths that fit the 64 characters of the
  arrays of pvt_SetCurrentDirectoryToParent, the directory entered is not the root, and
  the entry \<open>..\<close> of the directory entered holds the first cluster of the directory left
  (0 when that is the root): then cd("..") returns SUCCESS with the cursor cd(A) was given.
\<close>

theorem cd_child_then_parent_restores_cursor:
  assumes "A \<noteq> cstr ''.''" and "A \<noteq> cstr ''..''"
    and "cursor_ok bpb c"
    and "FAT_SetCurrentDirectory F d c A bpb = Some (SUCCESS, c')"
    and "FATFirstCluster c' \<noteq> rootCluster bpb"
    and "dotdot_cluster d bpb (FATFirstCluster c')
           = (if FATFirstCluster c = rootCluster bpb then 0 else FATFirstCluster c)"
  shows "FAT_SetCurrentDirectory F d c' (cstr ''..'') bpb = Some (SUCCESS, c)"
proof -
  from assms(1,2,4) have "cd_clusters F d bpb c A (FATFirstCluster c) initial_walk_state
      = Some (SUCCESS, c')"
    by (auto simp: FAT_SetCurrentDirectory_def split: option.splits if_splits)
  from cd_clusters_success [OF this] obtain sector pos
    where "pvt_SetCurrentDirectoryToChild c sector pos A = Some c'" by auto
  from parent_undoes_child [OF assms(3) this assms(5,6)]
  have p: "pvt_SetCurrentDirectoryToParent d c' bpb = Some c" .
  have ne: "cstr ''..'' \<noteq> cstr ''.''" by (simp add: cstr_def)
  show ?thesis
    by (simp add: FAT_SetCurrentDirectory_def check_cstr_dotdot ne p)
qed

theorem cd_child_then_parent_restores_cursor_witness:
  "cstr ''SUB'' \<noteq> cstr ''.'' \<and> cstr ''SUB'' \<noteq> cstr ''..''
   \<and> cursor_ok example_bpb example_subdir
   \<and> FAT_SetCurrentDirectory example_fat_defs example_volume example_subdir (cstr ''SUB'')
         example_bpb = Some (SUCCESS, example_subsubdir)
   \<and> FATFirstCluster example_subsubdir \<noteq> rootCluster example_bpb
   \<and> dotdot_cluster example_volume example_bpb (FATFirstCluster example_subsubdir)
       = FATFirstCluster example_subdir
   \<and> FAT_SetCurrentDirectory example_fat_defs example_volume example_subsubdir (cstr ''..'')
         example_bpb = Some (SUCCESS, example_subdir)"
proof -
  have h1: "cstr ''SUB'' \<noteq> cstr ''.''" and h2: "cstr ''SUB'' \<noteq> cstr ''..''"
    by (simp_all add: cstr_def)
  have h3: "cursor_ok example_bpb example_subdir" by code_simp
  have h4: "FAT_SetCurrentDirectory example_fat_defs example_volume example_subdir (cstr ''SUB'')
         example_bpb = Some (SUCCESS, example_subsubdir)" by code_simp
  have h5: "FATFirstCluster example_subsubdir \<noteq> rootCluster example_bpb" by code_simp
  have h6: "dotdot_cluster example_volume example_bpb (FATFirstCluster example_subsubdir)
       = FATFirstCluster example_subdir" by code_simp
  have nr: "FATFirstCluster example_subdir \<noteq> rootCluster example_bpb" by code_simp
  have h6': "dotdot_cluster example_volume example_bpb (FATFirstCluster example_subsubdir)
       = (if FATFirstCluster example_subdir = rootCluster example_bpb then 0
          else FATFirstCluster example_subdir)"
    using h6 nr by simp
  from cd_child_then_parent_restores_cursor [OF h1 h2 h3 h4 h5 h6'] h1 h2 h3 h4 h5 h6
  show ?thesis by simp
qed

text \<open>
  Without the condition on A the round trip of claim C8 fails: in the directory ABCDEF of
  the example volume cd(".") succeeds and leaves the cursor as it is, and cd("..") then
  moves to the root directory, which is not the cursor before the first cd.
\<close>

theorem cd_dot_then_parent_counterexample:
  "FAT_SetCurrentDirectory example_fat_defs example_volume example_subdir (cstr ''.'')
       example_bpb = Some (SUCCESS, example_subdir)
   \<and> FAT_SetCurrentDirectory example_fat_defs example_volume example_subdir (cstr ''..'')
       example_bpb = Some (SUCCESS, root_cursor example_bpb)
   \<and> root_cursor example_bpb \<noteq> example_subdir"
  by code_simp


subsection \<open>Streaming a file\<close>

lemma length_fat_ReadSingleSector [simp]: "length (fat_ReadSingleSector d a) = 512"
  by (simp add: fat_ReadSingleSector_def)

lemma print_sector_bytes_eq:
  "unat bps \<le> length s \<Longrightarrow> unat k + n = unat bps \<Longrightarrow>
   print_sector_bytes k bps s out =
     Some (out @ concat (map print_byte (drop (unat k) (take (unat bps) s))))"
proof (induction n arbitrary: k out)
  case 0
  then have "\<not> k < bps" by (simp add: word_less_nat_alt)
  with 0 show ?case
    by (subst print_sector_bytes.simps) simp
next
  case (Suc n)
  then have lt: "unat k < unat bps" by simp
  then have klt: "k < bps" by (simp add: word_less_nat_alt)
  have "unat bps < 2 ^ 16" using unsigned_less [of bps, where 'a = nat] by simp
  with lt have k1: "unat (k + 1) = Suc (unat k)"
    by (simp add: unat_word_ariths)
  have inb: "unat k < length s" using lt Suc.prems(1) by simp
  have d: "drop (unat k) (take (unat bps) s) = s ! unat k # drop (Suc (unat k)) (take (unat bps) s)"
    using lt inb by (simp flip: Cons_nth_drop_Suc)
  have ih: "print_sector_bytes (k + 1) bps s out' =
     Some (out' @ concat (map print_byte (drop (Suc (unat k)) (take (unat bps) s))))" for out'
    using Suc.IH [of "k + 1" out'] Suc.prems k1 by simp
  show ?case
    by (subst print_sector_bytes.simps)
       (simp add: klt rd_def inb ih d print_byte_def print_str_def USART_Transmit_def cstr_def)
qed

lemma print_sector_eq:
  "unat (bytesPerSector bpb) \<le> 512 \<Longrightarrow>
   print_sector_bytes 0 (bytesPerSector bpb) (fat_ReadSingleSector d a) out =
     Some (out @ concat (map print_byte (take (unat (bytesPerSector bpb)) (fat_ReadSingleSector d a))))"
  using print_sector_bytes_eq [of "bytesPerSector bpb" "fat_ReadSingleSector d a" 0
      "unat (bytesPerSector bpb)" out]
  by simp

lemma unat_ucast_u8_u32: "unat (ucast (x::u8) :: u32) = unat x"
proof -
  have "unat x < 2 ^ 32"
    using unsigned_less [of x, where 'a = nat] by simp
  then show ?thesis by (simp add: unsigned_ucast_eq take_bit_nat_eq_self)
qed

lemma print_cluster_sectors_eq:
  assumes "bytesPerSector bpb = 512"
    and "unat s + n = unat (sectorsPerCluster bpb)"
  shows "print_cluster_sectors d bpb c s out =
     Some (out @ concat (map (\<lambda>i. concat (map print_byte
              (take (unat (bytesPerSector bpb))
                 (fat_ReadSingleSector d (sector_of_cluster bpb c (of_nat i))))))
            [unat s..<unat (sectorsPerCluster bpb)]))"
  using assms(2)
proof (induction n arbitrary: s out)
  case 0
  then have "\<not> s < ucast (sectorsPerCluster bpb)"
    by (simp add: word_less_nat_alt unat_ucast_u8_u32)
  with 0 show ?case
    by (subst print_cluster_sectors.simps) simp
next
  case (Suc n)
  then have lt: "unat s < unat (sectorsPerCluster bpb)" by simp
  then have slt: "s < ucast (sectorsPerCluster bpb)"
    by (simp add: word_less_nat_alt unat_ucast_u8_u32)
  have "unat (sectorsPerCluster bpb) < 2 ^ 8"
    using unsigned_less [of "sectorsPerCluster bpb", where 'a = nat] by simp
  with lt have s1: "unat (s + 1) = Suc (unat s)"
    by (simp add: unat_word_ariths)
  have up: "[unat s..<unat (sectorsPerCluster bpb)]
              = unat s # [Suc (unat s)..<unat (sectorsPerCluster bpb)]"
    using lt by (simp add: upt_conv_Cons)
  have b: "unat (bytesPerSector bpb) \<le> 512" "\<not> bytesPerSector bpb < SECTOR_LEN"
    by (simp_all add: assms(1) SECTOR_LEN_def)
  have ih: "print_cluster_sectors d bpb c (s + 1) out' =
     Some (out' @ concat (map (\<lambda>i. concat (map print_byte
              (take (unat (bytesPerSector bpb))
                 (fat_ReadSingleSector d (sector_of_cluster bpb c (of_nat i))))))
            [Suc (unat s)..<unat (sectorsPerCluster bpb)]))" for out'
    using Suc.IH [of "s + 1" out'] Suc.prems s1 by simp
  show ?case
    by (subst print_cluster_sectors.simps)
       (simp add: slt b(2) Let_def print_sector_eq [OF b(1)] ih up)
qed

lemma concat_map_concat: "concat (map (\<lambda>i. concat (f i)) xs) = concat (concat (map f xs))"
  by (induction xs) auto

lemma print_cluster_eq:
  assumes "bytesPerSector bpb = 512"
  shows "print_cluster_sectors d bpb c 0 out
           = Some (out @ concat (map print_byte (cluster_bytes d bpb c)))"
  using print_cluster_sectors_eq [OF assms, of 0 "unat (sectorsPerCluster bpb)" d c out]
  by (simp add: cluster_bytes_def map_concat comp_def concat_map_concat)

lemma print_clusters_chain:
  assumes "bytesPerSector bpb = 512" and "is_chain F d bpb (c # cl)"
  shows "print_clusters F d bpb c out = Some (out @ file_output d bpb (c # cl))"
  using assms(2)
proof (induction cl arbitrary: c out)
  case Nil
  then show ?case
    by (subst print_clusters.simps)
       (simp add: print_str_def cstr_def print_cluster_eq [OF assms(1)] file_output_def)
next
  case (Cons c' cl)
  then have n: "pvt_GetNextCluster d c bpb = Some c'" "c' \<noteq> END_OF_CLUSTER F"
    and ch: "is_chain F d bpb (c' # cl)" by simp_all
  show ?case
    by (subst print_clusters.simps)
       (simp add: print_str_def cstr_def n Cons.IH [OF ch] print_cluster_eq [OF assms(1)]
          file_output_def)
qed

lemma print_clusters_returns_chain:
  assumes "bytesPerSector bpb = 512" and "print_clusters F d bpb c out0 = Some out"
  shows "\<exists>cl. is_chain F d bpb (c # cl) \<and> out = out0 @ file_output d bpb (c # cl)"
proof -
  have "bytesPerSector bpb = 512 \<longrightarrow>
        (\<exists>cl. is_chain F d bpb (c # cl) \<and> out = out0 @ file_output d bpb (c # cl))"
  proof (rule print_clusters.raw_induct
      [where P = "\<lambda>F d bpb c out0 out. bytesPerSector bpb = 512 \<longrightarrow>
          (\<exists>cl. is_chain F d bpb (c # cl) \<and> out = out0 @ file_output d bpb (c # cl))",
       OF _ assms(2)], goal_cases)
    case (1 print_clusters' F d bpb c out0 out)
    show ?case
    proof (intro impI)
      assume b: "bytesPerSector bpb = 512"
      let ?o = "out0 @ [0x0A, 0x0A, 0x0D] @ concat (map print_byte (cluster_bytes d bpb c))"
      from 1(2) obtain c' where n: "pvt_GetNextCluster d c bpb = Some c'"
        by (auto simp: print_str_def cstr_def print_cluster_eq [OF b] split: option.splits)
      show "\<exists>cl. is_chain F d bpb (c # cl) \<and> out = out0 @ file_output d bpb (c # cl)"
      proof (cases "c' = END_OF_CLUSTER F")
        case True
        with 1(2) n have "out = ?o"
          by (simp add: print_str_def cstr_def print_cluster_eq [OF b])
        with True n
        have "is_chain F d bpb (c # []) \<and> out = out0 @ file_output d bpb (c # [])"
          by (simp add: file_output_def)
        then show ?thesis by blast
      next
        case False
        with 1(2) n have "print_clusters' F d bpb c' ?o = Some out"
          by (simp add: print_str_def cstr_def print_cluster_eq [OF b])
        from 1(1) [OF this] b obtain cl
          where cl: "is_chain F d bpb (c' # cl)" "out = ?o @ file_output d bpb (c' # cl)"
          by auto
        with False n
        have "is_chain F d bpb (c # c' # cl) \<and> out = out0 @ file_output d bpb (c # c' # cl)"
          by (simp add: file_output_def)
        then show ?thesis by blast
      qed
    qed
  qed
  with assms(1) show ?thesis by simp
qed

lemma pvt_PrintFatFile_chain:
  assumes "bytesPerSector bpb = 512"
    and "entry_first_cluster fileSector entry_pos = Some c"
    and "is_chain F d bpb (c # cl)"
  shows "pvt_PrintFatFile F d entry_pos fileSector bpb out = Some (out @ file_output d bpb (c # cl))"
  using assms(2) print_clusters_chain [OF assms(1,3)]
  by (auto simp: pvt_PrintFatFile_def entry_first_cluster_def split: bind_splits)

lemma pvt_PrintFatFile_returns_chain:
  assumes "bytesPerSector bpb = 512"
    and "pvt_PrintFatFile F d entry_pos fileSector bpb out0 = Some out"
  shows "\<exists>c cl. entry_first_cluster fileSector entry_pos = Some c \<and> is_chain F d bpb (c # cl)
           \<and> out = out0 @ file_output d bpb (c # cl)"
  using assms(2) print_clusters_returns_chain [OF assms(1)]
  by (auto simp: pvt_PrintFatFile_def entry_first_cluster_def split: bind_splits)

text \<open>
  FAT_PrintFile is its directory search followed by pvt_PrintFatFile at the entry found.
\<close>

lemma bind_if_distrib:
  "(if c then a else b) \<bind> k = (if c then (a :: 'a option) \<bind> k else b \<bind> (k :: 'a \<Rightarrow> 'b option))"
  by simp

lemma bind_Let_distrib:
  "(let y = x in (f y :: 'a option)) \<bind> (k :: 'a \<Rightarrow> 'b option) = (let y = x in f y \<bind> k)"
  by simp

lemma print_step_Found:
  "print_step F d bpb (Returned (Found pos s)) =
     pvt_PrintFatFile F d pos s bpb [] \<bind> (\<lambda>out. Some (Returned (SUCCESS, out)))"
  by (cases "pvt_PrintFatFile F d pos s bpb []") simp_all

lemma print_step_Failed:
  "print_step F d bpb (Returned (Failed e)) = Some (Returned (e, []))"
  by simp

lemmas print_step_simps = print_step_Found print_step_Failed

lemma pf_short_name_eq:
  "pf_short_name F d bpb n l S st a = find_short_name F d bpb n l S st a \<bind> print_step F d bpb"
  unfolding pf_short_name_def find_short_name_def
  by (simp add: bind_if_distrib print_step_simps del: print_step.simps(1) cong: if_cong)

lemma pf_long_name_eq:
  "pf_long_name F d bpb n cl s a S st b0 =
     find_long_name F d bpb n cl s a S st b0 \<bind> print_step F d bpb"
  unfolding pf_long_name_def find_long_name_def
  by (simp add: bind_if_distrib bind_Let_distrib print_step_simps
      del: print_step.simps(1) cong: if_cong)

lemma adjust_entry_cases:
  "(\<exists>st'. (adjust_entry st :: 'a step) = Broke st' \<and> (adjust_entry st :: 'b step) = Broke st')
   \<or> (\<exists>st'. (adjust_entry st :: 'a step) = Stepped st'
            \<and> (adjust_entry st :: 'b step) = Stepped st')"
  by (simp add: adjust_entry_def Let_def)

lemma pf_entry_eq:
  "pf_entry F d bpb n l cl s a S st =
     find_entry F d bpb n l cl s a S st \<bind> print_step F d bpb"
  using adjust_entry_cases [of st, where 'a = "fat_error \<times> u8 list" and 'b = search_result]
  unfolding pf_entry_def find_entry_def
  by (auto simp add: bind_if_distrib pf_long_name_eq pf_short_name_eq print_step_simps
      simp del: print_step.simps(1) cong: if_cong)

lemma pf_entries_of_find:
  assumes "find_entries F d bpb n l cl s a S st = Some x"
  shows "pf_entries F d bpb n l cl s a S st = print_step F d bpb x"
proof (rule find_entries.raw_induct
    [where P = "\<lambda>F d bpb n l cl s a S st x.
        pf_entries F d bpb n l cl s a S st = print_step F d bpb x", OF _ assms], goal_cases)
  case (1 find_entries' F d bpb n l cl s a S st x)
  show ?case
  proof (cases "entry st < bytesPerSector bpb")
    case False
    with 1(2) show ?thesis
      by (subst pf_entries.simps) auto
  next
    case True
    show ?thesis
    proof (cases "find_entry F d bpb n l cl s a S st")
      case None
      with 1(2) True show ?thesis by simp
    next
      case (Some y)
      show ?thesis
      proof (cases y)
        case (Returned r)
        with 1(2) True Some have x: "x = Returned r" by simp
        show ?thesis
          by (subst pf_entries.simps)
             (cases "print_found F d bpb r"; simp add: True pf_entry_eq Some Returned x)
      next
        case (Broke st')
        with 1(2) True Some have x: "x = Broke st'" by simp
        show ?thesis
          by (subst pf_entries.simps) (simp add: True pf_entry_eq Some Broke x)
      next
        case (Stepped st')
        with 1(2) True Some
        have "find_entries' F d bpb n l cl s a S (st'\<lparr>entry := entry st' + ENTRY_LEN\<rparr>) = Some x"
          by simp
        from 1(1) [OF this] show ?thesis
          by (subst pf_entries.simps) (simp add: True pf_entry_eq Some Stepped)
      qed
    qed
  qed
qed

lemma find_entries_of_pf:
  assumes "pf_entries F d bpb n l cl s a S st = Some r"
  shows "find_entries F d bpb n l cl s a S st \<bind> print_step F d bpb = Some r"
proof (rule pf_entries.raw_induct
    [where P = "\<lambda>F d bpb n l cl s a S st r.
        find_entries F d bpb n l cl s a S st \<bind> print_step F d bpb = Some r", OF _ assms],
    goal_cases)
  case (1 pf_entries' F d bpb n l cl s a S st r)
  show ?case
  proof (cases "entry st < bytesPerSector bpb")
    case False
    with 1(2) show ?thesis
      by (subst find_entries.simps) auto
  next
    case True
    show ?thesis
    proof (cases "find_entry F d bpb n l cl s a S st")
      case None
      with 1(2) True show ?thesis by (simp add: pf_entry_eq)
    next
      case (Some y)
      show ?thesis
      proof (cases y)
        case (Returned q)
        with 1(2) True Some show ?thesis
          by (subst find_entries.simps)
             (cases "print_found F d bpb q"; auto simp add: pf_entry_eq)
      next
        case (Broke st')
        with 1(2) True Some show ?thesis
          by (subst find_entries.simps) (auto simp add: pf_entry_eq)
      next
        case (Stepped st')
        with 1(2) True Some
        have "pf_entries' F d bpb n l cl s a S (st'\<lparr>entry := entry st' + ENTRY_LEN\<rparr>) = Some r"
          by (simp add: pf_entry_eq)
        from 1(1) [OF this] show ?thesis
          by (subst find_entries.simps) (simp add: True Some Stepped)
      qed
    qed
  qed
qed

lemma pf_entries_eq:
  "pf_entries F d bpb n l cl s a S st =
     find_entries F d bpb n l cl s a S st \<bind> print_step F d bpb"
proof (cases "pf_entries F d bpb n l cl s a S st")
  case (Some r)
  with find_entries_of_pf [OF Some] show ?thesis by simp
next
  case None
  show ?thesis
  proof (cases "find_entries F d bpb n l cl s a S st")
    case (Some x)
    from pf_entries_of_find [OF Some] show ?thesis by (simp add: Some)
  next
    case None': None
    with None show ?thesis by simp
  qed
qed

lemma pf_sectors_eq:
  "pf_sectors F d bpb n l cl s st = find_sectors F d bpb n l cl s st \<bind> print_step F d bpb"
proof (induction F d bpb n l cl s st rule: find_sectors.induct)
  case (1 F d bpb n l cl s st)
  let ?a = "sector_of_cluster bpb cl s"
  let ?S = "fat_ReadSingleSector d ?a"
  show ?case
  proof (cases "s < ucast (sectorsPerCluster bpb)")
    case False
    then show ?thesis
      by (subst pf_sectors.simps, subst find_sectors.simps) simp
  next
    case True
    show ?thesis
    proof (cases "find_entries F d bpb n l cl s ?a ?S (st\<lparr>entry := 0\<rparr>)")
      case None
      with True show ?thesis
        by (subst pf_sectors.simps, subst find_sectors.simps) (simp add: pf_entries_eq Let_def)
    next
      case (Some y)
      show ?thesis
      proof (cases y)
        case (Returned q)
        with True Some show ?thesis
          by (subst pf_sectors.simps, subst find_sectors.simps)
             (cases "print_found F d bpb q"; simp add: pf_entries_eq Let_def)
      next
        case (Broke st')
        with True Some "1.IH"(1) [OF True refl refl Some [unfolded Broke]] show ?thesis
          by (subst pf_sectors.simps, subst find_sectors.simps) (simp add: pf_entries_eq Let_def)
      next
        case (Stepped st')
        with True Some "1.IH"(2) [OF True refl refl Some [unfolded Stepped]] show ?thesis
          by (subst pf_sectors.simps, subst find_sectors.simps) (simp add: pf_entries_eq Let_def)
      qed
    qed
  qed
qed

lemma pf_clusters_eq:
  "pf_clusters F d bpb n l cl k st = find_clusters F d bpb n l cl k st \<bind> print_found F d bpb"
proof (induction F d bpb n l cl k st rule: find_clusters.induct)
  case (1 F d bpb n l cl k st)
  show ?case
  proof (cases "find_sectors F d bpb n l cl 0 st")
    case None
    then show ?thesis
      by (subst pf_clusters.simps, subst find_clusters.simps) (simp add: pf_sectors_eq)
  next
    case (Some y)
    show ?thesis
    proof (cases y)
      case (Returned q)
      with Some show ?thesis
        by (subst pf_clusters.simps, subst find_clusters.simps)
           (cases "print_found F d bpb q"; simp add: pf_sectors_eq)
    next
      case (Broke st')
      show ?thesis
      proof (cases "pvt_GetNextCluster d cl bpb")
        case None
        with Some Broke show ?thesis
          by (subst pf_clusters.simps, subst find_clusters.simps) (simp add: pf_sectors_eq)
      next
        case nx: (Some c)
        show ?thesis
        proof (cases "c \<noteq> END_OF_CLUSTER F \<and> k + 1 < 5")
          case True
          from "1.IH"(1) [OF Some Broke nx True] Some Broke nx True show ?thesis
            by (subst pf_clusters.simps, subst find_clusters.simps) (simp add: pf_sectors_eq)
        next
          case False
          with Some Broke nx show ?thesis
            by (subst pf_clusters.simps, subst find_clusters.simps)
               (auto simp add: pf_sectors_eq)
        qed
      qed
    next
      case (Stepped st')
      show ?thesis
      proof (cases "pvt_GetNextCluster d cl bpb")
        case None
        with Some Stepped show ?thesis
          by (subst pf_clusters.simps, subst find_clusters.simps) (simp add: pf_sectors_eq)
      next
        case nx: (Some c)
        show ?thesis
        proof (cases "c \<noteq> END_OF_CLUSTER F \<and> k + 1 < 5")
          case True
          from "1.IH"(2) [OF Some Stepped nx True] Some Stepped nx True show ?thesis
            by (subst pf_clusters.simps, subst find_clusters.simps) (simp add: pf_sectors_eq)
        next
          case False
          with Some Stepped nx show ?thesis
            by (subst pf_clusters.simps, subst find_clusters.simps)
               (auto simp add: pf_sectors_eq)
        qed
      qed
    qed
  qed
qed

lemma FAT_PrintFile_eq_search:
  "FAT_PrintFile F d currentDirectory fileNameStr bpb =
     FAT_PrintFile_search F d currentDirectory fileNameStr bpb \<bind> print_found F d bpb"
  by (simp add: FAT_PrintFile_def FAT_PrintFile_search_def Let_def pf_clusters_eq)

lemma FAT_PrintFile_success_streams_whole_chain:
  assumes "bytesPerSector bpb = 512"
    and "FAT_PrintFile_search F d currentDirectory fileNameStr bpb
           = Some (Found entry_pos fileSector)"
    and "FAT_PrintFile F d currentDirectory fileNameStr bpb = Some (e, out)"
  shows "e = SUCCESS
         \<and> (\<exists>c cl. entry_first_cluster fileSector entry_pos = Some c
                \<and> is_chain F d bpb (c # cl) \<and> out = file_output d bpb (c # cl))"
proof -
  from assms(2,3) obtain o' where o: "pvt_PrintFatFile F d entry_pos fileSector bpb [] = Some o'"
    and e: "e = SUCCESS" "out = o'"
    by (auto simp: FAT_PrintFile_eq_search split: bind_splits)
  from pvt_PrintFatFile_returns_chain [OF assms(1) o] e show ?thesis by simp
qed

lemma print_zeros: "concat (map print_byte (replicate n 0)) = []"
  by (induction n) (simp_all add: print_byte_def)

lemma example_cluster_bytes:
  "cluster_bytes example_volume example_bpb 4 = 0x41 # replicate 511 0"
  "cluster_bytes example_volume example_bpb 5 = 0x42 # replicate 511 0"
  "cluster_bytes example_volume example_bpb 6 = 0x43 # replicate 511 0"
  "cluster_bytes example_volume example_bpb 7 = 0x44 # replicate 511 0"
  "cluster_bytes example_volume example_bpb 8 = 0x45 # replicate 511 0"
  "cluster_bytes example_volume example_bpb 9 = 0x46 # replicate 511 0"
  by (simp_all add: cluster_bytes_def example_bpb_def sector_of_cluster_def
      fat_ReadSingleSector_def example_volume_def)

lemma example_file_output:
  "file_output example_volume example_bpb [4, 5, 6, 7, 8, 9] =
     [0x0A, 0x0A, 0x0D, 0x41, 0x0A, 0x0A, 0x0D, 0x42, 0x0A, 0x0A, 0x0D, 0x43,
      0x0A, 0x0A, 0x0D, 0x44, 0x0A, 0x0A, 0x0D, 0x45, 0x0A, 0x0A, 0x0D, 0x46]"
  by (simp add: file_output_def example_cluster_bytes print_zeros) (simp add: print_byte_def)

lemma example_chain: "is_chain example_fat_defs example_volume example_bpb [4, 5, 6, 7, 8, 9]"
  by code_simp


lemma example_rd:
  "rd (fat_ReadSingleSector example_volume 64) 0 = Some 0x41"
  "rd (fat_ReadSingleSector example_volume 64) 11 = Some 0x10"
  "rd (fat_ReadSingleSector example_volume 64) 32 = Some 0x48"
  "rd (fat_ReadSingleSector example_volume 64) 43 = Some 0x20"
  "rd (fat_ReadSingleSector example_volume 64) 52 = Some 0"
  "rd (fat_ReadSingleSector example_volume 64) 53 = Some 0"
  "rd (fat_ReadSingleSector example_volume 64) 58 = Some 4"
  "rd (fat_ReadSingleSector example_volume 64) 59 = Some 0"
  by code_simp+

lemma example_file_output_five:
  "file_output example_volume example_bpb [4, 5, 6, 7, 8] =
     [0x0A, 0x0A, 0x0D, 0x41, 0x0A, 0x0A, 0x0D, 0x42, 0x0A, 0x0A, 0x0D, 0x43,
      0x0A, 0x0A, 0x0D, 0x44, 0x0A, 0x0A, 0x0D, 0x45]"
  by (simp add: file_output_def example_cluster_bytes print_zeros) (simp add: print_byte_def)

lemma example_print:
  "pvt_PrintFatFile example_fat_defs example_volume 32 (fat_ReadSingleSector example_volume 64)
     example_bpb [] = Some (file_output example_volume example_bpb [4, 5, 6, 7, 8, 9])"
proof -
  have b: "bytesPerSector example_bpb = 512" by (simp add: example_bpb_def)
  have w: "word32_of 0 0 0 4 = 4" by (simp add: word32_of_def)
  from print_clusters_chain [OF b example_chain, of "[]"] show ?thesis
    by (simp add: pvt_PrintFatFile_def example_rd w)
qed

lemma example_search:
  "FAT_PrintFile_search example_fat_defs example_volume (root_cursor example_bpb)
     (cstr ''HELLO.TXT'') example_bpb
     = Some (Found 32 (fat_ReadSingleSector example_volume 64))"
  by code_simp

lemma example_first_cluster:
  "entry_first_cluster (fat_ReadSingleSector example_volume 64) 32 = Some 4"
  by (simp add: entry_first_cluster_def example_rd word32_of_def)

lemma example_match:
  "pf_short_name_match (cstr ''HELLO.TXT'') 9 (fat_ReadSingleSector example_volume 64)
     (initial_walk_state\<lparr>entry := 32\<rparr>) 0x20 = Some True"
  "pf_short_name_match (cstr ''HELLO.TXT'') 9 (fat_ReadSingleSector example_volume 64)
     (initial_walk_state\<lparr>entry := 0\<rparr>) 0x10 = Some False"
  by code_simp+

lemma example_walk:
  "FAT_PrintFile example_fat_defs example_volume (root_cursor example_bpb) (cstr ''HELLO.TXT'')
     example_bpb = Some (SUCCESS, file_output example_volume example_bpb [4, 5, 6, 7, 8, 9])"
proof -
  let ?S = "fat_ReadSingleSector example_volume 64"
  let ?n = "cstr ''HELLO.TXT''"
  have s: "sector_of_cluster example_bpb 2 0 = 64"
    by (simp add: sector_of_cluster_def example_bpb_def)
  have spc: "sectorsPerCluster example_bpb = 1" "bytesPerSector example_bpb = 512"
    "rootCluster example_bpb = 2"
    by (simp_all add: example_bpb_def)
  have st: "entry (initial_walk_state\<lparr>entry := e\<rparr>) = e"
    "adjust_entry (initial_walk_state\<lparr>entry := e\<rparr>) = Stepped (initial_walk_state\<lparr>entry := e\<rparr>)"
    for e
    by (simp_all add: adjust_entry_def initial_walk_state_def)
  have e0: "pf_entry example_fat_defs example_volume example_bpb ?n 9 2 0 64 ?S
      (initial_walk_state\<lparr>entry := 0\<rparr>) = Some (Stepped (initial_walk_state\<lparr>entry := 0\<rparr>))"
    by (simp add: pf_entry_def st example_rd pf_short_name_def example_match
        LONG_NAME_ATTR_MASK_def)
  have e1: "pf_entry example_fat_defs example_volume example_bpb ?n 9 2 0 64 ?S
      (initial_walk_state\<lparr>entry := 32\<rparr>)
     = Some (Returned (SUCCESS, file_output example_volume example_bpb [4, 5, 6, 7, 8, 9]))"
    by (simp add: pf_entry_def st example_rd pf_short_name_def example_match
        LONG_NAME_ATTR_MASK_def example_print)
  have es: "pf_entries example_fat_defs example_volume example_bpb ?n 9 2 0 64 ?S
      (initial_walk_state\<lparr>entry := 0\<rparr>)
     = Some (Returned (SUCCESS, file_output example_volume example_bpb [4, 5, 6, 7, 8, 9]))"
    apply (subst pf_entries.simps)
    apply (simp add: st spc e0 ENTRY_LEN_def)
    apply (subst pf_entries.simps)
    apply (simp add: st spc e1)
    done
  have name: "length ?n = 9" "?n \<noteq> []" "hd ?n \<noteq> 0x20"
    "\<not> list_ex (\<lambda>c. c \<in> set illegalCharacters) ?n" "list_ex (\<lambda>c. c \<noteq> 0x20) ?n"
    by (simp_all add: cstr_def illegalCharacters_def)
  have i0: "initial_walk_state\<lparr>entry := 0\<rparr> = initial_walk_state"
    by (simp add: initial_walk_state_def)
  show ?thesis
    apply (simp add: FAT_PrintFile_def name root_cursor_def spc)
    apply (subst pf_clusters.simps)
    apply (subst pf_sectors.simps)
    apply (simp add: spc s Let_def es)
    done
qed

text \<open>
  Claim C2 says that FAT_PrintFile streams only the first 5 clusters of a file whose
  cluster chain is longer. The loop of pvt_PrintFatFile over the clusters of the file
  (lines 1611-1633) has no counter and runs until the FAT gives END_OF_CLUSTER. So, with
  512 bytes per sector, for every file that the directory search of FAT_PrintFile finds
  from the current directory and whose cluster chain, of any length, ends with
  END_OF_CLUSTER, FAT_PrintFile transmits for each cluster of the chain, in order, a line
  feed, a line feed and a carriage return and then the bytes of the cluster (a line feed
  as line feed and carriage return, no zero bytes), and returns SUCCESS.
\<close>

theorem FAT_PrintFile_streams_whole_chain:
  assumes "bytesPerSector bpb = 512"
    and "FAT_PrintFile_search F d currentDirectory fileNameStr bpb
           = Some (Found entry_pos fileSector)"
    and "entry_first_cluster fileSector entry_pos = Some c"
    and "is_chain F d bpb (c # cl)"
  shows "FAT_PrintFile F d currentDirectory fileNameStr bpb
           = Some (SUCCESS, file_output d bpb (c # cl))"
  using pvt_PrintFatFile_chain [OF assms(1,3,4), of "[]"]
  by (simp add: FAT_PrintFile_eq_search assms(2))

theorem FAT_PrintFile_streams_whole_chain_witness:
  "bytesPerSector example_bpb = 512
   \<and> FAT_PrintFile_search example_fat_defs example_volume (root_cursor example_bpb)
        (cstr ''HELLO.TXT'') example_bpb
      = Some (Found 32 (fat_ReadSingleSector example_volume 64))
   \<and> entry_first_cluster (fat_ReadSingleSector example_volume 64) 32 = Some 4
   \<and> is_chain example_fat_defs example_volume example_bpb (4 # [5, 6, 7, 8, 9])
   \<and> FAT_PrintFile example_fat_defs example_volume (root_cursor example_bpb)
        (cstr ''HELLO.TXT'') example_bpb
      = Some (SUCCESS,
          [0x0A, 0x0A, 0x0D, 0x41, 0x0A, 0x0A, 0x0D, 0x42, 0x0A, 0x0A, 0x0D, 0x43,
           0x0A, 0x0A, 0x0D, 0x44, 0x0A, 0x0A, 0x0D, 0x45, 0x0A, 0x0A, 0x0D, 0x46])"
proof -
  have b: "bytesPerSector example_bpb = 512" by (simp add: example_bpb_def)
  from FAT_PrintFile_streams_whole_chain
         [OF b example_search example_first_cluster example_chain]
       b example_search example_first_cluster example_chain
  show ?thesis by (simp add: example_file_output)
qed

text \<open>
  On the example volume the file HELLO.TXT of the root directory has the six clusters
  4, 5, 6, 7, 8 and 9, which begin with the letters A to F and hold zero bytes otherwise.
  FAT_PrintFile returns SUCCESS and has transmitted all six letters: the sixth cluster
  is streamed, against the cap of 5 clusters of claim C2.
\<close>

theorem FAT_PrintFile_streams_sixth_cluster:
  "is_chain example_fat_defs example_volume example_bpb [4, 5, 6, 7, 8, 9]
   \<and> FAT_PrintFile example_fat_defs example_volume (root_cursor example_bpb)
        (cstr ''HELLO.TXT'') example_bpb
      = Some (SUCCESS,
          [0x0A, 0x0A, 0x0D, 0x41, 0x0A, 0x0A, 0x0D, 0x42, 0x0A, 0x0A, 0x0D, 0x43,
           0x0A, 0x0A, 0x0D, 0x44, 0x0A, 0x0A, 0x0D, 0x45, 0x0A, 0x0A, 0x0D, 0x46])
   \<and> FAT_PrintFile example_fat_defs example_volume (root_cursor example_bpb)
        (cstr ''HELLO.TXT'') example_bpb
      \<noteq> Some (SUCCESS, file_output example_volume example_bpb [4, 5, 6, 7, 8])"
  using example_chain example_walk
  by (simp add: example_file_output example_file_output_five)

end
